theory Spec2Isabelle
  imports Main "HOL-Library.Word" "HOL-Library.Char_ord" "HOL-Library.List_Lexorder"
    "HOL-Library.Multiset"
begin

section \<open>Persistence: \<open>src/db/database.ts\<close>\<close>

text \<open>
  The three tables of \<open>initializeSchema\<close> are lists of rows in insertion (rowid) order.
  The columns are stored as SQLite stores them: \<open>status\<close> and \<open>role\<close> are TEXT columns
  guarded by a CHECK constraint, the timestamps are INTEGER columns.  The TypeScript
  union types \<open>'active' | 'completed' | 'error'\<close> and \<open>'user' | 'assistant' | 'system'\<close>
  are datatypes, written into the column as their text.

  \<open>Date.now()\<close> and \<open>Math.random()\<close> are inputs of the environment: every method that
  reads one takes the value read as an argument, one argument per read.
\<close>

datatype session_status = Active | Completed | Error

fun status_text :: "session_status \<Rightarrow> string" where
  "status_text Active = ''active''"
| "status_text Completed = ''completed''"
| "status_text Error = ''error''"

datatype message_role = User | Assistant | System

fun role_text :: "message_role \<Rightarrow> string" where
  "role_text User = ''user''"
| "role_text Assistant = ''assistant''"
| "role_text System = ''system''"

record Session =
  id_s :: string
  created_at :: int
  updated_at :: int
  status :: string
  query :: "string option"

record Message =
  id_m :: string
  session_id_m :: string
  role :: string
  content :: string
  timestamp_m :: int

record ResearchArtifact =
  id_a :: string
  session_id_a :: string
  data_json :: string
  source_a :: string
  timestamp_a :: int

text \<open>
  The database: the three tables and the \<open>foreign_keys\<close> pragma of the connection.  The
  source never sets the pragma, so whether the \<open>FOREIGN KEY ... ON DELETE CASCADE\<close>
  clauses are enforced is decided by the SQLite build; both settings are modelled.
\<close>

record database =
  sessions :: "Session list"
  messages :: "Message list"
  research_artifacts :: "ResearchArtifact list"
  foreign_keys :: bool

datatype sqlite_error =
    SQLITE_CONSTRAINT_PRIMARYKEY
  | SQLITE_CONSTRAINT_CHECK
  | SQLITE_CONSTRAINT_FOREIGNKEY

text \<open>The state \<open>initializeSchema\<close> leaves on a new database file: three empty tables.\<close>

definition initializeSchema :: "bool \<Rightarrow> database" where
  "initializeSchema fk =
     \<lparr>sessions = [], messages = [], research_artifacts = [], foreign_keys = fk\<rparr>"

text \<open>\<open>CHECK(status IN ('active', 'completed', 'error'))\<close> and the CHECK on \<open>role\<close>.\<close>

definition status_check :: "string \<Rightarrow> bool" where
  "status_check s = (s \<in> set [''active'', ''completed'', ''error''])"

definition role_check :: "string \<Rightarrow> bool" where
  "role_check r = (r \<in> set [''user'', ''assistant'', ''system''])"

definition session_exists :: "database \<Rightarrow> string \<Rightarrow> bool" where
  "session_exists db i = (i \<in> set (map id_s (sessions db)))"

text \<open>
  \<open>createSession(id, query)\<close>: builds the session object from one reading of the clock
  and inserts it.  \<open>stmt.run\<close> throws when the CHECK fails or the primary key is taken;
  then nothing is inserted and nothing is returned.
\<close>

definition createSession ::
  "database \<Rightarrow> string \<Rightarrow> string option \<Rightarrow> int \<Rightarrow> sqlite_error + (database \<times> Session)" where
  "createSession db i q now =
     (let session = \<lparr>id_s = i, created_at = now, updated_at = now,
                      status = status_text Active, query = q\<rparr>
      in if \<not> status_check (status session) then Inl SQLITE_CONSTRAINT_CHECK
         else if session_exists db (id_s session) then Inl SQLITE_CONSTRAINT_PRIMARYKEY
         else Inr (db\<lparr>sessions := sessions db @ [session]\<rparr>, session))"

text \<open>
  \<open>getSession(id)\<close>: \<open>SELECT * FROM sessions WHERE id = ?\<close>, first row or nothing.
  The result is \<open>Session | null\<close> in the source, an option here.
\<close>

definition getSession :: "database \<Rightarrow> string \<Rightarrow> sqlite_error + Session option" where
  "getSession db i = Inr (find (\<lambda>s. id_s s = i) (sessions db))"

text \<open>\<open>updateSessionStatus(id, status)\<close>: one UPDATE, with one reading of the clock.\<close>

definition updateSessionStatus ::
  "database \<Rightarrow> string \<Rightarrow> session_status \<Rightarrow> int \<Rightarrow> sqlite_error + database" where
  "updateSessionStatus db i st now =
     (if session_exists db i \<and> \<not> status_check (status_text st) then Inl SQLITE_CONSTRAINT_CHECK
      else Inr (db\<lparr>sessions :=
             map (\<lambda>s. if id_s s = i then s\<lparr>status := status_text st, updated_at := now\<rparr> else s)
                 (sessions db)\<rparr>))"

text \<open>
  \<open>deleteSession(id)\<close>: the DELETE; with foreign keys enforced, \<open>ON DELETE CASCADE\<close>
  removes the messages and artifacts of the session as well.
\<close>

definition deleteSession :: "database \<Rightarrow> string \<Rightarrow> sqlite_error + database" where
  "deleteSession db i =
     (let db1 = db\<lparr>sessions := filter (\<lambda>s. id_s s \<noteq> i) (sessions db)\<rparr>
      in if foreign_keys db \<and> session_exists db i
         then Inr (db1\<lparr>messages := filter (\<lambda>m. session_id_m m \<noteq> i) (messages db),
                       research_artifacts :=
                         filter (\<lambda>a. session_id_a a \<noteq> i) (research_artifacts db)\<rparr>)
         else Inr db1)"


subsection \<open>Messages and research artifacts\<close>

text \<open>
  How a template literal, \<open>String\<close> and \<open>JSON.stringify\<close> print a number.  The numbers
  of the model are the integers; an integer \<open>i\<close> stands for the Number value nearest
  to it (\<open>to_double\<close>: 53 significant bits, a tie goes to the even neighbour), which is
  \<open>i\<close> itself below \<open>2^53\<close> and \<open>Infinity\<close> from \<open>2^1024\<close> on.  \<open>Number::toString\<close>
  prints the shortest decimal that denotes the same Number value (\<open>shortest_decimal\<close>:
  from the coarsest power of ten down, the multiple below or above, whichever is nearer),
  padded with zeros up to 21 digits and in exponent notation beyond.
\<close>

definition digit_char :: "nat \<Rightarrow> char" where
  "digit_char d = ''0123456789'' ! (d mod 10)"

fun decimal_digits :: "nat \<Rightarrow> string \<Rightarrow> string" where
  "decimal_digits n acc =
     (if 10 \<le> n then decimal_digits (n div 10) (digit_char (n mod 10) # acc)
      else digit_char n # acc)"

fun bit_length :: "nat \<Rightarrow> nat" where
  "bit_length n = (if n = 0 then 0 else Suc (bit_length (n div 2)))"

definition to_double :: "nat \<Rightarrow> nat" where
  "to_double n =
     (if n < 2 ^ 53 then n
      else (let e = bit_length n - 53;
                q = n div 2 ^ e;
                r = n mod 2 ^ e;
                half = 2 ^ (e - 1)
            in (if half < r \<or> (r = half \<and> odd q) then q + 1 else q) * 2 ^ e))"

fun shortest_from :: "nat \<Rightarrow> nat \<Rightarrow> nat" where
  "shortest_from 0 x = x"
| "shortest_from (Suc d) x =
     (let below = x div 10 ^ Suc d * 10 ^ Suc d;
          above = below + 10 ^ Suc d;
          b = (to_double below = x);
          a = (to_double above = x)
      in if b \<and> a
         then (if x - below < above - x \<or> (x - below = above - x \<and> even (x div 10 ^ Suc d))
               then below else above)
         else if b then below
         else if a then above
         else shortest_from d x)"

definition shortest_decimal :: "nat \<Rightarrow> nat" where
  "shortest_decimal x =
     (if x < 2 ^ 53 then x else shortest_from (length (decimal_digits x []) - 1) x)"

definition strip_zeros :: "string \<Rightarrow> string" where
  "strip_zeros ds = rev (dropWhile (\<lambda>c. c = CHR ''0'') (rev ds))"

definition digits_text :: "nat \<Rightarrow> string" where
  "digits_text v =
     (let ds = decimal_digits v []
      in if length ds \<le> 21 then ds
         else (let s = strip_zeros ds
               in hd s # (if tl s = [] then [] else CHR ''.'' # tl s) @ ''e+'' @
                  decimal_digits (length ds - 1) []))"

definition is_finite :: "int \<Rightarrow> bool" where
  "is_finite i = (to_double (nat \<bar>i\<bar>) < 2 ^ 1024)"

definition Number_toString :: "int \<Rightarrow> string" where
  "Number_toString i =
     (if i < 0 then ''-'' else []) @
     (if is_finite i then digits_text (shortest_decimal (to_double (nat \<bar>i\<bar>)))
      else ''Infinity'')"

text \<open>\<open>BigInt.prototype.toString\<close>: every digit.\<close>

definition BigInt_toString :: "int \<Rightarrow> string" where
  "BigInt_toString i = (if i < 0 then ''-'' else []) @ decimal_digits (nat \<bar>i\<bar>) []"

text \<open>
  \<open>addMessage(sessionId, role, content)\<close>.  The object literal reads the clock for the id,
  then \<open>Math.random()\<close> (\<open>rnd\<close> is its base-36 rendering, cut by \<open>substr(2, 9)\<close>), then
  the clock again for the timestamp.  The INSERT throws on a CHECK, primary key or
  (when enforced) foreign key violation.
\<close>

definition new_message ::
  "string \<Rightarrow> message_role \<Rightarrow> string \<Rightarrow> int \<Rightarrow> string \<Rightarrow> int \<Rightarrow> Message" where
  "new_message sessionId r c now_id rnd now_ts =
     \<lparr>id_m = ''msg_'' @ Number_toString now_id @ ''_'' @ rnd,
      session_id_m = sessionId, role = role_text r, content = c, timestamp_m = now_ts\<rparr>"

definition addMessage ::
  "database \<Rightarrow> string \<Rightarrow> message_role \<Rightarrow> string \<Rightarrow> int \<Rightarrow> string \<Rightarrow> int
     \<Rightarrow> sqlite_error + (database \<times> Message)" where
  "addMessage db sessionId r c now_id rnd now_ts =
     (let message = new_message sessionId r c now_id rnd now_ts
      in if \<not> role_check (role message) then Inl SQLITE_CONSTRAINT_CHECK
         else if id_m message \<in> set (map id_m (messages db)) then Inl SQLITE_CONSTRAINT_PRIMARYKEY
         else if foreign_keys db \<and> \<not> session_exists db (session_id_m message)
           then Inl SQLITE_CONSTRAINT_FOREIGNKEY
         else Inr (db\<lparr>messages := messages db @ [message]\<rparr>, message))"

text \<open>
  \<open>getSessionMessages(sessionId)\<close>: \<open>WHERE session_id = ? ORDER BY timestamp ASC\<close>.
  SQLite visits the rows in rowid order and its sorter keeps rows with equal keys in the
  order it met them: the ORDER BY is a stable sort of the table order.
\<close>

definition getSessionMessages :: "database \<Rightarrow> string \<Rightarrow> sqlite_error + Message list" where
  "getSessionMessages db sessionId =
     Inr (sort_key timestamp_m (filter (\<lambda>m. session_id_m m = sessionId) (messages db)))"

text \<open>
  \<open>addResearchArtifact(sessionId, data, source)\<close>; \<open>dj\<close> is \<open>JSON.stringify(data)\<close>.
\<close>

definition new_artifact ::
  "string \<Rightarrow> string \<Rightarrow> string \<Rightarrow> int \<Rightarrow> string \<Rightarrow> int \<Rightarrow> ResearchArtifact" where
  "new_artifact sessionId dj src now_id rnd now_ts =
     \<lparr>id_a = ''artifact_'' @ Number_toString now_id @ ''_'' @ rnd,
      session_id_a = sessionId, data_json = dj, source_a = src, timestamp_a = now_ts\<rparr>"

definition addResearchArtifact ::
  "database \<Rightarrow> string \<Rightarrow> string \<Rightarrow> string \<Rightarrow> int \<Rightarrow> string \<Rightarrow> int
     \<Rightarrow> sqlite_error + (database \<times> ResearchArtifact)" where
  "addResearchArtifact db sessionId dj src now_id rnd now_ts =
     (let artifact = new_artifact sessionId dj src now_id rnd now_ts
      in if id_a artifact \<in> set (map id_a (research_artifacts db))
           then Inl SQLITE_CONSTRAINT_PRIMARYKEY
         else if foreign_keys db \<and> \<not> session_exists db (session_id_a artifact)
           then Inl SQLITE_CONSTRAINT_FOREIGNKEY
         else Inr (db\<lparr>research_artifacts := research_artifacts db @ [artifact]\<rparr>, artifact))"

definition getSessionArtifacts ::
  "database \<Rightarrow> string \<Rightarrow> sqlite_error + ResearchArtifact list" where
  "getSessionArtifacts db sessionId =
     Inr (sort_key timestamp_a
            (filter (\<lambda>a. session_id_a a = sessionId) (research_artifacts db)))"

subsection \<open>Sequences of calls\<close>

text \<open>
  A client of \<open>DatabaseService\<close> is a sequence of calls of its writing methods, each with
  the clock and random readings it made.  An exception of a call propagates: the sequence
  stops there.
\<close>

datatype db_call =
    CreateSession string "string option" int
  | UpdateSessionStatus string session_status int
  | DeleteSession string
  | AddMessage string message_role string int string int
  | AddResearchArtifact string string string int string int

fun db_step :: "database \<Rightarrow> db_call \<Rightarrow> sqlite_error + database" where
  "db_step db (CreateSession i q now) = map_sum id fst (createSession db i q now)"
| "db_step db (UpdateSessionStatus i st now) = updateSessionStatus db i st now"
| "db_step db (DeleteSession i) = deleteSession db i"
| "db_step db (AddMessage s r c t1 rnd t2) = map_sum id fst (addMessage db s r c t1 rnd t2)"
| "db_step db (AddResearchArtifact s dj src t1 rnd t2) =
     map_sum id fst (addResearchArtifact db s dj src t1 rnd t2)"

fun db_run :: "database \<Rightarrow> db_call list \<Rightarrow> sqlite_error + database" where
  "db_run db [] = Inr db"
| "db_run db (c # cs) = (case db_step db c of Inl e \<Rightarrow> Inl e | Inr db' \<Rightarrow> db_run db' cs)"


text \<open>Reading a session's history after a sequence of calls.\<close>

definition messages_after ::
  "database \<Rightarrow> db_call list \<Rightarrow> string \<Rightarrow> sqlite_error + Message list" where
  "messages_after db cs sessionId =
     (case db_run db cs of Inl e \<Rightarrow> Inl e | Inr db' \<Rightarrow> getSessionMessages db' sessionId)"

definition artifacts_after ::
  "database \<Rightarrow> db_call list \<Rightarrow> string \<Rightarrow> sqlite_error + ResearchArtifact list" where
  "artifacts_after db cs sessionId =
     (case db_run db cs of Inl e \<Rightarrow> Inl e | Inr db' \<Rightarrow> getSessionArtifacts db' sessionId)"

subsection \<open>Notions the properties of the store are stated with\<close>

text \<open>The appending calls, and the rows they build, in call order.\<close>

fun is_append :: "db_call \<Rightarrow> bool" where
  "is_append (AddMessage s r c t1 rnd t2) = True"
| "is_append (AddResearchArtifact s dj src t1 rnd t2) = True"
| "is_append _ = False"

fun appended_messages :: "db_call list \<Rightarrow> Message list" where
  "appended_messages [] = []"
| "appended_messages (AddMessage s r c t1 rnd t2 # cs) =
     new_message s r c t1 rnd t2 # appended_messages cs"
| "appended_messages (_ # cs) = appended_messages cs"

fun appended_artifacts :: "db_call list \<Rightarrow> ResearchArtifact list" where
  "appended_artifacts [] = []"
| "appended_artifacts (AddResearchArtifact s dj src t1 rnd t2 # cs) =
     new_artifact s dj src t1 rnd t2 # appended_artifacts cs"
| "appended_artifacts (_ # cs) = appended_artifacts cs"

text \<open>The rows of one session, in insertion order.\<close>

definition session_messages :: "database \<Rightarrow> string \<Rightarrow> Message list" where
  "session_messages db sessionId = filter (\<lambda>m. session_id_m m = sessionId) (messages db)"

definition session_artifacts :: "database \<Rightarrow> string \<Rightarrow> ResearchArtifact list" where
  "session_artifacts db sessionId =
     filter (\<lambda>a. session_id_a a = sessionId) (research_artifacts db)"

text \<open>The status domain of the sessions table, and referential integrity.\<close>

definition status_domain :: "database \<Rightarrow> bool" where
  "status_domain db = list_all (\<lambda>s. status_check (status s)) (sessions db)"

definition fk_consistent :: "database \<Rightarrow> bool" where
  "fk_consistent db =
     (list_all (\<lambda>m. session_exists db (session_id_m m)) (messages db) \<and>
      list_all (\<lambda>a. session_exists db (session_id_a a)) (research_artifacts db))"


section \<open>Cache: \<open>src/cache/cache-service.ts\<close>\<close>

subsection \<open>JavaScript values and \<open>JSON.stringify\<close>\<close>

text \<open>
  The values the cache and the providers handle: JSON data and BigInt values.  Numbers are
  the integer Number values (fractions and \<open>NaN\<close> are not modelled); strings are byte
  strings; an object lists its properties in insertion order.  A BigInt is among the values
  because \<open>JSON.stringify\<close> throws a \<open>TypeError\<close> for it, also inside an array or an
  object.  The other value it throws for, an object that contains itself, is not a finite
  tree and is not modelled.
\<close>

datatype json =
    JNull
  | JBool bool
  | JNumber int
  | JString string
  | JArray "json list"
  | JObject "(string \<times> json) list"
  | JBigInt int

text \<open>
  The exceptions: those of \<open>fs\<close> (by their error code), of \<open>JSON.parse\<close>, a
  \<open>TypeError\<close>, and an \<open>Error\<close> object with its message (\<open>JsError\<close>).
\<close>

datatype exn =
    ENOENT | EISDIR | ENOTDIR | EEXIST
  | EACCES | EPERM | EROFS | EBUSY | ENAMETOOLONG | ENOSPC
  | SyntaxError
  | TypeError
  | JsError string

text \<open>\<open>Array.prototype.join\<close>.\<close>

fun join :: "string \<Rightarrow> string list \<Rightarrow> string" where
  "join sep [] = []"
| "join sep [x] = x"
| "join sep (x # y # ys) = x @ sep @ join sep (y # ys)"

definition hex_nibble :: "nat \<Rightarrow> char" where
  "hex_nibble n = ''0123456789abcdef'' ! (n mod 16)"

text \<open>
  A quoted JSON string: the double quote and the backslash are escaped, the control characters
  are written with their short escape or as \<open>\u00XX\<close>.
\<close>

definition escape_char :: "char \<Rightarrow> string" where
  "escape_char c =
     (if c = CHR 0x22 then [CHR 0x5C, CHR 0x22]
      else if c = CHR 0x5C then [CHR 0x5C, CHR 0x5C]
      else if c = CHR 0x08 then [CHR 0x5C, CHR ''b'']
      else if c = CHR 0x0C then [CHR 0x5C, CHR ''f'']
      else if c = CHR 0x0A then [CHR 0x5C, CHR ''n'']
      else if c = CHR 0x0D then [CHR 0x5C, CHR ''r'']
      else if c = CHR 0x09 then [CHR 0x5C, CHR ''t'']
      else if (of_char c :: nat) < 32
        then [CHR 0x5C, CHR ''u'', CHR ''0'', CHR ''0'',
              hex_nibble (of_char c div 16), hex_nibble (of_char c)]
      else [c])"

definition json_quote :: "string \<Rightarrow> string" where
  "json_quote s = CHR 0x22 # concat (map escape_char s) @ [CHR 0x22]"

text \<open>The results of a loop whose body may throw: the first exception ends it.\<close>

fun collect :: "(exn + 'a) list \<Rightarrow> exn + 'a list" where
  "collect [] = Inr []"
| "collect (Inl e # rs) = Inl e"
| "collect (Inr x # rs) = (case collect rs of Inl e \<Rightarrow> Inl e | Inr xs \<Rightarrow> Inr (x # xs))"

text \<open>
  \<open>JSON.stringify\<close>: the text, or the \<open>TypeError\<close> it throws for a BigInt.  A number
  that is not finite is written \<open>null\<close>.
\<close>

fun JSON_stringify :: "json \<Rightarrow> exn + string" where
  "JSON_stringify JNull = Inr ''null''"
| "JSON_stringify (JBool b) = Inr (if b then ''true'' else ''false'')"
| "JSON_stringify (JNumber n) = Inr (if is_finite n then Number_toString n else ''null'')"
| "JSON_stringify (JString s) = Inr (json_quote s)"
| "JSON_stringify (JArray xs) =
     (case collect (map JSON_stringify xs) of
        Inl e \<Rightarrow> Inl e
      | Inr ts \<Rightarrow> Inr (''['' @ join '','' ts @ '']''))"
| "JSON_stringify (JObject kvs) =
     (case collect (map (\<lambda>kv. case JSON_stringify (snd kv) of
                                Inl e \<Rightarrow> Inl e
                              | Inr t \<Rightarrow> Inr (json_quote (fst kv) @ '':'' @ t)) kvs) of
        Inl e \<Rightarrow> Inl e
      | Inr ts \<Rightarrow> Inr (''{'' @ join '','' ts @ ''}''))"
| "JSON_stringify (JBigInt n) = Inl TypeError"

subsection \<open>The file system, as \<open>fs\<close> and \<open>path\<close> are used\<close>

text \<open>
  A path is the list of the segments of an absolute, normalised path.  The file system
  maps a path to a directory or to a file with its text (\<open>nodes\<close>).  A text is what
  \<open>JSON.parse\<close> makes of it: the text \<open>JSON.stringify\<close> wrote for a cache entry parses
  to that entry (the source types the parse result \<open>CacheEntry<T>\<close>), any other text
  does not parse.  The layout of the text on disk is not modelled, nor is a file with JSON
  text that is not an entry, which \<open>set\<close> never writes.

  The operating system may refuse a call for a reason that is not in the tree of files:
  permissions (EACCES, EPERM), a read-only file system (EROFS), a file in use (EBUSY), a
  full disk (ENOSPC).  \<open>refused\<close> says which calls it refuses, at which path and with
  which error; the properties hold for every such function.  A refusal comes before the
  call has changed anything.
\<close>

record 'a CacheEntry =
  data :: 'a
  timestamp :: int
  key :: string

datatype file_text = Stringified "json CacheEntry" | Unparseable string

datatype node = Dir | File file_text

type_synonym path = "string list"

datatype syscall = Stat | Read | Write | Unlink | Mkdir

record filesys =
  nodes :: "path \<Rightarrow> node option"
  refused :: "syscall \<Rightarrow> path \<Rightarrow> exn option"

text \<open>\<open>String.prototype.split('/')\<close>, as \<open>path.join\<close> cuts a path into segments.\<close>

fun split_slash :: "string \<Rightarrow> string \<Rightarrow> string list" where
  "split_slash seg [] = [rev seg]"
| "split_slash seg (c # cs) =
     (if c = CHR ''/'' then rev seg # split_slash [] cs else split_slash (c # seg) cs)"

text \<open>
  \<open>path.join(base, rel)\<close> for an absolute, normalised \<open>base\<close>: the segments of \<open>rel\<close>
  are appended; empty segments and \<open>.\<close> are dropped, \<open>..\<close> goes one directory up.
\<close>

definition add_segment :: "path \<Rightarrow> string \<Rightarrow> path" where
  "add_segment p seg =
     (if seg = [] \<or> seg = ''.'' then p else if seg = ''..'' then butlast p else p @ [seg])"

definition path_join :: "path \<Rightarrow> string \<Rightarrow> path" where
  "path_join base rel = foldl add_segment base (split_slash [] rel)"

text \<open>
  What every call of \<open>fs\<close> checks first.  Node refuses a path with a NUL byte
  (\<open>ERR_INVALID_ARG_VALUE\<close>, a \<open>TypeError\<close>); the kernel (Linux) refuses a path of
  \<open>PATH_MAX\<close> bytes or more and a segment of more than \<open>NAME_MAX\<close> bytes, with
  ENAMETOOLONG; then come the refusals of \<open>refused\<close>.
\<close>

definition NAME_MAX :: nat where
  "NAME_MAX = 255"

definition PATH_MAX :: nat where
  "PATH_MAX = 4096"

definition path_bytes :: "path \<Rightarrow> nat" where
  "path_bytes p = (if p = [] then 1 else sum_list (map (\<lambda>seg. Suc (length seg)) p))"

definition refusal :: "filesys \<Rightarrow> syscall \<Rightarrow> path \<Rightarrow> exn option" where
  "refusal fs call p =
     (if list_ex (\<lambda>seg. CHR 0x00 \<in> set seg) p then Some TypeError
      else if PATH_MAX \<le> path_bytes p \<or> list_ex (\<lambda>seg. NAME_MAX < length seg) p
        then Some ENAMETOOLONG
      else refused fs call p)"

text \<open>\<open>existsSync\<close> returns \<open>false\<close> where the call fails.\<close>

definition existsSync :: "filesys \<Rightarrow> path \<Rightarrow> bool" where
  "existsSync fs p = (refusal fs Stat p = None \<and> nodes fs p \<noteq> None)"

definition readFileSync :: "filesys \<Rightarrow> path \<Rightarrow> exn + file_text" where
  "readFileSync fs p =
     (case refusal fs Read p of
        Some e \<Rightarrow> Inl e
      | None \<Rightarrow>
          (case nodes fs p of
             None \<Rightarrow> Inl ENOENT
           | Some Dir \<Rightarrow> Inl EISDIR
           | Some (File t) \<Rightarrow> Inr t))"

text \<open>\<open>writeFileSync\<close> creates or replaces a file; it does not create directories.\<close>

definition writeFileSync :: "filesys \<Rightarrow> path \<Rightarrow> file_text \<Rightarrow> exn + filesys" where
  "writeFileSync fs p t =
     (case refusal fs Write p of
        Some e \<Rightarrow> Inl e
      | None \<Rightarrow>
          (case nodes fs p of
             Some Dir \<Rightarrow> Inl EISDIR
           | _ \<Rightarrow> (case nodes fs (butlast p) of
                     None \<Rightarrow> Inl ENOENT
                   | Some (File u) \<Rightarrow> Inl ENOTDIR
                   | Some Dir \<Rightarrow> if p = [] then Inl EISDIR
                                 else Inr (fs\<lparr>nodes := (nodes fs)(p \<mapsto> File t)\<rparr>))))"

definition unlinkSync :: "filesys \<Rightarrow> path \<Rightarrow> exn + filesys" where
  "unlinkSync fs p =
     (case refusal fs Unlink p of
        Some e \<Rightarrow> Inl e
      | None \<Rightarrow>
          (case nodes fs p of
             None \<Rightarrow> Inl ENOENT
           | Some Dir \<Rightarrow> Inl EISDIR
           | Some (File t) \<Rightarrow> Inr (fs\<lparr>nodes := (nodes fs)(p := None)\<rparr>)))"

text \<open>\<open>mkdirSync(dir, { recursive: true })\<close>: every missing directory on the way is made.\<close>

fun mkdir_from :: "filesys \<Rightarrow> path \<Rightarrow> string list \<Rightarrow> exn + filesys" where
  "mkdir_from fs done [] = Inr fs"
| "mkdir_from fs done (seg # segs) =
     (case nodes fs (done @ [seg]) of
        Some (File t) \<Rightarrow> Inl (if segs = [] then EEXIST else ENOTDIR)
      | Some Dir \<Rightarrow> mkdir_from fs (done @ [seg]) segs
      | None \<Rightarrow>
          (case refusal fs Mkdir (done @ [seg]) of
             Some e \<Rightarrow> Inl e
           | None \<Rightarrow> mkdir_from (fs\<lparr>nodes := (nodes fs)(done @ [seg] \<mapsto> Dir)\<rparr>)
                       (done @ [seg]) segs))"

definition mkdirSync_recursive :: "filesys \<Rightarrow> path \<Rightarrow> exn + filesys" where
  "mkdirSync_recursive fs p =
     (case refusal fs Mkdir p of Some e \<Rightarrow> Inl e | None \<Rightarrow> mkdir_from fs [] p)"

text \<open>
  \<open>JSON.parse\<close> of a file's text, and \<open>JSON.stringify\<close> of a cache entry, which throws
  when it throws for the payload.
\<close>

definition JSON_parse :: "file_text \<Rightarrow> exn + json CacheEntry" where
  "JSON_parse t = (case t of Stringified e \<Rightarrow> Inr e | Unparseable s \<Rightarrow> Inl SyntaxError)"

definition JSON_stringify_entry :: "json CacheEntry \<Rightarrow> exn + file_text" where
  "JSON_stringify_entry e =
     (case JSON_stringify (data e) of Inl err \<Rightarrow> Inl err | Inr t \<Rightarrow> Inr (Stringified e))"

subsection \<open>\<open>CacheService\<close>\<close>

record CacheOptions =
  ttl_option :: "int option"
  directory :: "string option"

record CacheService =
  cacheDir :: path
  ttl :: int

text \<open>
  The constructor.  \<open>a || b\<close> takes \<open>b\<close> when \<open>a\<close> is undefined, the empty string or 0.
  \<open>cwd\<close> is \<open>process.cwd()\<close>.
\<close>

definition new_CacheService ::
  "path \<Rightarrow> CacheOptions \<Rightarrow> filesys \<Rightarrow> exn + (CacheService \<times> filesys)" where
  "new_CacheService cwd options fs =
     (let this = \<lparr>cacheDir = path_join cwd
                      (case directory options of
                         None \<Rightarrow> ''.dexter/cache''
                       | Some d \<Rightarrow> if d = [] then ''.dexter/cache'' else d),
                   ttl = (case ttl_option options of
                            None \<Rightarrow> 24 * 60 * 60 * 1000
                          | Some t \<Rightarrow> if t = 0 then 24 * 60 * 60 * 1000 else t)\<rparr>
      in if \<not> existsSync fs (cacheDir this)
         then (case mkdirSync_recursive fs (cacheDir this) of
                 Inl e \<Rightarrow> Inl e
               | Inr fs' \<Rightarrow> Inr (this, fs'))
         else Inr (this, fs))"

text \<open>
  The argument record of \<open>get\<close> and \<open>set\<close>, a \<open>Record<string, any>\<close>: the properties in
  insertion order, each with its value or \<open>undefined\<close> (\<open>None\<close>).  \<open>Object.keys\<close> lists
  the names; a name occurs once in an object.
\<close>

type_synonym params = "(string \<times> json option) list"

definition Object_keys :: "params \<Rightarrow> string list" where
  "Object_keys ps = map fst ps"

definition property :: "params \<Rightarrow> string \<Rightarrow> json option" where
  "property ps k = (case map_of ps k of None \<Rightarrow> None | Some v \<Rightarrow> v)"

text \<open>\<open>${JSON.stringify(v)}\<close>: \<open>JSON.stringify(undefined)\<close> is \<open>undefined\<close>.\<close>

definition stringify_in_template :: "json option \<Rightarrow> exn + string" where
  "stringify_in_template v = (case v of None \<Rightarrow> Inr ''undefined'' | Some j \<Rightarrow> JSON_stringify j)"

text \<open>
  \<open>digest('hex')\<close>: the 16 bytes of the digest as 32 hexadecimal digits.  The hash
  function itself, \<open>createHash('md5').update(s).digest()\<close>, is a parameter \<open>md5\<close> of
  everything that follows.
\<close>

definition hex_digest :: "128 word \<Rightarrow> string" where
  "hex_digest w = map (\<lambda>i. hex_nibble (unat w div 16 ^ (31 - i))) [0..<32]"

text \<open>
  \<open>generateKey\<close>; \<open>Array.prototype.sort()\<close> orders the names by their code units.  The
  key, or the exception \<open>JSON.stringify\<close> throws for the first value it rejects.
\<close>

definition generateKey :: "(string \<Rightarrow> 128 word) \<Rightarrow> string \<Rightarrow> params \<Rightarrow> exn + string" where
  "generateKey md5 prefix ps =
     (case collect (map (\<lambda>k. case stringify_in_template (property ps k) of
                                Inl e \<Rightarrow> Inl e
                              | Inr t \<Rightarrow> Inr (k @ ''='' @ t))
                        (sort (Object_keys ps))) of
        Inl e \<Rightarrow> Inl e
      | Inr parts \<Rightarrow>
          (let sortedParams = join ''&'' parts;
               hash = hex_digest (md5 sortedParams)
           in Inr (prefix @ ''_'' @ hash)))"

definition getFilePath :: "CacheService \<Rightarrow> string \<Rightarrow> path" where
  "getFilePath this k = path_join (cacheDir this) (k @ ''.json'')"

text \<open>\<open>isValid\<close>; \<open>now\<close> is \<open>Date.now()\<close>.\<close>

definition isValid :: "CacheService \<Rightarrow> int \<Rightarrow> int \<Rightarrow> bool" where
  "isValid this now ts = (now - ts < ttl this)"

text \<open>
  \<open>get\<close>.  The result is the value returned or the exception thrown, with the file
  system the call leaves.  The key is computed before the \<open>try\<close> block: an exception of
  \<open>generateKey\<close> leaves \<open>get\<close>.  \<open>get_try\<close> is the body of the \<open>try\<close> block, \<open>get\<close>
  adds the \<open>catch\<close>: it unlinks the file, ignores a failure of that, and returns \<open>null\<close>.
\<close>

definition get_try ::
  "CacheService \<Rightarrow> int \<Rightarrow> filesys \<Rightarrow> path \<Rightarrow> (exn + json option) \<times> filesys" where
  "get_try this now fs filePath =
     (case readFileSync fs filePath of
        Inl e \<Rightarrow> (Inl e, fs)
      | Inr contents \<Rightarrow>
          (case JSON_parse contents of
             Inl e \<Rightarrow> (Inl e, fs)
           | Inr entry \<Rightarrow>
               if \<not> isValid this now (timestamp entry)
               then (case unlinkSync fs filePath of
                       Inl e \<Rightarrow> (Inl e, fs)
                     | Inr fs' \<Rightarrow> (Inr None, fs'))
               else (Inr (Some (data entry)), fs)))"

definition get ::
  "(string \<Rightarrow> 128 word) \<Rightarrow> CacheService \<Rightarrow> int \<Rightarrow> filesys \<Rightarrow> string \<Rightarrow> params
     \<Rightarrow> (exn + json option) \<times> filesys" where
  "get md5 this now fs prefix ps =
     (case generateKey md5 prefix ps of
        Inl e \<Rightarrow> (Inl e, fs)
      | Inr k \<Rightarrow>
          (let filePath = getFilePath this k
           in if \<not> existsSync fs filePath then (Inr None, fs)
              else (case get_try this now fs filePath of
                      (Inr r, fs') \<Rightarrow> (Inr r, fs')
                    | (Inl error, fs') \<Rightarrow>
                        (case unlinkSync fs' filePath of
                           Inl e \<Rightarrow> (Inr None, fs')
                         | Inr fs'' \<Rightarrow> (Inr None, fs'')))))"

text \<open>
  \<open>set\<close> (\<open>set_cache\<close> here): the key is computed before the \<open>try\<close> block; the entry
  is stamped with the clock, serialised and written, and a failure of that is ignored.
\<close>

definition set_cache ::
  "(string \<Rightarrow> 128 word) \<Rightarrow> CacheService \<Rightarrow> int \<Rightarrow> filesys \<Rightarrow> string \<Rightarrow> params \<Rightarrow> json
     \<Rightarrow> (exn + unit) \<times> filesys" where
  "set_cache md5 this now fs prefix ps d =
     (case generateKey md5 prefix ps of
        Inl e \<Rightarrow> (Inl e, fs)
      | Inr k \<Rightarrow>
          (let filePath = getFilePath this k;
               entry = \<lparr>data = d, timestamp = now, key = k\<rparr>
           in (case JSON_stringify_entry entry of
                 Inl error \<Rightarrow> (Inr (), fs)
               | Inr serialised \<Rightarrow>
                   (case writeFileSync fs filePath serialised of
                      Inl error \<Rightarrow> (Inr (), fs)
                    | Inr fs' \<Rightarrow> (Inr (), fs')))))"

section \<open>Providers: the interface (\<open>src/interfaces\<close>) and \<open>src/providers\<close>\<close>

subsection \<open>Parameter types and the response envelope\<close>

datatype period = Annual | Quarterly | Ttm

fun period_text :: "period \<Rightarrow> string" where
  "period_text Annual = ''annual''"
| "period_text Quarterly = ''quarterly''"
| "period_text Ttm = ''ttm''"

text \<open>An optional property is an option; \<open>None\<close> is \<open>undefined\<close>.\<close>

record FinancialStatementsParams =
  fs_ticker :: string
  fs_period :: period
  fs_limit :: "int option"
  fs_report_period_gt :: "string option"
  fs_report_period_gte :: "string option"
  fs_report_period_lt :: "string option"
  fs_report_period_lte :: "string option"

record PriceParams =
  pp_ticker :: string
  pp_date :: "string option"

record PriceHistoryParams =
  ph_ticker :: string
  ph_start_date :: "string option"
  ph_end_date :: "string option"
  ph_limit :: "int option"

record MetricsParams =
  mp_ticker :: string
  mp_period :: "period option"
  mp_limit :: "int option"

record NewsParams =
  np_ticker :: "string option"
  np_query :: "string option"
  np_start_date :: "string option"
  np_end_date :: "string option"
  np_limit :: "int option"

record EstimatesParams =
  ep_ticker :: string
  ep_period :: "period option"
  ep_limit :: "int option"

record InsiderTradesParams =
  it_ticker :: string
  it_start_date :: "string option"
  it_end_date :: "string option"
  it_limit :: "int option"

record FilingsParams =
  fp_ticker :: string
  fp_form_type :: "string list option"
  fp_start_date :: "string option"
  fp_end_date :: "string option"
  fp_limit :: "int option"

text \<open>
  The envelope.  The interface types \<open>source\<close> as a string; the value is whatever the
  method puts there, which for \<open>FinancialDatasetsProvider\<close> is the \<open>url\<close> property of
  what \<open>callApi\<close> returned, \<open>undefined\<close> (\<open>None\<close>) when there is none.
\<close>

record ProviderResponse =
  data_p :: json
  source :: "json option"

subsection \<open>The world a provider runs in\<close>

text \<open>
  What the providers read and change outside themselves: the disk (the cache files), the
  hash function, \<open>fetch\<close> (of a URL, with the API key sent in the header), the clock as \<open>CacheService.get\<close> and \<open>CacheService.set\<close> read
  it, and the \<open>yahoo-finance2\<close> library with the dates \<open>new Date()\<close> gives.  A library
  call returns its value or throws.
\<close>

record Response =
  ok :: bool
  status_r :: int
  statusText :: string
  json_r :: "exn + json"

record QuoteSummary =
  incomeStatementHistory :: "json list option"
  incomeStatementHistoryQuarterly :: "json list option"
  balanceSheetHistory :: "json list option"
  balanceSheetHistoryQuarterly :: "json list option"
  cashflowStatementHistory :: "json list option"
  cashflowStatementHistoryQuarterly :: "json list option"
  financialData :: "json option"
  defaultKeyStatistics :: "json option"
  summaryDetail :: "json option"

record Quote =
  regularMarketPrice :: "json option"
  regularMarketOpen :: "json option"
  regularMarketDayHigh :: "json option"
  regularMarketDayLow :: "json option"
  regularMarketVolume :: "json option"

record HistoricalRow =
  h_date :: string
  h_open :: "json option"
  h_high :: "json option"
  h_low :: "json option"
  h_close :: "json option"
  h_volume :: "json option"

record world =
  disk :: filesys
  md5_of :: "string \<Rightarrow> 128 word"
  fetch :: "string \<Rightarrow> string \<Rightarrow> exn + Response"
  now_at_get :: int
  now_at_set :: int
  yf_quoteSummary :: "string \<Rightarrow> string list \<Rightarrow> exn + QuoteSummary"
  yf_quote :: "string \<Rightarrow> exn + Quote"
  yf_historical :: "string \<Rightarrow> string \<Rightarrow> string \<Rightarrow> exn + HistoricalRow list"
  yf_search :: "string \<Rightarrow> int \<Rightarrow> exn + json list option"
  today :: string
  a_year_ago :: string

type_synonym 'r method_result = "(exn + 'r) \<times> world"

subsection \<open>\<open>IFinancialProvider\<close>\<close>

text \<open>
  The interface: seven required methods and five optional ones.  An object that does not
  define an optional method has \<open>undefined\<close> (\<open>None\<close>) in its place.
\<close>

record IFinancialProvider =
  name :: string
  requiresApiKey :: bool
  getIncomeStatements :: "FinancialStatementsParams \<Rightarrow> world \<Rightarrow> ProviderResponse method_result"
  getBalanceSheets :: "FinancialStatementsParams \<Rightarrow> world \<Rightarrow> ProviderResponse method_result"
  getCashFlowStatements :: "FinancialStatementsParams \<Rightarrow> world \<Rightarrow> ProviderResponse method_result"
  getAllFinancialStatements ::
    "FinancialStatementsParams \<Rightarrow> world \<Rightarrow> ProviderResponse method_result"
  getPriceSnapshot :: "PriceParams \<Rightarrow> world \<Rightarrow> ProviderResponse method_result"
  getPriceHistory :: "PriceHistoryParams \<Rightarrow> world \<Rightarrow> ProviderResponse method_result"
  getFinancialMetrics :: "MetricsParams \<Rightarrow> world \<Rightarrow> ProviderResponse method_result"
  getNews :: "(NewsParams \<Rightarrow> world \<Rightarrow> ProviderResponse method_result) option"
  getAnalystEstimates :: "(EstimatesParams \<Rightarrow> world \<Rightarrow> ProviderResponse method_result) option"
  getInsiderTrades ::
    "(InsiderTradesParams \<Rightarrow> world \<Rightarrow> ProviderResponse method_result) option"
  getFilings :: "(FilingsParams \<Rightarrow> world \<Rightarrow> ProviderResponse method_result) option"
  getSegmentedRevenues ::
    "(FinancialStatementsParams \<Rightarrow> world \<Rightarrow> ProviderResponse method_result) option"

subsection \<open>JavaScript operators the providers use\<close>

text \<open>\<open>!v\<close> for a value that may be undefined.\<close>

definition falsy :: "json option \<Rightarrow> bool" where
  "falsy v = (case v of
       None \<Rightarrow> True
     | Some JNull \<Rightarrow> True
     | Some (JBool b) \<Rightarrow> \<not> b
     | Some (JNumber n) \<Rightarrow> n = 0
     | Some (JString t) \<Rightarrow> t = []
     | Some (JBigInt n) \<Rightarrow> n = 0
     | Some _ \<Rightarrow> False)"

text \<open>\<open>s || d\<close> for an optional string and \<open>n || d\<close> for an optional number.\<close>

definition string_or :: "string option \<Rightarrow> string \<Rightarrow> string" where
  "string_or s d = (case s of None \<Rightarrow> d | Some t \<Rightarrow> if t = [] then d else t)"

definition number_or :: "int option \<Rightarrow> int \<Rightarrow> int" where
  "number_or n d = (case n of None \<Rightarrow> d | Some k \<Rightarrow> if k = 0 then d else k)"

text \<open>\<open>v.k\<close>: a property read throws on \<open>null\<close>; only an object has the properties read here.\<close>

definition get_property :: "json \<Rightarrow> string \<Rightarrow> exn + json option" where
  "get_property v k = (case v of
       JNull \<Rightarrow> Inl TypeError
     | JObject kvs \<Rightarrow> Inr (map_of kvs k)
     | _ \<Rightarrow> Inr None)"

text \<open>\<open>v?.k\<close> for a value that may be undefined.\<close>

definition chain :: "json option \<Rightarrow> string \<Rightarrow> json option" where
  "chain v k = (case v of Some (JObject kvs) \<Rightarrow> map_of kvs k | _ \<Rightarrow> None)"

text \<open>\<open>v || {}\<close>.\<close>

definition or_empty_object :: "json option \<Rightarrow> json" where
  "or_empty_object v = (case v of None \<Rightarrow> JObject [] | Some j \<Rightarrow> if falsy v then JObject [] else j)"

text \<open>An object literal, as JSON data: a property whose value is undefined is left out.\<close>

definition object_literal :: "(string \<times> json option) list \<Rightarrow> json" where
  "object_literal kvs = JObject (concat (map (\<lambda>kv. case snd kv of None \<Rightarrow> [] | Some j \<Rightarrow> [(fst kv, j)]) kvs))"

text \<open>\<open>xs.slice(0, n)\<close>: a negative \<open>n\<close> counts from the end.\<close>

definition slice0 :: "'a list \<Rightarrow> int \<Rightarrow> 'a list" where
  "slice0 xs n = (if 0 \<le> n then take (nat n) xs else take (length xs - nat (- n)) xs)"

text \<open>\<open>String(v)\<close>; an array joins its elements, \<open>null\<close> as the empty string.\<close>

fun JS_String :: "json \<Rightarrow> string" where
  "JS_String JNull = ''null''"
| "JS_String (JBool b) = (if b then ''true'' else ''false'')"
| "JS_String (JNumber n) = Number_toString n"
| "JS_String (JString t) = t"
| "JS_String (JArray xs) = join '','' (map (\<lambda>x. if x = JNull then [] else JS_String x) xs)"
| "JS_String (JObject kvs) = ''[object Object]''"
| "JS_String (JBigInt n) = BigInt_toString n"

text \<open>\<open>${error}\<close> for a caught exception.\<close>

fun exn_text :: "exn \<Rightarrow> string" where
  "exn_text (JsError m) = ''Error: '' @ m"
| "exn_text TypeError = ''TypeError''"
| "exn_text SyntaxError = ''SyntaxError''"
| "exn_text ENOENT = ''Error: ENOENT''"
| "exn_text EISDIR = ''Error: EISDIR''"
| "exn_text ENOTDIR = ''Error: ENOTDIR''"
| "exn_text EEXIST = ''Error: EEXIST''"
| "exn_text EACCES = ''Error: EACCES''"
| "exn_text EPERM = ''Error: EPERM''"
| "exn_text EROFS = ''Error: EROFS''"
| "exn_text EBUSY = ''Error: EBUSY''"
| "exn_text ENAMETOOLONG = ''Error: ENAMETOOLONG''"
| "exn_text ENOSPC = ''Error: ENOSPC''"

text \<open>\<open>String.prototype.toLowerCase\<close>, on the letters A to Z.\<close>

definition lower_char :: "char \<Rightarrow> char" where
  "lower_char c =
     (if 65 \<le> (of_char c :: nat) \<and> (of_char c :: nat) \<le> 90 then char_of (of_char c + 32 :: nat)
      else c)"

definition toLowerCase :: "string \<Rightarrow> string" where
  "toLowerCase t = map lower_char t"

subsection \<open>\<open>FinancialDatasetsProvider\<close>\<close>

definition BASE_URL :: string where
  "BASE_URL = ''https://api.financialdatasets.ai''"

record FinancialDatasetsProvider =
  apiKey :: "string option"
  cache :: CacheService
  enableCache :: bool

text \<open>The environment variables the providers read.\<close>

record process_env =
  FINANCIAL_DATASETS_API_KEY :: "string option"
  DISABLE_CACHE :: "string option"
  FINANCIAL_PROVIDER :: "string option"

text \<open>The constructor; \<open>cacheInstance\<close> is what \<open>getCache()\<close> returns.\<close>

definition new_FinancialDatasetsProvider ::
  "process_env \<Rightarrow> CacheService \<Rightarrow> string option \<Rightarrow> bool \<Rightarrow> FinancialDatasetsProvider" where
  "new_FinancialDatasetsProvider env cacheInstance apiKey_arg enableCache_arg =
     \<lparr>apiKey = (case apiKey_arg of
                   None \<Rightarrow> FINANCIAL_DATASETS_API_KEY env
                 | Some k \<Rightarrow> if k = [] then FINANCIAL_DATASETS_API_KEY env else Some k),
      cache = cacheInstance,
      enableCache = (enableCache_arg \<and> DISABLE_CACHE env \<noteq> Some ''true'')\<rparr>"

text \<open>
  The query of the URL: \<open>url.searchParams.append\<close> for every parameter that is neither
  undefined nor null, once per element for an array; the serialisation escapes every byte
  but letters, digits and \<open>*-._\<close>, and writes a space as \<open>+\<close>.
\<close>

fun search_params :: "params \<Rightarrow> (string \<times> string) list" where
  "search_params [] = []"
| "search_params ((k, None) # ps) = search_params ps"
| "search_params ((k, Some JNull) # ps) = search_params ps"
| "search_params ((k, Some (JArray vs)) # ps) = map (\<lambda>v. (k, JS_String v)) vs @ search_params ps"
| "search_params ((k, Some v) # ps) = (k, JS_String v) # search_params ps"

definition HEX_nibble :: "nat \<Rightarrow> char" where
  "HEX_nibble n = ''0123456789ABCDEF'' ! (n mod 16)"

definition urlencode_char :: "char \<Rightarrow> string" where
  "urlencode_char c =
     (let n = (of_char c :: nat)
      in if (48 \<le> n \<and> n \<le> 57) \<or> (65 \<le> n \<and> n \<le> 90) \<or> (97 \<le> n \<and> n \<le> 122) \<or>
            c \<in> set ''*-._'' then [c]
         else if c = CHR '' '' then ''+''
         else [CHR ''%'', HEX_nibble (n div 16), HEX_nibble n])"

definition urlencode :: "string \<Rightarrow> string" where
  "urlencode t = concat (map urlencode_char t)"

definition url_toString :: "string \<Rightarrow> params \<Rightarrow> string" where
  "url_toString endpoint ps =
     (let q = search_params ps
      in BASE_URL @ endpoint @
         (if q = [] then []
          else ''?'' @ join ''&'' (map (\<lambda>kv. urlencode (fst kv) @ ''='' @ urlencode (snd kv)) q)))"

text \<open>
  \<open>callApi\<close>.  What it returns is the object \<open>{ data, url }\<close> it has built, or
  whatever the cache returned when that is truthy (\<open>get<ApiResponse>\<close> does not check
  what the file holds).  Otherwise the response of the API is fetched, and stored when the
  cache is enabled.  An exception of \<open>get\<close> or \<open>set\<close> leaves \<open>callApi\<close>.
\<close>

definition callApi ::
  "FinancialDatasetsProvider \<Rightarrow> world \<Rightarrow> string \<Rightarrow> params \<Rightarrow> json method_result" where
  "callApi this w endpoint ps =
     (case apiKey this of
        None \<Rightarrow> (Inl (JsError ''API key not configured''), w)
      | Some k \<Rightarrow>
          (if k = [] then (Inl (JsError ''API key not configured''), w)
           else
             (let cacheKey = ''financialdatasets_'' @ endpoint;
                  looked = (if enableCache this
                            then get (md5_of w) (cache this) (now_at_get w) (disk w) cacheKey ps
                            else (Inr None, disk w));
                  w1 = w\<lparr>disk := snd looked\<rparr>
              in (case fst looked of
                    Inl e \<Rightarrow> (Inl e, w1)
                  | Inr cached \<Rightarrow>
                      (case (if falsy cached then None else cached) of
                         Some hit \<Rightarrow> (Inr hit, w1)
                       | None \<Rightarrow>
                           (case fetch w1 (url_toString endpoint ps) k of
                              Inl e \<Rightarrow> (Inl e, w1)
                            | Inr response \<Rightarrow>
                                (if \<not> ok response
                                 then (Inl (JsError (''API request failed: '' @
                                         Number_toString (status_r response) @ '' '' @
                                         statusText response)), w1)
                                 else (case json_r response of
                                         Inl e \<Rightarrow> (Inl e, w1)
                                       | Inr d \<Rightarrow>
                                           (let result = JObject
                                                  [(''data'', d),
                                                   (''url'', JString (url_toString endpoint ps))]
                                            in if enableCache this
                                               then (case set_cache (md5_of w1) (cache this)
                                                            (now_at_set w1) (disk w1) cacheKey ps
                                                            result of
                                                       (Inl e, fs') \<Rightarrow> (Inl e, w1\<lparr>disk := fs'\<rparr>)
                                                     | (Inr u, fs') \<Rightarrow>
                                                         (Inr result, w1\<lparr>disk := fs'\<rparr>))
                                               else (Inr result, w1))))))))))"

definition createFinancialStatementsParams :: "FinancialStatementsParams \<Rightarrow> params" where
  "createFinancialStatementsParams ps =
     [(''ticker'', Some (JString (fs_ticker ps))),
      (''period'', Some (JString (period_text (fs_period ps)))),
      (''limit'', map_option JNumber (fs_limit ps)),
      (''report_period_gt'', map_option JString (fs_report_period_gt ps)),
      (''report_period_gte'', map_option JString (fs_report_period_gte ps)),
      (''report_period_lt'', map_option JString (fs_report_period_lt ps)),
      (''report_period_lte'', map_option JString (fs_report_period_lte ps))]"

text \<open>
  The end of every method: \<open>const { data, url } = await this.callApi(...)\<close> and
  \<open>return { data: data.field || {}, source: url }\<close>.  The two properties are read
  off what \<open>callApi\<close> returned; reading \<open>data.field\<close> throws when \<open>data\<close> is
  undefined or \<open>null\<close>.
\<close>

definition respond :: "string \<Rightarrow> json method_result \<Rightarrow> ProviderResponse method_result" where
  "respond field r =
     (case fst r of
        Inl e \<Rightarrow> (Inl e, snd r)
      | Inr a \<Rightarrow>
          (case get_property a ''data'' of
             Inl e \<Rightarrow> (Inl e, snd r)
           | Inr d \<Rightarrow>
               (case get_property a ''url'' of
                  Inl e \<Rightarrow> (Inl e, snd r)
                | Inr u \<Rightarrow>
                    (case d of
                       None \<Rightarrow> (Inl TypeError, snd r)
                     | Some dv \<Rightarrow>
                         (case get_property dv field of
                            Inl e \<Rightarrow> (Inl e, snd r)
                          | Inr v \<Rightarrow>
                              (Inr \<lparr>data_p = or_empty_object v, source = u\<rparr>, snd r))))))"

definition FD_getIncomeStatements ::
  "FinancialDatasetsProvider \<Rightarrow> FinancialStatementsParams \<Rightarrow> world
     \<Rightarrow> ProviderResponse method_result" where
  "FD_getIncomeStatements this ps w =
     respond ''income_statements''
       (callApi this w ''/financials/income-statements/'' (createFinancialStatementsParams ps))"

definition FD_getBalanceSheets ::
  "FinancialDatasetsProvider \<Rightarrow> FinancialStatementsParams \<Rightarrow> world
     \<Rightarrow> ProviderResponse method_result" where
  "FD_getBalanceSheets this ps w =
     respond ''balance_sheets''
       (callApi this w ''/financials/balance-sheets/'' (createFinancialStatementsParams ps))"

definition FD_getCashFlowStatements ::
  "FinancialDatasetsProvider \<Rightarrow> FinancialStatementsParams \<Rightarrow> world
     \<Rightarrow> ProviderResponse method_result" where
  "FD_getCashFlowStatements this ps w =
     respond ''cash_flow_statements''
       (callApi this w ''/financials/cash-flow-statements/'' (createFinancialStatementsParams ps))"

definition FD_getAllFinancialStatements ::
  "FinancialDatasetsProvider \<Rightarrow> FinancialStatementsParams \<Rightarrow> world
     \<Rightarrow> ProviderResponse method_result" where
  "FD_getAllFinancialStatements this ps w =
     respond ''financials'' (callApi this w ''/financials/'' (createFinancialStatementsParams ps))"

definition FD_getPriceSnapshot ::
  "FinancialDatasetsProvider \<Rightarrow> PriceParams \<Rightarrow> world \<Rightarrow> ProviderResponse method_result" where
  "FD_getPriceSnapshot this ps w =
     respond ''prices''
       (callApi this w ''/prices/''
          [(''ticker'', Some (JString (pp_ticker ps))), (''date'', map_option JString (pp_date ps))])"

definition FD_getPriceHistory ::
  "FinancialDatasetsProvider \<Rightarrow> PriceHistoryParams \<Rightarrow> world \<Rightarrow> ProviderResponse method_result" where
  "FD_getPriceHistory this ps w =
     respond ''prices''
       (callApi this w ''/prices/''
          [(''ticker'', Some (JString (ph_ticker ps))),
           (''start_date'', map_option JString (ph_start_date ps)),
           (''end_date'', map_option JString (ph_end_date ps)),
           (''limit'', map_option JNumber (ph_limit ps))])"

definition FD_getFinancialMetrics ::
  "FinancialDatasetsProvider \<Rightarrow> MetricsParams \<Rightarrow> world \<Rightarrow> ProviderResponse method_result" where
  "FD_getFinancialMetrics this ps w =
     respond ''metrics''
       (callApi this w ''/financials/metrics/''
          [(''ticker'', Some (JString (mp_ticker ps))),
           (''period'', map_option (\<lambda>p. JString (period_text p)) (mp_period ps)),
           (''limit'', map_option JNumber (mp_limit ps))])"

definition FD_getNews ::
  "FinancialDatasetsProvider \<Rightarrow> NewsParams \<Rightarrow> world \<Rightarrow> ProviderResponse method_result" where
  "FD_getNews this ps w =
     respond ''news''
       (callApi this w ''/news/''
          [(''ticker'', map_option JString (np_ticker ps)),
           (''query'', map_option JString (np_query ps)),
           (''start_date'', map_option JString (np_start_date ps)),
           (''end_date'', map_option JString (np_end_date ps)),
           (''limit'', map_option JNumber (np_limit ps))])"

definition FD_getAnalystEstimates ::
  "FinancialDatasetsProvider \<Rightarrow> EstimatesParams \<Rightarrow> world \<Rightarrow> ProviderResponse method_result" where
  "FD_getAnalystEstimates this ps w =
     respond ''analyst_estimates''
       (callApi this w ''/analyst-estimates/''
          [(''ticker'', Some (JString (ep_ticker ps))),
           (''period'', map_option (\<lambda>p. JString (period_text p)) (ep_period ps)),
           (''limit'', map_option JNumber (ep_limit ps))])"

definition FD_getInsiderTrades ::
  "FinancialDatasetsProvider \<Rightarrow> InsiderTradesParams \<Rightarrow> world \<Rightarrow> ProviderResponse method_result" where
  "FD_getInsiderTrades this ps w =
     respond ''insider_trades''
       (callApi this w ''/insider-trades/''
          [(''ticker'', Some (JString (it_ticker ps))),
           (''start_date'', map_option JString (it_start_date ps)),
           (''end_date'', map_option JString (it_end_date ps)),
           (''limit'', map_option JNumber (it_limit ps))])"

definition FD_getFilings ::
  "FinancialDatasetsProvider \<Rightarrow> FilingsParams \<Rightarrow> world \<Rightarrow> ProviderResponse method_result" where
  "FD_getFilings this ps w =
     respond ''filings''
       (callApi this w ''/filings/''
          [(''ticker'', Some (JString (fp_ticker ps))),
           (''form_type'', map_option (\<lambda>ts. JArray (map JString ts)) (fp_form_type ps)),
           (''start_date'', map_option JString (fp_start_date ps)),
           (''end_date'', map_option JString (fp_end_date ps)),
           (''limit'', map_option JNumber (fp_limit ps))])"

definition FD_getSegmentedRevenues ::
  "FinancialDatasetsProvider \<Rightarrow> FinancialStatementsParams \<Rightarrow> world
     \<Rightarrow> ProviderResponse method_result" where
  "FD_getSegmentedRevenues this ps w =
     respond ''segments''
       (callApi this w ''/segments/''
          [(''ticker'', Some (JString (fs_ticker ps))),
           (''period'', Some (JString (period_text (fs_period ps)))),
           (''limit'', map_option JNumber (fs_limit ps))])"

text \<open>The object of the class: it defines all twelve methods.\<close>

definition FinancialDatasetsProvider_object ::
  "FinancialDatasetsProvider \<Rightarrow> IFinancialProvider" where
  "FinancialDatasetsProvider_object this =
     \<lparr>name = ''FinancialDatasets'', requiresApiKey = True,
      getIncomeStatements = FD_getIncomeStatements this,
      getBalanceSheets = FD_getBalanceSheets this,
      getCashFlowStatements = FD_getCashFlowStatements this,
      getAllFinancialStatements = FD_getAllFinancialStatements this,
      getPriceSnapshot = FD_getPriceSnapshot this,
      getPriceHistory = FD_getPriceHistory this,
      getFinancialMetrics = FD_getFinancialMetrics this,
      getNews = Some (FD_getNews this),
      getAnalystEstimates = Some (FD_getAnalystEstimates this),
      getInsiderTrades = Some (FD_getInsiderTrades this),
      getFilings = Some (FD_getFilings this),
      getSegmentedRevenues = Some (FD_getSegmentedRevenues this)\<rparr>"

subsection \<open>\<open>YahooFinanceProvider\<close>\<close>

definition formatPeriod :: "period \<Rightarrow> period" where
  "formatPeriod p = (if p = Annual then Annual else Quarterly)"

text \<open>The \<open>catch\<close> of every method: \<open>throw new Error(`Yahoo Finance API error: ${error}`)\<close>.\<close>

definition yahoo_error :: "exn \<Rightarrow> exn" where
  "yahoo_error e = JsError (''Yahoo Finance API error: '' @ exn_text e)"

text \<open>\<open>statements?.slice(0, params.limit || 10) || []\<close>.\<close>

definition limited_statements :: "json list option \<Rightarrow> int option \<Rightarrow> json list" where
  "limited_statements statements lim =
     (case statements of None \<Rightarrow> [] | Some xs \<Rightarrow> slice0 xs (number_or lim 10))"

definition Yahoo_getIncomeStatements ::
  "FinancialStatementsParams \<Rightarrow> world \<Rightarrow> ProviderResponse method_result" where
  "Yahoo_getIncomeStatements ps w =
     (case yf_quoteSummary w (fs_ticker ps)
             [''incomeStatementHistory'', ''incomeStatementHistoryQuarterly''] of
        Inl e \<Rightarrow> (Inl (yahoo_error e), w)
      | Inr quoteSummary \<Rightarrow>
          (let p = formatPeriod (fs_period ps);
               statements = (if p = Annual then incomeStatementHistory quoteSummary
                             else incomeStatementHistoryQuarterly quoteSummary);
               limited = limited_statements statements (fs_limit ps)
           in (Inr \<lparr>data_p = JObject [(''income_statements'', JArray limited)],
                     source = Some (JString (''yahoo-finance:'' @ fs_ticker ps @
                                '':income-statements:'' @ period_text p))\<rparr>, w)))"

definition Yahoo_getBalanceSheets ::
  "FinancialStatementsParams \<Rightarrow> world \<Rightarrow> ProviderResponse method_result" where
  "Yahoo_getBalanceSheets ps w =
     (case yf_quoteSummary w (fs_ticker ps)
             [''balanceSheetHistory'', ''balanceSheetHistoryQuarterly''] of
        Inl e \<Rightarrow> (Inl (yahoo_error e), w)
      | Inr quoteSummary \<Rightarrow>
          (let p = formatPeriod (fs_period ps);
               statements = (if p = Annual then balanceSheetHistory quoteSummary
                             else balanceSheetHistoryQuarterly quoteSummary);
               limited = limited_statements statements (fs_limit ps)
           in (Inr \<lparr>data_p = JObject [(''balance_sheets'', JArray limited)],
                     source = Some (JString (''yahoo-finance:'' @ fs_ticker ps @
                                '':balance-sheets:'' @ period_text p))\<rparr>, w)))"

definition Yahoo_getCashFlowStatements ::
  "FinancialStatementsParams \<Rightarrow> world \<Rightarrow> ProviderResponse method_result" where
  "Yahoo_getCashFlowStatements ps w =
     (case yf_quoteSummary w (fs_ticker ps)
             [''cashflowStatementHistory'', ''cashflowStatementHistoryQuarterly''] of
        Inl e \<Rightarrow> (Inl (yahoo_error e), w)
      | Inr quoteSummary \<Rightarrow>
          (let p = formatPeriod (fs_period ps);
               statements = (if p = Annual then cashflowStatementHistory quoteSummary
                             else cashflowStatementHistoryQuarterly quoteSummary);
               limited = limited_statements statements (fs_limit ps)
           in (Inr \<lparr>data_p = JObject [(''cash_flow_statements'', JArray limited)],
                     source = Some (JString (''yahoo-finance:'' @ fs_ticker ps @
                                '':cash-flow:'' @ period_text p))\<rparr>, w)))"

text \<open>
  \<open>getAllFinancialStatements\<close>: \<open>Promise.all\<close> of the three methods; it rejects when one
  of them does (here: the first in the order of the array).
\<close>

definition Yahoo_getAllFinancialStatements ::
  "FinancialStatementsParams \<Rightarrow> world \<Rightarrow> ProviderResponse method_result" where
  "Yahoo_getAllFinancialStatements ps w =
     (case fst (Yahoo_getIncomeStatements ps w) of
        Inl e \<Rightarrow> (Inl e, w)
      | Inr incomeStmts \<Rightarrow>
          (case fst (Yahoo_getBalanceSheets ps w) of
             Inl e \<Rightarrow> (Inl e, w)
           | Inr balanceSheets \<Rightarrow>
               (case fst (Yahoo_getCashFlowStatements ps w) of
                  Inl e \<Rightarrow> (Inl e, w)
                | Inr cashFlows \<Rightarrow>
                    (Inr \<lparr>data_p = object_literal
                            [(''income_statements'', chain (Some (data_p incomeStmts)) ''income_statements''),
                             (''balance_sheets'', chain (Some (data_p balanceSheets)) ''balance_sheets''),
                             (''cash_flow_statements'',
                                chain (Some (data_p cashFlows)) ''cash_flow_statements'')],
                          source = Some (JString (''yahoo-finance:'' @ fs_ticker ps @
                                     '':all-statements:'' @ period_text (fs_period ps)))\<rparr>,
                     w))))"

definition Yahoo_getPriceSnapshot :: "PriceParams \<Rightarrow> world \<Rightarrow> ProviderResponse method_result" where
  "Yahoo_getPriceSnapshot ps w =
     (case yf_quote w (pp_ticker ps) of
        Inl e \<Rightarrow> (Inl (yahoo_error e), w)
      | Inr q \<Rightarrow>
          (Inr \<lparr>data_p = JObject [(''prices'', JArray [object_literal
                    [(''ticker'', Some (JString (pp_ticker ps))),
                     (''date'', Some (JString (string_or (pp_date ps) (today w)))),
                     (''price'', regularMarketPrice q),
                     (''open'', regularMarketOpen q),
                     (''high'', regularMarketDayHigh q),
                     (''low'', regularMarketDayLow q),
                     (''close'', regularMarketPrice q),
                     (''volume'', regularMarketVolume q)]])],
                source = Some (JString (''yahoo-finance:'' @ pp_ticker ps @
                           '':price-snapshot''))\<rparr>, w))"

definition Yahoo_getPriceHistory ::
  "PriceHistoryParams \<Rightarrow> world \<Rightarrow> ProviderResponse method_result" where
  "Yahoo_getPriceHistory ps w =
     (case yf_historical w (ph_ticker ps)
             (string_or (ph_start_date ps) (a_year_ago w))
             (string_or (ph_end_date ps) (today w)) of
        Inl e \<Rightarrow> (Inl (yahoo_error e), w)
      | Inr history \<Rightarrow>
          (let limited = slice0 history (number_or (ph_limit ps) (int (length history)));
               prices = map (\<lambda>h. object_literal
                    [(''ticker'', Some (JString (ph_ticker ps))),
                     (''date'', Some (JString (h_date h))),
                     (''open'', h_open h),
                     (''high'', h_high h),
                     (''low'', h_low h),
                     (''close'', h_close h),
                     (''volume'', h_volume h)]) limited
           in (Inr \<lparr>data_p = JObject [(''prices'', JArray prices)],
                     source = Some (JString (''yahoo-finance:'' @ ph_ticker ps @
                                '':price-history''))\<rparr>, w)))"

definition Yahoo_getFinancialMetrics ::
  "MetricsParams \<Rightarrow> world \<Rightarrow> ProviderResponse method_result" where
  "Yahoo_getFinancialMetrics ps w =
     (case yf_quoteSummary w (mp_ticker ps)
             [''financialData'', ''defaultKeyStatistics'', ''summaryDetail''] of
        Inl e \<Rightarrow> (Inl (yahoo_error e), w)
      | Inr quoteSummary \<Rightarrow>
          (let metrics = object_literal
                 [(''pe_ratio'', chain (summaryDetail quoteSummary) ''trailingPE''),
                  (''forward_pe'', chain (summaryDetail quoteSummary) ''forwardPE''),
                  (''peg_ratio'', chain (defaultKeyStatistics quoteSummary) ''pegRatio''),
                  (''price_to_book'', chain (defaultKeyStatistics quoteSummary) ''priceToBook''),
                  (''price_to_sales'',
                     chain (summaryDetail quoteSummary) ''priceToSalesTrailing12Months''),
                  (''profit_margin'', chain (financialData quoteSummary) ''profitMargins''),
                  (''operating_margin'', chain (financialData quoteSummary) ''operatingMargins''),
                  (''roe'', chain (financialData quoteSummary) ''returnOnEquity''),
                  (''roa'', chain (financialData quoteSummary) ''returnOnAssets''),
                  (''debt_to_equity'', chain (financialData quoteSummary) ''debtToEquity''),
                  (''current_ratio'', chain (financialData quoteSummary) ''currentRatio''),
                  (''quick_ratio'', chain (financialData quoteSummary) ''quickRatio'')]
           in (Inr \<lparr>data_p = JObject [(''metrics'', JArray [metrics])],
                     source = Some (JString (''yahoo-finance:'' @ mp_ticker ps @
                                '':metrics''))\<rparr>, w)))"

definition Yahoo_getNews :: "NewsParams \<Rightarrow> world \<Rightarrow> ProviderResponse method_result" where
  "Yahoo_getNews ps w =
     (case np_ticker ps of
        None \<Rightarrow> (Inl (yahoo_error (JsError ''Ticker is required for Yahoo Finance news'')), w)
      | Some t \<Rightarrow>
          (if t = []
           then (Inl (yahoo_error (JsError ''Ticker is required for Yahoo Finance news'')), w)
           else (case yf_search w t (number_or (np_limit ps) 10) of
                   Inl e \<Rightarrow> (Inl (yahoo_error e), w)
                 | Inr news \<Rightarrow>
                     (Inr \<lparr>data_p = JObject [(''news'',
                               JArray (case news of None \<Rightarrow> [] | Some xs \<Rightarrow> xs))],
                           source = Some (JString (''yahoo-finance:'' @ t @ '':news''))\<rparr>,
                      w))))"

text \<open>
  The object of the class: the seven required methods and \<open>getNews\<close>.  The class does
  not define \<open>getAnalystEstimates\<close>, \<open>getInsiderTrades\<close>, \<open>getFilings\<close> and
  \<open>getSegmentedRevenues\<close>.
\<close>

definition YahooFinanceProvider_object :: IFinancialProvider where
  "YahooFinanceProvider_object =
     \<lparr>name = ''Yahoo Finance'', requiresApiKey = False,
      getIncomeStatements = Yahoo_getIncomeStatements,
      getBalanceSheets = Yahoo_getBalanceSheets,
      getCashFlowStatements = Yahoo_getCashFlowStatements,
      getAllFinancialStatements = Yahoo_getAllFinancialStatements,
      getPriceSnapshot = Yahoo_getPriceSnapshot,
      getPriceHistory = Yahoo_getPriceHistory,
      getFinancialMetrics = Yahoo_getFinancialMetrics,
      getNews = Some Yahoo_getNews,
      getAnalystEstimates = None,
      getInsiderTrades = None,
      getFilings = None,
      getSegmentedRevenues = None\<rparr>"

subsection \<open>\<open>createFinancialProvider\<close>\<close>

definition createFinancialProvider ::
  "process_env \<Rightarrow> CacheService \<Rightarrow> string option \<Rightarrow> IFinancialProvider" where
  "createFinancialProvider env cacheInstance providerType =
     (let type = string_or providerType (string_or (FINANCIAL_PROVIDER env) ''financialdatasets'')
      in if toLowerCase type = ''yahoo'' \<or> toLowerCase type = ''yahoo-finance''
         then YahooFinanceProvider_object
         else FinancialDatasetsProvider_object
                (new_FinancialDatasetsProvider env cacheInstance None True))"

subsection \<open>Calling a method of a provider object\<close>

text \<open>
  A request names a method of the interface and carries its parameters.  \<open>invoke\<close> is the
  JavaScript call \<open>provider.method(params)\<close>: calling a method the object does not
  define throws a \<open>TypeError\<close>.
\<close>

datatype request =
    IncomeStatements FinancialStatementsParams
  | BalanceSheets FinancialStatementsParams
  | CashFlowStatements FinancialStatementsParams
  | AllFinancialStatements FinancialStatementsParams
  | PriceSnapshot PriceParams
  | PriceHistory PriceHistoryParams
  | FinancialMetrics MetricsParams
  | News NewsParams
  | AnalystEstimates EstimatesParams
  | InsiderTrades InsiderTradesParams
  | Filings FilingsParams
  | SegmentedRevenues FinancialStatementsParams

fun method_of :: "IFinancialProvider \<Rightarrow> request \<Rightarrow> (world \<Rightarrow> ProviderResponse method_result) option" where
  "method_of p (IncomeStatements ps) = Some (getIncomeStatements p ps)"
| "method_of p (BalanceSheets ps) = Some (getBalanceSheets p ps)"
| "method_of p (CashFlowStatements ps) = Some (getCashFlowStatements p ps)"
| "method_of p (AllFinancialStatements ps) = Some (getAllFinancialStatements p ps)"
| "method_of p (PriceSnapshot ps) = Some (getPriceSnapshot p ps)"
| "method_of p (PriceHistory ps) = Some (getPriceHistory p ps)"
| "method_of p (FinancialMetrics ps) = Some (getFinancialMetrics p ps)"
| "method_of p (News ps) = map_option (\<lambda>m. m ps) (getNews p)"
| "method_of p (AnalystEstimates ps) = map_option (\<lambda>m. m ps) (getAnalystEstimates p)"
| "method_of p (InsiderTrades ps) = map_option (\<lambda>m. m ps) (getInsiderTrades p)"
| "method_of p (Filings ps) = map_option (\<lambda>m. m ps) (getFilings p)"
| "method_of p (SegmentedRevenues ps) = map_option (\<lambda>m. m ps) (getSegmentedRevenues p)"

definition invoke :: "IFinancialProvider \<Rightarrow> request \<Rightarrow> world \<Rightarrow> ProviderResponse method_result" where
  "invoke p r w = (case method_of p r of None \<Rightarrow> (Inl TypeError, w) | Some m \<Rightarrow> m w)"

subsection \<open>Notions the properties of the providers are stated with\<close>

text \<open>
  A source is a URL, or the synthetic identifier the Yahoo provider builds.
\<close>

definition is_url :: "string \<Rightarrow> bool" where
  "is_url t = (take 8 t = ''https://'' \<and> 8 < length t)"

definition is_provenance_id :: "string \<Rightarrow> bool" where
  "is_provenance_id t = (take 14 t = ''yahoo-finance:'')"

text \<open>The endpoints \<open>FinancialDatasetsProvider\<close> calls \<open>callApi\<close> with.\<close>

definition FD_endpoints :: "string list" where
  "FD_endpoints =
     [''/financials/income-statements/'', ''/financials/balance-sheets/'',
      ''/financials/cash-flow-statements/'', ''/financials/'', ''/prices/'',
      ''/financials/metrics/'', ''/news/'', ''/analyst-estimates/'', ''/insider-trades/'',
      ''/filings/'', ''/segments/'']"

text \<open>
  What a request asks the API for, as the method of \<open>FinancialDatasetsProvider\<close> passes
  it to \<open>callApi\<close>: the endpoint, the parameters in the order of the object literal, and
  the property of the body that becomes the data of the envelope.  \<open>FD_url\<close> is the URL
  of the request.
\<close>

fun FD_endpoint :: "request \<Rightarrow> string" where
  "FD_endpoint (IncomeStatements ps) = ''/financials/income-statements/''"
| "FD_endpoint (BalanceSheets ps) = ''/financials/balance-sheets/''"
| "FD_endpoint (CashFlowStatements ps) = ''/financials/cash-flow-statements/''"
| "FD_endpoint (AllFinancialStatements ps) = ''/financials/''"
| "FD_endpoint (PriceSnapshot ps) = ''/prices/''"
| "FD_endpoint (PriceHistory ps) = ''/prices/''"
| "FD_endpoint (FinancialMetrics ps) = ''/financials/metrics/''"
| "FD_endpoint (News ps) = ''/news/''"
| "FD_endpoint (AnalystEstimates ps) = ''/analyst-estimates/''"
| "FD_endpoint (InsiderTrades ps) = ''/insider-trades/''"
| "FD_endpoint (Filings ps) = ''/filings/''"
| "FD_endpoint (SegmentedRevenues ps) = ''/segments/''"

fun FD_params :: "request \<Rightarrow> params" where
  "FD_params (IncomeStatements ps) = createFinancialStatementsParams ps"
| "FD_params (BalanceSheets ps) = createFinancialStatementsParams ps"
| "FD_params (CashFlowStatements ps) = createFinancialStatementsParams ps"
| "FD_params (AllFinancialStatements ps) = createFinancialStatementsParams ps"
| "FD_params (PriceSnapshot ps) =
     [(''ticker'', Some (JString (pp_ticker ps))), (''date'', map_option JString (pp_date ps))]"
| "FD_params (PriceHistory ps) =
     [(''ticker'', Some (JString (ph_ticker ps))),
      (''start_date'', map_option JString (ph_start_date ps)),
      (''end_date'', map_option JString (ph_end_date ps)),
      (''limit'', map_option JNumber (ph_limit ps))]"
| "FD_params (FinancialMetrics ps) =
     [(''ticker'', Some (JString (mp_ticker ps))),
      (''period'', map_option (\<lambda>p. JString (period_text p)) (mp_period ps)),
      (''limit'', map_option JNumber (mp_limit ps))]"
| "FD_params (News ps) =
     [(''ticker'', map_option JString (np_ticker ps)),
      (''query'', map_option JString (np_query ps)),
      (''start_date'', map_option JString (np_start_date ps)),
      (''end_date'', map_option JString (np_end_date ps)),
      (''limit'', map_option JNumber (np_limit ps))]"
| "FD_params (AnalystEstimates ps) =
     [(''ticker'', Some (JString (ep_ticker ps))),
      (''period'', map_option (\<lambda>p. JString (period_text p)) (ep_period ps)),
      (''limit'', map_option JNumber (ep_limit ps))]"
| "FD_params (InsiderTrades ps) =
     [(''ticker'', Some (JString (it_ticker ps))),
      (''start_date'', map_option JString (it_start_date ps)),
      (''end_date'', map_option JString (it_end_date ps)),
      (''limit'', map_option JNumber (it_limit ps))]"
| "FD_params (Filings ps) =
     [(''ticker'', Some (JString (fp_ticker ps))),
      (''form_type'', map_option (\<lambda>ts. JArray (map JString ts)) (fp_form_type ps)),
      (''start_date'', map_option JString (fp_start_date ps)),
      (''end_date'', map_option JString (fp_end_date ps)),
      (''limit'', map_option JNumber (fp_limit ps))]"
| "FD_params (SegmentedRevenues ps) =
     [(''ticker'', Some (JString (fs_ticker ps))),
      (''period'', Some (JString (period_text (fs_period ps)))),
      (''limit'', map_option JNumber (fs_limit ps))]"

fun FD_field :: "request \<Rightarrow> string" where
  "FD_field (IncomeStatements ps) = ''income_statements''"
| "FD_field (BalanceSheets ps) = ''balance_sheets''"
| "FD_field (CashFlowStatements ps) = ''cash_flow_statements''"
| "FD_field (AllFinancialStatements ps) = ''financials''"
| "FD_field (PriceSnapshot ps) = ''prices''"
| "FD_field (PriceHistory ps) = ''prices''"
| "FD_field (FinancialMetrics ps) = ''metrics''"
| "FD_field (News ps) = ''news''"
| "FD_field (AnalystEstimates ps) = ''analyst_estimates''"
| "FD_field (InsiderTrades ps) = ''insider_trades''"
| "FD_field (Filings ps) = ''filings''"
| "FD_field (SegmentedRevenues ps) = ''segments''"

definition FD_url :: "request \<Rightarrow> string" where
  "FD_url r = url_toString (FD_endpoint r) (FD_params r)"

text \<open>
  The ticker a request names and the kind of data it asks for, as the identifier of the
  Yahoo provider spells them: the statements carry the period, which \<open>formatPeriod\<close>
  has turned into annual or quarterly except for all statements together.
\<close>

fun ticker_of :: "request \<Rightarrow> string" where
  "ticker_of (IncomeStatements ps) = fs_ticker ps"
| "ticker_of (BalanceSheets ps) = fs_ticker ps"
| "ticker_of (CashFlowStatements ps) = fs_ticker ps"
| "ticker_of (AllFinancialStatements ps) = fs_ticker ps"
| "ticker_of (PriceSnapshot ps) = pp_ticker ps"
| "ticker_of (PriceHistory ps) = ph_ticker ps"
| "ticker_of (FinancialMetrics ps) = mp_ticker ps"
| "ticker_of (News ps) = (case np_ticker ps of None \<Rightarrow> [] | Some t \<Rightarrow> t)"
| "ticker_of (AnalystEstimates ps) = ep_ticker ps"
| "ticker_of (InsiderTrades ps) = it_ticker ps"
| "ticker_of (Filings ps) = fp_ticker ps"
| "ticker_of (SegmentedRevenues ps) = fs_ticker ps"

fun kind_of :: "request \<Rightarrow> string" where
  "kind_of (IncomeStatements ps) = ''income-statements:'' @ period_text (formatPeriod (fs_period ps))"
| "kind_of (BalanceSheets ps) = ''balance-sheets:'' @ period_text (formatPeriod (fs_period ps))"
| "kind_of (CashFlowStatements ps) = ''cash-flow:'' @ period_text (formatPeriod (fs_period ps))"
| "kind_of (AllFinancialStatements ps) = ''all-statements:'' @ period_text (fs_period ps)"
| "kind_of (PriceSnapshot ps) = ''price-snapshot''"
| "kind_of (PriceHistory ps) = ''price-history''"
| "kind_of (FinancialMetrics ps) = ''metrics''"
| "kind_of (News ps) = ''news''"
| "kind_of (AnalystEstimates ps) = ''analyst-estimates''"
| "kind_of (InsiderTrades ps) = ''insider-trades''"
| "kind_of (Filings ps) = ''filings''"
| "kind_of (SegmentedRevenues ps) = ''segments''"

definition provenance_id :: "request \<Rightarrow> string" where
  "provenance_id r = ''yahoo-finance:'' @ ticker_of r @ '':'' @ kind_of r"

text \<open>
  The values of the parameter records \<open>callApi\<close> takes, a
  \<open>Record<string, string | number | string[] | undefined>\<close>.
\<close>

definition api_value :: "json option \<Rightarrow> bool" where
  "api_value v =
     (case v of
        None \<Rightarrow> True
      | Some (JString t) \<Rightarrow> True
      | Some (JNumber n) \<Rightarrow> True
      | Some (JArray xs) \<Rightarrow> list_all (\<lambda>x. case x of JString t \<Rightarrow> True | _ \<Rightarrow> False) xs
      | Some _ \<Rightarrow> False)"

definition api_params :: "params \<Rightarrow> bool" where
  "api_params ps = list_all (\<lambda>kv. api_value (snd kv)) ps"

text \<open>
  The cache is sound when every entry on the disk holds a response as \<open>callApi\<close> stores
  it: the object \<open>{ data, url }\<close> with the URL of a request to an endpoint of the API.
\<close>

definition stored_response :: "json \<Rightarrow> bool" where
  "stored_response j =
     (\<exists>endpoint ps d. endpoint \<in> set FD_endpoints \<and>
        j = JObject [(''data'', d), (''url'', JString (url_toString endpoint ps))])"

definition cache_sound :: "filesys \<Rightarrow> bool" where
  "cache_sound fs = (\<forall>p e. nodes fs p = Some (File (Stringified e)) \<longrightarrow> stored_response (data e))"

subsection \<open>The provider registry\<close>

text \<open>
  Modelled from the spec: the ProviderRegistry of section 4.3, which dispatches a
  capability to a provider operation, is not among the source files (the sources hold the
  interface and the two providers, not their caller).  As the spec words it: the registry
  maps a capability to a concrete provider operation; dispatch on a capability the
  provider does not support fails with UnsupportedCapability; a successful dispatch
  returns the envelope.  Which operations a provider supports is read off the provider
  object of the source.
\<close>

datatype dispatch_error = UnsupportedCapability | ProviderError exn

text \<open>
  Modelled from the spec: the capability descriptor of the registry (design notes of the
  spec), absent from the sources; a provider supports a request when its object defines
  the method.
\<close>

definition supports :: "IFinancialProvider \<Rightarrow> request \<Rightarrow> bool" where
  "supports p r = (method_of p r \<noteq> None)"

text \<open>
  Modelled from the spec: dispatch of the ProviderRegistry (section 4.3), absent from the
  sources.  An unsupported capability fails with UnsupportedCapability before anything
  is called; a failure of the operation is a provider error; a success is the envelope.
\<close>

definition dispatch ::
  "IFinancialProvider \<Rightarrow> request \<Rightarrow> world \<Rightarrow> (dispatch_error + ProviderResponse) \<times> world" where
  "dispatch p r w =
     (case method_of p r of
        None \<Rightarrow> (Inl UnsupportedCapability, w)
      | Some m \<Rightarrow> (case fst (m w) of
                    Inl e \<Rightarrow> (Inl (ProviderError e), snd (m w))
                  | Inr resp \<Rightarrow> (Inr resp, snd (m w))))"

section \<open>The orchestration loop\<close>

text \<open>
  Modelled from the spec: the ReflectorLoop of section 4.7 with its Planner, Executor and
  Validator (sections 4.4 to 4.6) is not among the source files.  The model follows the
  transition rules of 4.7.  The Planner, the Executor, the Validator, the cost estimate
  and the cancellation signal are parameters: any functions of what the loop has seen.
  \<^item> Planning: the Planner is asked for the tasks of the next wave.  No task: Aborted.
    A task and the budgets not used up: Executing.
  \<^item> Executing: the tasks of the wave are dispatched in order, each dispatch guarded by
    the budgets; \<open>stepsUsed\<close> grows by one and \<open>costUsedUSD\<close> by the estimate with every
    dispatch, whatever its outcome.  Then Validating, then Reflecting.
  \<^item> Reflecting: Synthesizing when every task is Satisfied, when a budget is used up,
    when the loop detector has tripped (stalled) or when a cancellation was observed;
    Aborted when a permanent failure leaves no artifact; Planning otherwise.
  \<^item> Synthesizing ends in Done with the artifacts gathered so far.
  A budget is used up when its counter has reached its cap: with \<open>maxSteps = 3\<close> the
  loop dispatches three times (scenario C of the spec).
\<close>

datatype phase = Planning | Executing | Validating | Reflecting | Synthesizing | Aborted | Done

datatype verdict = Satisfied | InsufficientData string | ErrorVerdict string

datatype execution = Produced ProviderResponse | TransientFailure | PermanentFailure

record Task =
  capability :: string
  arguments :: params

record loop_state =
  phase_of :: phase
  stepsUsed :: nat
  costUsedUSD :: nat
  artifacts :: "ProviderResponse list"
  executor_calls :: "Task list"
  attempts :: "string list"
  stalled :: bool
  visited :: "phase list"

record loop_config =
  maxSteps :: nat
  maxCostUSD :: nat
  loop_threshold :: nat
  planner :: "loop_state \<Rightarrow> verdict list \<Rightarrow> Task list"
  executor :: "Task \<Rightarrow> loop_state \<Rightarrow> execution"
  validator :: "Task \<Rightarrow> ProviderResponse \<Rightarrow> verdict"
  estimated_cost :: "Task \<Rightarrow> nat"
  digest :: "Task \<Rightarrow> string"
  cancellation :: "loop_state \<Rightarrow> bool"

definition initial_state :: loop_state where
  "initial_state =
     \<lparr>phase_of = Planning, stepsUsed = 0, costUsedUSD = 0, artifacts = [], executor_calls = [],
      attempts = [], stalled = False, visited = [Planning]\<rparr>"

definition enter :: "phase \<Rightarrow> loop_state \<Rightarrow> loop_state" where
  "enter ph s = s\<lparr>phase_of := ph, visited := visited s @ [ph]\<rparr>"

definition budgets_used_up :: "loop_config \<Rightarrow> loop_state \<Rightarrow> bool" where
  "budgets_used_up cfg s = (maxSteps cfg \<le> stepsUsed s \<or> maxCostUSD cfg \<le> costUsedUSD s)"

text \<open>
  Modelled from the spec: one Executor dispatch of the loop (sections 4.5 and 4.7), absent
  from the sources.  The Executor runs the task; the counters grow whatever the outcome.
\<close>

definition dispatch_task :: "loop_config \<Rightarrow> loop_state \<Rightarrow> Task \<Rightarrow> loop_state \<times> verdict" where
  "dispatch_task cfg s t =
     (let outcome = executor cfg t s;
          s1 = s\<lparr>stepsUsed := stepsUsed s + 1,
                 costUsedUSD := costUsedUSD s + estimated_cost cfg t,
                 executor_calls := executor_calls s @ [t]\<rparr>
      in case outcome of
           Produced a \<Rightarrow>
             (case validator cfg t a of
                Satisfied \<Rightarrow> (s1\<lparr>artifacts := artifacts s1 @ [a], attempts := []\<rparr>, Satisfied)
              | v \<Rightarrow> (s1\<lparr>artifacts := artifacts s1 @ [a],
                          attempts := attempts s1 @ [digest cfg t]\<rparr>, v))
         | TransientFailure \<Rightarrow>
             (s1\<lparr>attempts := attempts s1 @ [digest cfg t]\<rparr>, ErrorVerdict ''transient'')
         | PermanentFailure \<Rightarrow>
             (s1\<lparr>attempts := attempts s1 @ [digest cfg t]\<rparr>, ErrorVerdict ''permanent''))"

text \<open>
  Modelled from the spec: the Executing state (section 4.7), absent from the sources.  A
  task of the wave is dispatched only while the budgets are not used up.
\<close>

fun execute_wave :: "loop_config \<Rightarrow> loop_state \<Rightarrow> Task list \<Rightarrow> loop_state \<times> verdict list" where
  "execute_wave cfg s [] = (s, [])"
| "execute_wave cfg s (t # ts) =
     (if budgets_used_up cfg s then (s, [InsufficientData ''not dispatched''])
      else (let r = dispatch_task cfg s t;
                rest = execute_wave cfg (fst r) ts
            in (fst rest, snd r # snd rest)))"

text \<open>
  Modelled from the spec: the loop detector (section 4.7), absent from the sources.  It
  trips when a digest was attempted more often than the threshold since the last
  Satisfied artifact.
\<close>

definition loop_detected :: "loop_config \<Rightarrow> loop_state \<Rightarrow> bool" where
  "loop_detected cfg s = (\<exists>d \<in> set (attempts s). loop_threshold cfg < count_list (attempts s) d)"

text \<open>
  Modelled from the spec: the decision of the Reflecting state (section 4.7), absent from
  the sources, with the flag that tells the Synthesizer the loop stalled.
\<close>

definition reflect :: "loop_config \<Rightarrow> loop_state \<Rightarrow> verdict list \<Rightarrow> phase \<times> bool" where
  "reflect cfg s vs =
     (if list_all (\<lambda>v. v = Satisfied) vs then (Synthesizing, False)
      else if budgets_used_up cfg s then (Synthesizing, False)
      else if loop_detected cfg s then (Synthesizing, True)
      else if cancellation cfg s then (Synthesizing, False)
      else if artifacts s = [] \<and> ErrorVerdict ''permanent'' \<in> set vs then (Aborted, False)
      else (Planning, False))"

text \<open>
  Modelled from the spec: one round of the machine (section 4.7), absent from the
  sources, from a state in Planning: to Aborted, to Synthesizing, or through
  Executing, Validating and Reflecting to the phase Reflecting decides.  The verdicts of
  the round go to the Planner of the next.
\<close>

definition round :: "loop_config \<Rightarrow> loop_state \<Rightarrow> verdict list \<Rightarrow> loop_state \<times> verdict list" where
  "round cfg s vs =
     (let plan = planner cfg s vs
      in if plan = [] then (enter Aborted s, [])
         else if budgets_used_up cfg s then (enter Synthesizing s, [])
         else (let w = execute_wave cfg (enter Executing s) plan;
                   s2 = enter Reflecting (enter Validating (fst w));
                   d = reflect cfg s2 (snd w)
               in ((enter (fst d) s2)\<lparr>stalled := snd d\<rparr>, snd w)))"

text \<open>
  Modelled from the spec: the Synthesizer (section 4.8), absent from the sources, closes
  the session: Synthesizing ends in Done.
\<close>

definition finish :: "loop_state \<Rightarrow> loop_state" where
  "finish s = (if phase_of s = Synthesizing then enter Done s else s)"

text \<open>
  Modelled from the spec: the loop (section 4.7), absent from the sources.  It runs rounds
  until one does not return to Planning.  A round that returns to
  Planning has dispatched at least one task within the step budget; this is why the loop
  ends.
\<close>

lemma dispatch_task_steps: "stepsUsed (fst (dispatch_task cfg s t)) = stepsUsed s + 1"
  by (simp add: dispatch_task_def Let_def split: execution.splits verdict.splits)

lemma execute_wave_steps_mono: "stepsUsed s \<le> stepsUsed (fst (execute_wave cfg s ts))"
proof (induction ts arbitrary: s)
  case Nil
  then show ?case by simp
next
  case (Cons t ts)
  have "stepsUsed s \<le> stepsUsed (fst (dispatch_task cfg s t))"
    by (simp add: dispatch_task_steps)
  also have "\<dots> \<le> stepsUsed (fst (execute_wave cfg (fst (dispatch_task cfg s t)) ts))"
    by (rule Cons.IH)
  finally show ?case by (simp add: Let_def)
qed

lemma execute_wave_progress:
  assumes "\<not> budgets_used_up cfg s" and "ts \<noteq> []"
  shows "stepsUsed s < stepsUsed (fst (execute_wave cfg s ts))"
proof (cases ts)
  case Nil
  with assms(2) show ?thesis by simp
next
  case (Cons t ts')
  have "stepsUsed s < stepsUsed (fst (dispatch_task cfg s t))"
    by (simp add: dispatch_task_steps)
  also have "\<dots> \<le> stepsUsed (fst (execute_wave cfg (fst (dispatch_task cfg s t)) ts'))"
    by (rule execute_wave_steps_mono)
  finally show ?thesis using assms(1) Cons by (simp add: Let_def)
qed

lemma round_progress:
  assumes "phase_of (fst (round cfg s vs)) = Planning"
  shows "stepsUsed s < stepsUsed (fst (round cfg s vs)) \<and> stepsUsed s < maxSteps cfg"
proof -
  let ?plan = "planner cfg s vs"
  have plan: "?plan \<noteq> []"
    using assms by (auto simp: round_def Let_def enter_def)
  have budget: "\<not> budgets_used_up cfg s"
    using assms plan by (auto simp: round_def Let_def enter_def)
  have "\<not> budgets_used_up cfg (enter Executing s)"
    using budget by (simp add: budgets_used_up_def enter_def)
  then have "stepsUsed (enter Executing s) <
      stepsUsed (fst (execute_wave cfg (enter Executing s) ?plan))"
    using plan by (rule execute_wave_progress)
  then have "stepsUsed s < stepsUsed (fst (round cfg s vs))"
    using plan budget by (simp add: round_def Let_def enter_def)
  moreover have "stepsUsed s < maxSteps cfg"
    using budget by (simp add: budgets_used_up_def)
  ultimately show ?thesis by simp
qed

function run_loop :: "loop_config \<Rightarrow> loop_state \<Rightarrow> verdict list \<Rightarrow> loop_state" where
  "run_loop cfg s vs =
     (if phase_of (fst (round cfg s vs)) = Planning
      then run_loop cfg (fst (round cfg s vs)) (snd (round cfg s vs))
      else finish (fst (round cfg s vs)))"
  by pat_completeness auto
termination
proof (relation "measure (\<lambda>(cfg, s, vs). maxSteps cfg - stepsUsed s)")
  show "wf (measure (\<lambda>(cfg, s, vs). maxSteps cfg - stepsUsed s))"
    by simp
next
  fix cfg s vs
  assume "phase_of (fst (round cfg s vs)) = Planning"
  then have "stepsUsed s < stepsUsed (fst (round cfg s vs)) \<and> stepsUsed s < maxSteps cfg"
    by (rule round_progress)
  then show "((cfg, fst (round cfg s vs), snd (round cfg s vs)), (cfg, s, vs))
      \<in> measure (\<lambda>(cfg, s, vs). maxSteps cfg - stepsUsed s)"
    by (simp add: case_prod_beta) arith
qed

text \<open>The invariant behind the budget cap: every dispatch is counted, and within the cap.\<close>

definition budget_inv :: "loop_config \<Rightarrow> loop_state \<Rightarrow> bool" where
  "budget_inv cfg s = (length (executor_calls s) = stepsUsed s \<and> stepsUsed s \<le> maxSteps cfg)"

section \<open>Worked examples\<close>

text \<open>
  Concrete inputs for the examples that follow the theorems: a disk with the working
  directory \<open>/home/dexter\<close>, the cache the constructor builds there with the default
  options, a stand-in for the hash function, a world in which the API answers and the
  Yahoo library returns a quote, and scenario C of the spec for the loop.
\<close>

definition home_disk :: filesys where
  "home_disk =
     \<lparr>nodes = [[] \<mapsto> Dir, [''home''] \<mapsto> Dir, [''home'', ''dexter''] \<mapsto> Dir],
      refused = (\<lambda>call p. None)\<rparr>"

definition example_cache :: CacheService where
  "example_cache = \<lparr>cacheDir = [''home'', ''dexter'', ''.dexter'', ''cache''], ttl = 86400000\<rparr>"

definition cache_disk :: filesys where
  "cache_disk =
     home_disk\<lparr>nodes := (nodes home_disk)
        ([''home'', ''dexter'', ''.dexter''] \<mapsto> Dir,
         [''home'', ''dexter'', ''.dexter'', ''cache''] \<mapsto> Dir)\<rparr>"

definition example_md5 :: "string \<Rightarrow> 128 word" where
  "example_md5 t = of_nat (length t)"

text \<open>
  The arguments \<open>{ ticker: 'AAPL' }\<close>, their key under the prefix \<open>prices\<close> (the
  text that is hashed has 13 characters) and the file of that key; an entry a day and an
  hour old; disks that hold this entry or a text that does not parse in that file; and the
  same disks when the operating system refuses to unlink (a cache directory the process
  may not write to).
\<close>

definition AAPL_args :: params where
  "AAPL_args = [(''ticker'', Some (JString ''AAPL''))]"

definition AAPL_key :: string where
  "AAPL_key = ''prices_0000000000000000000000000000000d''"

definition AAPL_file :: path where
  "AAPL_file = [''home'', ''dexter'', ''.dexter'', ''cache'', AAPL_key @ ''.json'']"

definition stale_entry :: "json CacheEntry" where
  "stale_entry = \<lparr>data = JString ''stale'', timestamp = 1700000000000, key = AAPL_key\<rparr>"

definition stale_disk :: filesys where
  "stale_disk = cache_disk\<lparr>nodes := (nodes cache_disk)(AAPL_file \<mapsto> File (Stringified stale_entry))\<rparr>"

definition corrupt_disk :: filesys where
  "corrupt_disk =
     cache_disk\<lparr>nodes := (nodes cache_disk)(AAPL_file \<mapsto> File (Unparseable ''{\"data\":''))\<rparr>"

definition no_unlink :: "syscall \<Rightarrow> path \<Rightarrow> exn option" where
  "no_unlink call p = (if call = Unlink then Some EACCES else None)"

definition locked_stale_disk :: filesys where
  "locked_stale_disk = stale_disk\<lparr>refused := no_unlink\<rparr>"

definition locked_corrupt_disk :: filesys where
  "locked_corrupt_disk = corrupt_disk\<lparr>refused := no_unlink\<rparr>"

definition example_world :: world where
  "example_world =
     \<lparr>disk = cache_disk,
      md5_of = example_md5,
      fetch = (\<lambda>u k. Inr \<lparr>ok = True, status_r = 200, statusText = ''OK'',
                 json_r = Inr (JObject [(''prices'', JArray [JObject [(''ticker'', JString ''AAPL'')]])])\<rparr>),
      now_at_get = 1700000000000,
      now_at_set = 1700000000250,
      yf_quoteSummary = (\<lambda>t ms. Inl (JsError ''network'')),
      yf_quote = (\<lambda>t. Inr \<lparr>regularMarketPrice = Some (JNumber 189), regularMarketOpen = None,
                 regularMarketDayHigh = None, regularMarketDayLow = None,
                 regularMarketVolume = Some (JNumber 1000)\<rparr>),
      yf_historical = (\<lambda>t a b. Inl (JsError ''network'')),
      yf_search = (\<lambda>t n. Inl (JsError ''network'')),
      today = ''2026-01-04'',
      a_year_ago = ''2025-01-04''\<rparr>"

text \<open>
  A disk on which the subdirectories of the key of \<open>/prices/\<close> exist and hold the
  response to the request for the ticker AAPL (the text that is hashed has 28
  characters), stored a second before the clock of the example world.
\<close>

definition warm_disk :: filesys where
  "warm_disk =
     cache_disk\<lparr>nodes := (nodes cache_disk)
        ([''home'', ''dexter'', ''.dexter'', ''cache'', ''financialdatasets_''] \<mapsto> Dir,
         [''home'', ''dexter'', ''.dexter'', ''cache'', ''financialdatasets_'', ''prices''] \<mapsto> Dir,
         [''home'', ''dexter'', ''.dexter'', ''cache'', ''financialdatasets_'', ''prices'',
          ''_0000000000000000000000000000001c.json''] \<mapsto>
           File (Stringified
             \<lparr>data = JObject
                 [(''data'', JObject [(''prices'', JArray [JObject [(''close'', JNumber 189)]])]),
                  (''url'', JString ''https://api.financialdatasets.ai/prices/?ticker=AAPL'')],
              timestamp = 1699999999000,
              key = ''financialdatasets_/prices/_0000000000000000000000000000001c''\<rparr>))\<rparr>"

definition warm_world :: world where
  "warm_world = example_world\<lparr>disk := warm_disk\<rparr>"

definition scenario_C :: loop_config where
  "scenario_C =
     \<lparr>maxSteps = 3, maxCostUSD = 1000000, loop_threshold = 5,
      planner = (\<lambda>s vs. [\<lparr>capability = ''news'', arguments = []\<rparr>]),
      executor = (\<lambda>t s. TransientFailure),
      validator = (\<lambda>t a. Satisfied),
      estimated_cost = (\<lambda>t. 100),
      digest = capability,
      cancellation = (\<lambda>s. False)\<rparr>"

section \<open>Properties of the session store\<close>

subsection \<open>Invariants of the tables\<close>

lemma status_check_text: "status_check (status_text st)"
  by (cases st) (simp_all add: status_check_def)

lemma role_check_text: "role_check (role_text r)"
  by (cases r) (simp_all add: role_check_def)

lemma db_step_status_domain:
  assumes "status_domain db" and "db_step db c = Inr db'"
  shows "status_domain db'"
proof (cases c)
  case (CreateSession i q now)
  with assms show ?thesis
    by (auto simp: createSession_def status_domain_def Let_def status_check_text split: if_splits)
next
  case (UpdateSessionStatus i st now)
  with assms show ?thesis
    by (auto simp: updateSessionStatus_def status_domain_def list_all_iff status_check_text
        split: if_splits)
next
  case (DeleteSession i)
  with assms show ?thesis
    by (auto simp: deleteSession_def status_domain_def list_all_iff Let_def split: if_splits)
next
  case (AddMessage s r c t1 rnd t2)
  with assms show ?thesis
    by (auto simp: addMessage_def status_domain_def Let_def split: if_splits)
next
  case (AddResearchArtifact s dj src t1 rnd t2)
  with assms show ?thesis
    by (auto simp: addResearchArtifact_def status_domain_def Let_def split: if_splits)
qed

lemma db_run_status_domain:
  "status_domain db \<Longrightarrow> db_run db cs = Inr db' \<Longrightarrow> status_domain db'"
proof (induction cs arbitrary: db)
  case Nil
  then show ?case by simp
next
  case (Cons c cs)
  then show ?case
    by (auto split: sum.splits dest: db_step_status_domain)
qed

lemma db_step_foreign_keys: "db_step db c = Inr db' \<Longrightarrow> foreign_keys db' = foreign_keys db"
  by (cases c)
     (auto simp: createSession_def updateSessionStatus_def deleteSession_def addMessage_def
        addResearchArtifact_def Let_def split: if_splits)

lemma db_run_foreign_keys: "db_run db cs = Inr db' \<Longrightarrow> foreign_keys db' = foreign_keys db"
proof (induction cs arbitrary: db)
  case Nil
  then show ?case by simp
next
  case (Cons c cs)
  then show ?case
    by (auto split: sum.splits dest: db_step_foreign_keys)
qed

lemma session_ids_update:
  "map id_s (map (\<lambda>s. if id_s s = i then s\<lparr>status := x, updated_at := t\<rparr> else s) ss) = map id_s ss"
  by (induction ss) auto

lemma session_exists_update:
  "session_exists (db\<lparr>sessions :=
      map (\<lambda>s. if id_s s = i then s\<lparr>status := x, updated_at := t\<rparr> else s) (sessions db)\<rparr>) j
   = session_exists db j"
  by (simp add: session_exists_def session_ids_update del: set_map map_map)

lemma db_step_fk_consistent:
  assumes "foreign_keys db" and "fk_consistent db" and "db_step db c = Inr db'"
  shows "fk_consistent db'"
proof (cases c)
  case (CreateSession i q now)
  with assms show ?thesis
    by (auto simp: createSession_def fk_consistent_def session_exists_def list_all_iff Let_def
        split: if_splits)
next
  case (UpdateSessionStatus i st now)
  with assms show ?thesis
    by (auto simp: updateSessionStatus_def fk_consistent_def session_exists_update list_all_iff
        split: if_splits)
next
  case (DeleteSession i)
  with assms show ?thesis
    by (fastforce simp: deleteSession_def fk_consistent_def session_exists_def list_all_iff Let_def
        split: if_splits)
next
  case (AddMessage s r c t1 rnd t2)
  with assms show ?thesis
    by (auto simp: addMessage_def fk_consistent_def session_exists_def list_all_iff Let_def
        split: if_splits)
next
  case (AddResearchArtifact s dj src t1 rnd t2)
  with assms show ?thesis
    by (auto simp: addResearchArtifact_def fk_consistent_def session_exists_def list_all_iff
        Let_def split: if_splits)
qed

lemma db_run_fk_consistent:
  "foreign_keys db \<Longrightarrow> fk_consistent db \<Longrightarrow> db_run db cs = Inr db' \<Longrightarrow> fk_consistent db'"
proof (induction cs arbitrary: db)
  case Nil
  then show ?case by simp
next
  case (Cons c cs)
  then show ?case
    by (auto split: sum.splits dest: db_step_fk_consistent db_step_foreign_keys)
qed

lemma fk_consistent_init: "fk_consistent (initializeSchema fk)"
  by (simp add: fk_consistent_def initializeSchema_def)

lemma getSession_unknown: "\<not> session_exists db i \<Longrightarrow> getSession db i = Inr None"
  by (auto simp: getSession_def session_exists_def find_None_iff)

lemma fk_consistent_no_rows:
  assumes "fk_consistent db" and "\<not> session_exists db i"
  shows "session_messages db i = [] \<and> session_artifacts db i = []"
  using assms
  by (auto simp: fk_consistent_def session_messages_def session_artifacts_def list_all_iff
      filter_empty_conv)

lemma db_run_appends:
  "list_all is_append cs \<Longrightarrow> db_run db cs = Inr db' \<Longrightarrow>
     messages db' = messages db @ appended_messages cs \<and>
     research_artifacts db' = research_artifacts db @ appended_artifacts cs \<and>
     sessions db' = sessions db"
proof (induction cs arbitrary: db)
  case Nil
  then show ?case by simp
next
  case (Cons c cs)
  from Cons.prems obtain db1 where step: "db_step db c = Inr db1" and rest: "db_run db1 cs = Inr db'"
    by (auto split: sum.splits)
  from Cons.prems have app: "is_append c" and apps: "list_all is_append cs" by simp_all
  from Cons.IH [OF apps rest]
  have ih: "messages db' = messages db1 @ appended_messages cs"
    "research_artifacts db' = research_artifacts db1 @ appended_artifacts cs"
    "sessions db' = sessions db1" by simp_all
  show ?case
  proof (cases c)
    case (AddMessage s r c' t1 rnd t2)
    with step have "db1 = db\<lparr>messages := messages db @ [new_message s r c' t1 rnd t2]\<rparr>"
      by (auto simp: addMessage_def Let_def split: if_splits)
    with ih AddMessage show ?thesis by simp
  next
    case (AddResearchArtifact s dj src t1 rnd t2)
    with step have "db1 = db\<lparr>research_artifacts :=
        research_artifacts db @ [new_artifact s dj src t1 rnd t2]\<rparr>"
      by (auto simp: addResearchArtifact_def Let_def split: if_splits)
    with ih AddResearchArtifact show ?thesis by simp
  qed (use app in simp_all)
qed

subsection \<open>Reading an unknown session\<close>

text \<open>
  Claim C5, as stated: reading a sessionId that is not in the store fails with a NotFound
  error.  The code has no such error: on the new database every read of
  \<open>session_1\<close> returns an ordinary value, \<open>null\<close> from \<open>getSession\<close> and the empty list
  from the two history reads.
\<close>

theorem unknown_session_counterexample:
  "getSession (initializeSchema True) ''session_1'' = Inr None \<and>
   getSessionMessages (initializeSchema True) ''session_1'' = Inr [] \<and>
   getSessionArtifacts (initializeSchema True) ''session_1'' = Inr []"
  by (simp add: getSession_def getSessionMessages_def getSessionArtifacts_def initializeSchema_def)

text \<open>
  Claim C5, amended: in every state the store reaches from a new database, a read of a
  sessionId that is not stored signals no error; \<open>getSession\<close> returns \<open>null\<close>, the
  history reads return a list, and that list is empty when foreign keys are enforced.
\<close>

theorem unknown_session_reads:
  assumes "db_run (initializeSchema fk) calls = Inr db" and "\<not> session_exists db i"
  shows "getSession db i = Inr None \<and>
         \<not> isl (getSessionMessages db i) \<and> \<not> isl (getSessionArtifacts db i) \<and>
         (fk \<longrightarrow> getSessionMessages db i = Inr [] \<and> getSessionArtifacts db i = Inr [])"
proof -
  have none: "getSession db i = Inr None"
    using assms(2) by (rule getSession_unknown)
  have ordinary: "\<not> isl (getSessionMessages db i) \<and> \<not> isl (getSessionArtifacts db i)"
    by (simp add: getSessionMessages_def getSessionArtifacts_def)
  have empty: "getSessionMessages db i = Inr [] \<and> getSessionArtifacts db i = Inr []" if "fk"
  proof -
    have "foreign_keys (initializeSchema fk)"
      using that by (simp add: initializeSchema_def)
    then have "fk_consistent db"
      using fk_consistent_init assms(1) by (rule db_run_fk_consistent)
    then have "session_messages db i = [] \<and> session_artifacts db i = []"
      using assms(2) by (rule fk_consistent_no_rows)
    then show ?thesis
      by (simp add: getSessionMessages_def getSessionArtifacts_def session_messages_def
          session_artifacts_def)
  qed
  from none ordinary empty show ?thesis by blast
qed

theorem unknown_session_reads_witness:
  "db_run (initializeSchema True) [CreateSession ''session_1'' None 1700000000000] =
     Inr \<lparr>sessions = [\<lparr>id_s = ''session_1'', created_at = 1700000000000,
                        updated_at = 1700000000000, status = ''active'', query = None\<rparr>],
          messages = [], research_artifacts = [], foreign_keys = True\<rparr> \<and>
   getSession (projr (db_run (initializeSchema True)
       [CreateSession ''session_1'' None 1700000000000])) ''session_2'' = Inr None \<and>
   getSessionMessages (projr (db_run (initializeSchema True)
       [CreateSession ''session_1'' None 1700000000000])) ''session_2'' = Inr [] \<and>
   getSessionArtifacts (projr (db_run (initializeSchema True)
       [CreateSession ''session_1'' None 1700000000000])) ''session_2'' = Inr []"
proof -
  let ?db = "\<lparr>sessions = [\<lparr>id_s = ''session_1'', created_at = 1700000000000,
                        updated_at = 1700000000000, status = ''active'', query = None\<rparr>],
          messages = [], research_artifacts = [], foreign_keys = True\<rparr>"
  have run: "db_run (initializeSchema True) [CreateSession ''session_1'' None 1700000000000] = Inr ?db"
    by (simp add: initializeSchema_def createSession_def status_check_def session_exists_def Let_def)
  have unknown: "\<not> session_exists ?db ''session_2''"
    by (simp add: session_exists_def)
  from unknown_session_reads [OF run unknown] run show ?thesis by simp
qed


subsection \<open>Order of a session's history\<close>

text \<open>
  Claim C7, as stated: after any sequence of \<open>addMessage\<close> calls the history is read back
  in the order the rows were appended.  The read orders by the stored timestamp, which is
  the wall clock at the call.  When the clock reads 200 at the first call and 150 at the
  second, the row appended second is read first.
\<close>

theorem history_order_counterexample:
  "map content (projr (messages_after
      \<lparr>sessions = [\<lparr>id_s = ''s1'', created_at = 100, updated_at = 100, status = ''active'',
                     query = None\<rparr>],
       messages = [], research_artifacts = [], foreign_keys = True\<rparr>
      [AddMessage ''s1'' User ''first'' 200 ''k3j9x0q1z'' 200,
       AddMessage ''s1'' Assistant ''second'' 150 ''p0w8e7r6t'' 150] ''s1''))
   = [''second'', ''first'']"
  by (simp add: messages_after_def addMessage_def new_message_def getSessionMessages_def
      role_check_def session_exists_def Let_def)

text \<open>
  Claim C7, amended: a sequence of \<open>addMessage\<close> / \<open>addResearchArtifact\<close> calls that all
  return only appends the rows they build, in call order, to the two tables.  The history
  of a session read afterwards is ordered by timestamp ascending, rows of equal timestamp
  in insertion order, and holds exactly the rows of the session.  It is the insertion
  order itself whenever the timestamps of the session's rows do not decrease in insertion
  order (the clock did not step back between the appends).
\<close>

theorem history_order:
  assumes "db_run db calls = Inr db'" and "list_all is_append calls"
  shows "messages db' = messages db @ appended_messages calls \<and>
         research_artifacts db' = research_artifacts db @ appended_artifacts calls \<and>
         (\<exists>ms. getSessionMessages db' s = Inr ms \<and> sorted (map timestamp_m ms) \<and>
            (\<forall>t. filter (\<lambda>m. timestamp_m m = t) ms =
                  filter (\<lambda>m. timestamp_m m = t) (session_messages db' s))) \<and>
         (\<exists>as. getSessionArtifacts db' s = Inr as \<and> sorted (map timestamp_a as) \<and>
            (\<forall>t. filter (\<lambda>a. timestamp_a a = t) as =
                  filter (\<lambda>a. timestamp_a a = t) (session_artifacts db' s))) \<and>
         (sorted (map timestamp_m (session_messages db' s)) \<longrightarrow>
            getSessionMessages db' s = Inr (session_messages db' s)) \<and>
         (sorted (map timestamp_a (session_artifacts db' s)) \<longrightarrow>
            getSessionArtifacts db' s = Inr (session_artifacts db' s))"
proof -
  from db_run_appends [OF assms(2) assms(1)]
  have grow: "messages db' = messages db @ appended_messages calls"
    "research_artifacts db' = research_artifacts db @ appended_artifacts calls" by simp_all
  have m: "getSessionMessages db' s = Inr (sort_key timestamp_m (session_messages db' s))"
    by (simp add: getSessionMessages_def session_messages_def)
  have a: "getSessionArtifacts db' s = Inr (sort_key timestamp_a (session_artifacts db' s))"
    by (simp add: getSessionArtifacts_def session_artifacts_def)
  show ?thesis
    using grow by (simp add: m a sort_key_stable sort_key_id_if_sorted)
qed

theorem history_order_witness:
  "map content (projr (messages_after
      \<lparr>sessions = [\<lparr>id_s = ''s1'', created_at = 100, updated_at = 100, status = ''active'',
                     query = None\<rparr>],
       messages = [], research_artifacts = [], foreign_keys = True\<rparr>
      [AddMessage ''s1'' User ''first'' 200 ''k3j9x0q1z'' 200,
       AddResearchArtifact ''s1'' ''{}'' ''yahoo-finance:AAPL:metrics'' 210 ''m4n5b6v7c'' 210,
       AddMessage ''s1'' Assistant ''second'' 220 ''p0w8e7r6t'' 220] ''s1''))
   = [''first'', ''second''] \<and>
   map source_a (projr (artifacts_after
      \<lparr>sessions = [\<lparr>id_s = ''s1'', created_at = 100, updated_at = 100, status = ''active'',
                     query = None\<rparr>],
       messages = [], research_artifacts = [], foreign_keys = True\<rparr>
      [AddMessage ''s1'' User ''first'' 200 ''k3j9x0q1z'' 200,
       AddResearchArtifact ''s1'' ''{}'' ''yahoo-finance:AAPL:metrics'' 210 ''m4n5b6v7c'' 210,
       AddMessage ''s1'' Assistant ''second'' 220 ''p0w8e7r6t'' 220] ''s1''))
   = [''yahoo-finance:AAPL:metrics'']"
proof -
  let ?db = "\<lparr>sessions = [\<lparr>id_s = ''s1'', created_at = 100, updated_at = 100,
                status = ''active'', query = None\<rparr>],
       messages = [], research_artifacts = [], foreign_keys = True\<rparr>"
  let ?cs = "[AddMessage ''s1'' User ''first'' 200 ''k3j9x0q1z'' 200,
       AddResearchArtifact ''s1'' ''{}'' ''yahoo-finance:AAPL:metrics'' 210 ''m4n5b6v7c'' 210,
       AddMessage ''s1'' Assistant ''second'' 220 ''p0w8e7r6t'' 220]"
  let ?m1 = "new_message ''s1'' User ''first'' 200 ''k3j9x0q1z'' 200"
  let ?m2 = "new_message ''s1'' Assistant ''second'' 220 ''p0w8e7r6t'' 220"
  let ?a1 = "new_artifact ''s1'' ''{}'' ''yahoo-finance:AAPL:metrics'' 210 ''m4n5b6v7c'' 210"
  let ?db' = "?db\<lparr>messages := [?m1, ?m2], research_artifacts := [?a1]\<rparr>"
  have run: "db_run ?db ?cs = Inr ?db'"
    by (simp add: addMessage_def addResearchArtifact_def new_message_def new_artifact_def
        role_check_def session_exists_def Let_def)
  have app: "list_all is_append ?cs" by simp
  have sm: "session_messages ?db' ''s1'' = [?m1, ?m2]"
    by (simp add: session_messages_def new_message_def)
  have sa: "session_artifacts ?db' ''s1'' = [?a1]"
    by (simp add: session_artifacts_def new_artifact_def)
  have "sorted (map timestamp_m (session_messages ?db' ''s1''))"
    unfolding sm by (simp add: new_message_def)
  moreover have "sorted (map timestamp_a (session_artifacts ?db' ''s1''))"
    unfolding sa by (simp add: new_artifact_def)
  ultimately have "getSessionMessages ?db' ''s1'' = Inr [?m1, ?m2] \<and>
      getSessionArtifacts ?db' ''s1'' = Inr [?a1]"
    using history_order [OF run app, of "''s1''"] unfolding sm sa by blast
  then show ?thesis
    unfolding messages_after_def artifacts_after_def run
    by (simp add: new_message_def new_artifact_def)
qed

subsection \<open>Updating the status of a session\<close>

text \<open>
  Claim C9: \<open>updateSessionStatus(id, status)\<close> returns normally and changes nothing but the
  \<open>status\<close> and \<open>updated_at\<close> fields of the session row with that id: the messages, the
  artifacts and the pragma are the same, the sessions table has the same rows in the same
  places, every row keeps its \<open>id\<close>, \<open>created_at\<close> and \<open>query\<close>, and a row with another
  id is unchanged.
\<close>

theorem updateSessionStatus_frame:
  "\<exists>db'. updateSessionStatus db i st now = Inr db' \<and>
     messages db' = messages db \<and> research_artifacts db' = research_artifacts db \<and>
     foreign_keys db' = foreign_keys db \<and>
     length (sessions db') = length (sessions db) \<and>
     (\<forall>k < length (sessions db).
        id_s (sessions db' ! k) = id_s (sessions db ! k) \<and>
        created_at (sessions db' ! k) = created_at (sessions db ! k) \<and>
        query (sessions db' ! k) = query (sessions db ! k) \<and>
        (id_s (sessions db ! k) \<noteq> i \<longrightarrow> sessions db' ! k = sessions db ! k) \<and>
        (id_s (sessions db ! k) = i \<longrightarrow>
           status (sessions db' ! k) = status_text st \<and> updated_at (sessions db' ! k) = now))"
  by (simp add: updateSessionStatus_def status_check_text)

theorem updateSessionStatus_frame_witness:
  "updateSessionStatus
     \<lparr>sessions = [\<lparr>id_s = ''s1'', created_at = 10, updated_at = 10, status = ''active'',
                    query = Some ''AAPL revenue''\<rparr>,
                  \<lparr>id_s = ''s2'', created_at = 20, updated_at = 20, status = ''active'',
                    query = None\<rparr>],
      messages = [\<lparr>id_m = ''msg_10_a'', session_id_m = ''s1'', role = ''user'',
                    content = ''AAPL revenue'', timestamp_m = 10\<rparr>],
      research_artifacts = [], foreign_keys = True\<rparr> ''s1'' Completed 30
   = Inr \<lparr>sessions = [\<lparr>id_s = ''s1'', created_at = 10, updated_at = 30, status = ''completed'',
                    query = Some ''AAPL revenue''\<rparr>,
                  \<lparr>id_s = ''s2'', created_at = 20, updated_at = 20, status = ''active'',
                    query = None\<rparr>],
      messages = [\<lparr>id_m = ''msg_10_a'', session_id_m = ''s1'', role = ''user'',
                    content = ''AAPL revenue'', timestamp_m = 10\<rparr>],
      research_artifacts = [], foreign_keys = True\<rparr>"
proof -
  let ?db = "\<lparr>sessions = [\<lparr>id_s = ''s1'', created_at = 10, updated_at = 10, status = ''active'',
                    query = Some ''AAPL revenue''\<rparr>,
                  \<lparr>id_s = ''s2'', created_at = 20, updated_at = 20, status = ''active'',
                    query = None\<rparr>],
      messages = [\<lparr>id_m = ''msg_10_a'', session_id_m = ''s1'', role = ''user'',
                    content = ''AAPL revenue'', timestamp_m = 10\<rparr>],
      research_artifacts = [], foreign_keys = True\<rparr>"
  from updateSessionStatus_frame [of ?db "''s1''" Completed 30]
  obtain db' where upd: "updateSessionStatus ?db ''s1'' Completed 30 = Inr db'"
    by blast
  then have "updateSessionStatus ?db ''s1'' Completed 30 =
      Inr (projr (updateSessionStatus ?db ''s1'' Completed 30))"
    by simp
  then show ?thesis
    by (simp add: updateSessionStatus_def session_exists_def status_check_def)
qed

subsection \<open>The status domain\<close>

text \<open>
  Claim C10: in every state the store reaches from a new database, every stored session
  has its status in \<open>{active, completed, error}\<close>; \<open>createSession\<close> with an id that is
  not stored returns, and whenever it returns it has appended a session with status
  \<open>active\<close> and \<open>created_at = updated_at\<close>; every call of a writing method that returns
  keeps the status domain.
\<close>

theorem session_status_invariant:
  "(db_run (initializeSchema fk) calls = Inr db \<longrightarrow>
      (\<forall>s \<in> set (sessions db). status s \<in> {''active'', ''completed'', ''error''})) \<and>
   (\<not> session_exists db1 i \<longrightarrow>
      (\<exists>db2 s. createSession db1 i q now = Inr (db2, s) \<and> sessions db2 = sessions db1 @ [s] \<and>
         id_s s = i \<and> status s = ''active'' \<and> created_at s = updated_at s)) \<and>
   (createSession db1 i q now = Inr (db3, s3) \<longrightarrow>
      status s3 = ''active'' \<and> created_at s3 = updated_at s3 \<and>
      sessions db3 = sessions db1 @ [s3]) \<and>
   ((\<forall>s \<in> set (sessions db4). status s \<in> {''active'', ''completed'', ''error''}) \<and>
      db_step db4 c = Inr db5 \<longrightarrow>
      (\<forall>s \<in> set (sessions db5). status s \<in> {''active'', ''completed'', ''error''}))"
proof -
  have dom: "status_domain d =
      (\<forall>s \<in> set (sessions d). status s \<in> {''active'', ''completed'', ''error''})" for d
    by (simp add: status_domain_def status_check_def list_all_iff)
  have reach: "db_run (initializeSchema fk) calls = Inr db \<Longrightarrow> status_domain db"
  proof -
    assume run: "db_run (initializeSchema fk) calls = Inr db"
    have "status_domain (initializeSchema fk)"
      by (simp add: status_domain_def initializeSchema_def)
    then show "status_domain db" using run by (rule db_run_status_domain)
  qed
  have fresh: "\<exists>db2 s. createSession db1 i q now = Inr (db2, s) \<and>
         sessions db2 = sessions db1 @ [s] \<and>
         id_s s = i \<and> status s = ''active'' \<and> created_at s = updated_at s"
    if "\<not> session_exists db1 i"
    using that by (simp add: createSession_def Let_def status_check_def)
  have created: "status s3 = ''active'' \<and> created_at s3 = updated_at s3 \<and>
      sessions db3 = sessions db1 @ [s3]"
    if "createSession db1 i q now = Inr (db3, s3)"
    using that by (auto simp: createSession_def Let_def split: if_splits)
  have step: "status_domain db4 \<Longrightarrow> db_step db4 c = Inr db5 \<Longrightarrow> status_domain db5"
    by (rule db_step_status_domain)
  show ?thesis
    using reach fresh created step unfolding dom by blast
qed

theorem session_status_invariant_witness:
  "db_run (initializeSchema True)
     [CreateSession ''s1'' None 10, UpdateSessionStatus ''s1'' Error 20] =
   Inr \<lparr>sessions = [\<lparr>id_s = ''s1'', created_at = 10, updated_at = 20, status = ''error'',
                       query = None\<rparr>],
        messages = [], research_artifacts = [], foreign_keys = True\<rparr> \<and>
   status_domain (projr (db_run (initializeSchema True)
     [CreateSession ''s1'' None 10, UpdateSessionStatus ''s1'' Error 20])) \<and>
   \<not> session_exists (initializeSchema True) ''s1'' \<and>
   status (snd (projr (createSession (initializeSchema True) ''s1'' None 10))) = ''active'' \<and>
   created_at (snd (projr (createSession (initializeSchema True) ''s1'' None 10))) = 10 \<and>
   updated_at (snd (projr (createSession (initializeSchema True) ''s1'' None 10))) = 10 \<and>
   status_domain (projr (db_step (fst (projr (createSession (initializeSchema True) ''s1'' None 10)))
     (UpdateSessionStatus ''s1'' Error 20)))"
proof -
  let ?cs = "[CreateSession ''s1'' None 10, UpdateSessionStatus ''s1'' Error 20]"
  let ?s1 = "\<lparr>id_s = ''s1'', created_at = 10, updated_at = 10, status = ''active'',
              query = None\<rparr>"
  let ?d1 = "\<lparr>sessions = [?s1], messages = [], research_artifacts = [], foreign_keys = True\<rparr>"
  let ?c = "UpdateSessionStatus ''s1'' Error 20"
  let ?db = "\<lparr>sessions = [\<lparr>id_s = ''s1'', created_at = 10, updated_at = 20, status = ''error'',
                       query = None\<rparr>],
        messages = [], research_artifacts = [], foreign_keys = True\<rparr>"
  have fresh: "\<not> session_exists (initializeSchema True) ''s1''"
    by (simp add: session_exists_def initializeSchema_def)
  have create: "createSession (initializeSchema True) ''s1'' None 10 = Inr (?d1, ?s1)"
    by (simp add: initializeSchema_def createSession_def status_check_def session_exists_def
        Let_def)
  have upd: "updateSessionStatus ?d1 ''s1'' Error 20 = Inr ?db"
    by (simp add: updateSessionStatus_def status_check_def session_exists_def)
  then have step: "db_step ?d1 ?c = Inr ?db"
    by simp
  have run: "db_run (initializeSchema True) ?cs = Inr ?db"
    using create step by simp
  have dom1: "\<forall>s \<in> set (sessions ?d1). status s \<in> {''active'', ''completed'', ''error''}"
    by simp
  note inv = session_status_invariant
    [of True ?cs ?db "initializeSchema True" "''s1''" None 10 ?d1 ?s1 ?d1 ?c ?db]
  from inv run have "\<forall>s \<in> set (sessions ?db). status s \<in> {''active'', ''completed'', ''error''}"
    by blast
  then have d: "status_domain ?db"
    by (simp add: status_domain_def status_check_def list_all_iff)
  from inv create have "status ?s1 = ''active'' \<and> created_at ?s1 = updated_at ?s1"
    by blast
  with d fresh show ?thesis
    by (simp add: create upd)
qed

section \<open>Properties of the cache\<close>

subsection \<open>Keys and paths\<close>

lemma hex_nibble_in: "hex_nibble n \<in> set ''0123456789abcdef''"
  unfolding hex_nibble_def by (rule nth_mem) simp

lemma hex_digest_chars: "set (hex_digest w) \<subseteq> set ''0123456789abcdef''"
  unfolding hex_digest_def using hex_nibble_in by auto

lemma hex_digest_no_slash: "CHR ''/'' \<notin> set (hex_digest w)"
  using hex_digest_chars [of w] by auto

lemma hex_digest_no_NUL: "CHR 0x00 \<notin> set (hex_digest w)"
  using hex_digest_chars [of w] by auto

lemma length_hex_digest: "length (hex_digest w) = 32"
  by (simp add: hex_digest_def)

lemma split_slash_no_slash: "CHR ''/'' \<notin> set t \<Longrightarrow> split_slash seg t = [rev seg @ t]"
  by (induction t arbitrary: seg) auto

lemma property_perm:
  assumes "distinct (map fst ps)" and "distinct (map fst qs)" and "set ps = set qs"
  shows "property ps k = property qs k"
proof -
  have "map_of ps = map_of qs"
    using assms by (simp add: map_of_inject_set)
  then show ?thesis by (simp add: property_def)
qed

text \<open>
  The key does not depend on the order in which the properties of the argument record
  were inserted.
\<close>

lemma generateKey_order_independent:
  assumes "distinct (map fst ps)" and "distinct (map fst qs)" and "set ps = set qs"
  shows "generateKey md5 prefix ps = generateKey md5 prefix qs"
proof -
  have "mset (map fst ps) = mset (map fst qs)"
    using assms by (metis distinct_map set_eq_iff_mset_eq_distinct mset_map)
  then have "sort (Object_keys ps) = sort (Object_keys qs)"
    unfolding Object_keys_def by (metis properties_for_sort sorted_sort mset_sort)
  moreover have "property ps = property qs"
    using property_perm [OF assms] by blast
  ultimately show ?thesis by (simp add: generateKey_def)
qed

text \<open>A key is the prefix, an underscore and the 32 digits of the hash.\<close>

lemma generateKey_shape:
  assumes "generateKey md5 prefix ps = Inr k"
  shows "\<exists>h. k = prefix @ ''_'' @ hex_digest h"
  using assms by (auto simp: generateKey_def Let_def split: sum.splits)

text \<open>
  \<open>generateKey\<close> throws only what \<open>JSON.stringify\<close> throws for one of the values, a
  \<open>TypeError\<close>; it returns a key for the parameter records \<open>callApi\<close> takes.
\<close>

lemma collect_Inl: "collect rs = Inl e \<Longrightarrow> Inl e \<in> set rs"
  by (induction rs rule: collect.induct) (auto split: sum.splits)

lemma collect_total: "\<forall>r \<in> set rs. \<not> isl r \<Longrightarrow> \<exists>xs. collect rs = Inr xs"
  by (induction rs rule: collect.induct) (auto split: sum.splits)

lemma JSON_stringify_throws: "JSON_stringify j = Inl e \<Longrightarrow> e = TypeError"
  by (induction j arbitrary: e rule: JSON_stringify.induct)
    (auto split: sum.splits dest!: collect_Inl)

lemma generateKey_throws: "generateKey md5 prefix ps = Inl e \<Longrightarrow> e = TypeError"
  by (auto simp: generateKey_def Let_def stringify_in_template_def
      split: sum.splits option.splits dest!: collect_Inl JSON_stringify_throws)

lemma api_value_stringify: "api_value v \<Longrightarrow> \<not> isl (stringify_in_template v)"
proof (cases v)
  case None
  then show ?thesis by (simp add: stringify_in_template_def)
next
  case (Some j)
  assume ok: "api_value v"
  show ?thesis
  proof (cases j)
    case (JArray xs)
    have "\<exists>t. x = JString t" if "case x of JString t \<Rightarrow> True | _ \<Rightarrow> False" for x
      using that by (cases x) simp_all
    with ok Some JArray have "\<forall>x \<in> set xs. \<exists>t. x = JString t"
      by (simp add: api_value_def list_all_iff)
    then have "\<forall>r \<in> set (map JSON_stringify xs). \<not> isl r"
      by auto
    from collect_total [OF this] show ?thesis
      using Some JArray by (auto simp: stringify_in_template_def)
  qed (use ok Some in \<open>auto simp: api_value_def stringify_in_template_def\<close>)
qed

lemma property_api_value:
  assumes "api_params ps"
  shows "api_value (property ps k)"
proof (cases "map_of ps k")
  case None
  then show ?thesis by (simp add: property_def api_value_def)
next
  case (Some v)
  then have "(k, v) \<in> set ps" by (rule map_of_SomeD)
  with assms have "api_value v"
    by (auto simp: api_params_def list_all_iff)
  with Some show ?thesis by (simp add: property_def)
qed

lemma api_params_key:
  assumes "api_params ps"
  shows "\<exists>k. generateKey md5 prefix ps = Inr k"
proof -
  let ?f = "\<lambda>k. case stringify_in_template (property ps k) of
                   Inl e \<Rightarrow> Inl e | Inr t \<Rightarrow> Inr (k @ ''='' @ t)"
  have "\<not> isl (?f k)" for k
    using api_value_stringify [OF property_api_value [OF assms], of k]
    by (cases "stringify_in_template (property ps k)") simp_all
  then have "\<forall>r \<in> set (map ?f (sort (Object_keys ps))). \<not> isl r"
    by auto
  from collect_total [OF this] show ?thesis
    by (auto simp: generateKey_def Let_def)
qed

text \<open>Writing and removing files does not change what the operating system refuses.\<close>

lemma refusal_nodes_update [simp]: "refusal (fs\<lparr>nodes := n\<rparr>) call p = refusal fs call p"
  by (simp add: refusal_def)

text \<open>What \<open>get\<close> does once the key is there, in one case distinction.\<close>

lemma get_with_key:
  assumes "generateKey md5 prefix ps = Inr k"
  shows "get md5 this now fs prefix ps =
     (if \<not> existsSync fs (getFilePath this k) then (Inr None, fs)
      else (case readFileSync fs (getFilePath this k) of
              Inr (Stringified e) \<Rightarrow>
                if isValid this now (timestamp e) then (Inr (Some (data e)), fs)
                else (Inr None, case unlinkSync fs (getFilePath this k) of
                                  Inl err \<Rightarrow> fs | Inr fs' \<Rightarrow> fs')
            | _ \<Rightarrow> (Inr None, case unlinkSync fs (getFilePath this k) of
                                  Inl err \<Rightarrow> fs | Inr fs' \<Rightarrow> fs')))"
  using assms
  by (auto simp: get_def get_try_def JSON_parse_def Let_def split: sum.splits file_text.splits)

lemma unlinkSync_file:
  assumes "nodes fs p = Some (File t)"
  shows "unlinkSync fs p =
     (case refusal fs Unlink p of Some e \<Rightarrow> Inl e | None \<Rightarrow> Inr (fs\<lparr>nodes := (nodes fs)(p := None)\<rparr>))"
  using assms by (simp add: unlinkSync_def split: option.splits)

text \<open>
  The file of a key whose prefix is \<open>financialdatasets_\<close> followed by an endpoint of the
  API lies in a subdirectory of the cache directory: the slashes of the endpoint separate
  path segments.
\<close>

lemma endpoint_file_path:
  assumes "endpoint \<in> set FD_endpoints"
    and "generateKey md5 (''financialdatasets_'' @ endpoint) ps = Inr k"
  shows "\<exists>dirs leaf. getFilePath this k =
           cacheDir this @ ''financialdatasets_'' # dirs @ [leaf] \<and> dirs \<noteq> []"
proof -
  from generateKey_shape [OF assms(2)]
  obtain h where "k = (''financialdatasets_'' @ endpoint) @ ''_'' @ hex_digest h"
    by blast
  with assms(1) show ?thesis
    unfolding FD_endpoints_def
    by (auto simp: getFilePath_def path_join_def split_slash_no_slash hex_digest_no_slash
        add_segment_def)
qed

subsection \<open>Round trip\<close>

text \<open>
  When the write of \<open>set\<close> succeeds, a \<open>get\<close> with the same arguments in any insertion
  order that the operating system lets look at the file returns the payload until the
  time-to-live has passed.
\<close>

lemma cache_roundtrip_when_written:
  assumes key: "generateKey md5 prefix ps = Inr k"
    and payload: "JSON_stringify payload = Inr t"
    and written: "writeFileSync fs (getFilePath this k)
       (Stringified \<lparr>data = payload, timestamp = now, key = k\<rparr>) = Inr fs'"
    and visible: "refusal fs Stat (getFilePath this k) = None"
      "refusal fs Read (getFilePath this k) = None"
    and "distinct (map fst ps)" and "distinct (map fst qs)" and "set ps = set qs"
    and fresh: "now' - now < ttl this"
  shows "set_cache md5 this now fs prefix ps payload = (Inr (), fs') \<and>
         get md5 this now' fs' prefix qs = (Inr (Some payload), fs')"
proof -
  let ?p = "getFilePath this k"
  let ?e = "\<lparr>data = payload, timestamp = now, key = k\<rparr>"
  have same: "generateKey md5 prefix qs = Inr k"
    using assms(6-8) key by (metis generateKey_order_independent)
  have fs': "fs' = fs\<lparr>nodes := (nodes fs)(?p \<mapsto> File (Stringified ?e))\<rparr>"
    using written
    by (auto simp: writeFileSync_def split: option.splits node.splits if_splits)
  have "set_cache md5 this now fs prefix ps payload = (Inr (), fs')"
    using written key payload by (simp add: set_cache_def JSON_stringify_entry_def)
  moreover have "get md5 this now' fs' prefix qs = (Inr (Some payload), fs')"
    using fresh visible
    by (simp add: get_with_key [OF same] fs' existsSync_def readFileSync_def isValid_def)
  ultimately show ?thesis by simp
qed

lemma plain_prefix_file_path:
  assumes "CHR ''/'' \<notin> set prefix" and "generateKey md5 prefix ps = Inr k"
  shows "getFilePath this k = cacheDir this @ [k @ ''.json'']"
proof -
  from generateKey_shape [OF assms(2)]
  obtain h where k: "k = prefix @ ''_'' @ hex_digest h"
    by blast
  let ?leaf = "k @ ''.json''"
  have "CHR ''/'' \<notin> set ?leaf"
    using assms(1) by (simp add: k hex_digest_no_slash)
  then have cut: "split_slash [] ?leaf = [?leaf]"
    by (simp add: split_slash_no_slash)
  have "38 \<le> length ?leaf"
    by (simp add: k length_hex_digest)
  then have "?leaf \<noteq> [] \<and> ?leaf \<noteq> ''.'' \<and> ?leaf \<noteq> ''..''"
    by auto
  then have "add_segment (cacheDir this) ?leaf = cacheDir this @ [?leaf]"
    by (simp add: add_segment_def)
  with cut show ?thesis
    by (simp add: getFilePath_def path_join_def)
qed

text \<open>
  The round trip for a prefix without a slash, arguments and a payload that
  \<open>JSON.stringify\<close> accepts: when the cache directory exists, the file of the key is
  not a directory and the operating system refuses none of the calls on it, \<open>set\<close>
  stores the entry and a \<open>get\<close> with the same arguments, in any insertion order, returns
  the payload while the entry is younger than the time-to-live.
\<close>

theorem cache_roundtrip_plain_prefix:
  assumes "CHR ''/'' \<notin> set prefix"
    and "generateKey md5 prefix ps = Inr k"
    and "JSON_stringify payload = Inr t"
    and "nodes fs (cacheDir this) = Some Dir"
    and "nodes fs (getFilePath this k) \<noteq> Some Dir"
    and "refusal fs Write (getFilePath this k) = None"
    and "refusal fs Stat (getFilePath this k) = None"
    and "refusal fs Read (getFilePath this k) = None"
    and "distinct (map fst ps)" and "distinct (map fst qs)" and "set ps = set qs"
    and "now' - now < ttl this"
  shows "get md5 this now' (snd (set_cache md5 this now fs prefix ps payload)) prefix qs =
           (Inr (Some payload), snd (set_cache md5 this now fs prefix ps payload)) \<and>
         nodes (snd (set_cache md5 this now fs prefix ps payload)) (getFilePath this k) =
           Some (File (Stringified \<lparr>data = payload, timestamp = now, key = k\<rparr>))"
proof -
  let ?p = "getFilePath this k"
  let ?e = "\<lparr>data = payload, timestamp = now, key = k\<rparr>"
  have p: "?p = cacheDir this @ [k @ ''.json'']"
    using assms(1,2) by (rule plain_prefix_file_path)
  have "butlast ?p = cacheDir this" "?p \<noteq> []"
    by (simp_all add: p)
  with assms(4-6) have "writeFileSync fs ?p (Stringified ?e) =
      Inr (fs\<lparr>nodes := (nodes fs)(?p \<mapsto> File (Stringified ?e))\<rparr>)"
    by (auto simp: writeFileSync_def split: option.splits node.splits)
  from cache_roundtrip_when_written [OF assms(2,3) this assms(7-12)]
  show ?thesis by simp
qed

text \<open>The key and the file of the worked example.\<close>

lemma AAPL_key_eq: "generateKey example_md5 ''prices'' AAPL_args = Inr AAPL_key"
  by (simp add: generateKey_def AAPL_args_def AAPL_key_def example_md5_def Object_keys_def
      property_def stringify_in_template_def json_quote_def escape_char_def hex_digest_def
      hex_nibble_def Let_def upt_rec)

lemma AAPL_file_eq: "getFilePath example_cache AAPL_key = AAPL_file"
  by (simp add: getFilePath_def path_join_def add_segment_def AAPL_key_def AAPL_file_def
      example_cache_def)

lemma AAPL_file_allowed: "refusal cache_disk call AAPL_file = None"
  by (simp add: refusal_def AAPL_file_def AAPL_key_def cache_disk_def home_disk_def
      path_bytes_def PATH_MAX_def NAME_MAX_def)

theorem cache_roundtrip_plain_prefix_witness:
  "fst (get example_md5 example_cache 1700000000500
          (snd (set_cache example_md5 example_cache 1700000000000 cache_disk ''prices''
                  [(''ticker'', Some (JString ''AAPL'')), (''limit'', Some (JNumber 10))]
                  (JString ''payload'')))
          ''prices'' [(''limit'', Some (JNumber 10)), (''ticker'', Some (JString ''AAPL''))])
   = Inr (Some (JString ''payload''))"
proof -
  let ?ps = "[(''ticker'', Some (JString ''AAPL'')), (''limit'', Some (JNumber 10))]"
  let ?qs = "[(''limit'', Some (JNumber 10)), (''ticker'', Some (JString ''AAPL''))]"
  let ?k = "''prices_00000000000000000000000000000016''"
  have 1: "CHR ''/'' \<notin> set ''prices''" by simp
  have 2: "generateKey example_md5 ''prices'' ?ps = Inr ?k"
    by (simp add: generateKey_def example_md5_def Object_keys_def
      property_def stringify_in_template_def json_quote_def escape_char_def hex_digest_def
      hex_nibble_def Let_def upt_rec is_finite_def to_double_def Number_toString_def
      shortest_decimal_def digits_text_def digit_char_def)
  have 3: "JSON_stringify (JString ''payload'') = Inr (json_quote ''payload'')" by simp
  have p: "getFilePath example_cache ?k = cacheDir example_cache @ [?k @ ''.json'']"
    using 1 2 by (rule plain_prefix_file_path)
  have 4: "nodes cache_disk (cacheDir example_cache) = Some Dir"
    by (simp add: cache_disk_def example_cache_def)
  have 5: "nodes cache_disk (getFilePath example_cache ?k) \<noteq> Some Dir"
    unfolding p by (simp add: cache_disk_def home_disk_def example_cache_def)
  have 6: "refusal cache_disk call (getFilePath example_cache ?k) = None" for call
    unfolding p
    by (simp add: refusal_def cache_disk_def home_disk_def example_cache_def
      path_bytes_def PATH_MAX_def NAME_MAX_def)
  have 7: "distinct (map fst ?ps)" and 8: "distinct (map fst ?qs)" and 9: "set ?ps = set ?qs"
    by auto
  have 10: "(1700000000500 :: int) - 1700000000000 < ttl example_cache"
    by (simp add: example_cache_def)
  from cache_roundtrip_plain_prefix [OF 1 2 3 4 5 6 6 6 7 8 9 10]
  show ?thesis by simp
qed

text \<open>
  In a cache directory that has no entry \<open>financialdatasets_\<close>, nothing is stored under
  a key of an endpoint and nothing is found: the write fails with ENOENT and the file of
  the key does not exist.  \<open>get\<close> and \<open>set\<close> throw what \<open>generateKey\<close> throws.
\<close>

lemma endpoint_write_fails:
  assumes "endpoint \<in> set FD_endpoints"
    and "\<forall>rest. nodes fs (cacheDir this @ ''financialdatasets_'' # rest) = None"
  shows "set_cache md5 this now fs (''financialdatasets_'' @ endpoint) ps payload =
           (case generateKey md5 (''financialdatasets_'' @ endpoint) ps of
              Inl e \<Rightarrow> Inl e | Inr k \<Rightarrow> Inr (), fs) \<and>
         get md5 this now' fs (''financialdatasets_'' @ endpoint) ps =
           (case generateKey md5 (''financialdatasets_'' @ endpoint) ps of
              Inl e \<Rightarrow> Inl e | Inr k \<Rightarrow> Inr None, fs)"
proof -
  define ck where "ck = ''financialdatasets_'' @ endpoint"
  have "set_cache md5 this now fs ck ps payload =
           (case generateKey md5 ck ps of Inl e \<Rightarrow> Inl e | Inr k \<Rightarrow> Inr (), fs) \<and>
        get md5 this now' fs ck ps =
           (case generateKey md5 ck ps of Inl e \<Rightarrow> Inl e | Inr k \<Rightarrow> Inr None, fs)"
  proof (cases "generateKey md5 ck ps")
    case (Inl e)
    then show ?thesis by (simp add: set_cache_def get_def)
  next
    case (Inr k)
    define p where "p = getFilePath this k"
    from endpoint_file_path [OF assms(1)] Inr
    obtain dirs leaf where path: "p = cacheDir this @ ''financialdatasets_'' # dirs @ [leaf]"
      and dirs: "dirs \<noteq> []"
      unfolding p_def ck_def by blast
    have absent: "nodes fs p = None"
      unfolding path using assms(2) by blast
    have "butlast p = cacheDir this @ ''financialdatasets_'' # dirs"
      by (simp add: path butlast_append)
    then have parent: "nodes fs (butlast p) = None"
      using assms(2) by simp
    have "writeFileSync fs p t =
        Inl (case refusal fs Write p of Some e \<Rightarrow> e | None \<Rightarrow> ENOENT)" for t
      using absent parent by (cases "refusal fs Write p") (simp_all add: writeFileSync_def)
    then have "set_cache md5 this now fs ck ps payload = (Inr (), fs)"
      unfolding set_cache_def Let_def p_def using Inr
      by (simp split: sum.splits)
    moreover have "get md5 this now' fs ck ps = (Inr None, fs)"
      using absent by (simp add: get_with_key [OF Inr] existsSync_def p_def)
    ultimately show ?thesis
      using Inr by simp
  qed
  then show ?thesis
    unfolding ck_def .
qed

text \<open>
  Claim C2 at the prefixes the repository uses.  \<open>callApi\<close> calls the cache with the
  prefix \<open>financialdatasets_\<close> followed by the endpoint, which starts and ends with a
  slash.  The file of such a key lies in a subdirectory that nothing creates: in a cache
  directory that has no entry \<open>financialdatasets_\<close>, the write of \<open>set\<close> fails, the
  failure is swallowed, and the \<open>get\<close> that follows returns \<open>null\<close>, whatever the
  arguments, the payload, the hash function, the clock and the refusals of the operating
  system.  This is so for every argument record \<open>callApi\<close> can pass; for an argument
  that \<open>JSON.stringify\<close> rejects, \<open>set\<close> and \<open>get\<close> throw and store nothing either.
\<close>

theorem endpoint_prefix_not_cached:
  assumes "endpoint \<in> set FD_endpoints"
    and "\<forall>rest. nodes fs (cacheDir this @ ''financialdatasets_'' # rest) = None"
  shows "(api_params ps \<or> \<not> isl (generateKey md5 (''financialdatasets_'' @ endpoint) ps) \<longrightarrow>
            set_cache md5 this now fs (''financialdatasets_'' @ endpoint) ps payload = (Inr (), fs) \<and>
            get md5 this now' fs (''financialdatasets_'' @ endpoint) ps = (Inr None, fs)) \<and>
         (isl (generateKey md5 (''financialdatasets_'' @ endpoint) ps) \<longrightarrow>
            set_cache md5 this now fs (''financialdatasets_'' @ endpoint) ps payload =
              (Inl TypeError, fs) \<and>
            get md5 this now' fs (''financialdatasets_'' @ endpoint) ps = (Inl TypeError, fs))"
proof -
  note fails = endpoint_write_fails [OF assms, of md5 now ps payload now']
  show ?thesis
  proof (cases "generateKey md5 (''financialdatasets_'' @ endpoint) ps")
    case (Inl e)
    then have "e = TypeError" by (rule generateKey_throws)
    moreover have "\<not> api_params ps"
      using api_params_key [of ps md5 "''financialdatasets_'' @ endpoint"] Inl by auto
    ultimately show ?thesis using fails Inl by simp
  next
    case (Inr k)
    with fails show ?thesis by simp
  qed
qed

theorem endpoint_prefix_not_cached_witness:
  "new_CacheService [''home'', ''dexter''] \<lparr>ttl_option = None, directory = None\<rparr> home_disk
     = Inr (example_cache, cache_disk) \<and>
   fst (get example_md5 example_cache 1700000000001
          (snd (set_cache example_md5 example_cache 1700000000000 cache_disk
                  ''financialdatasets_/prices/'' [(''ticker'', Some (JString ''AAPL''))]
                  (JObject [(''prices'', JArray [])])))
          ''financialdatasets_/prices/'' [(''ticker'', Some (JString ''AAPL''))])
     = Inr None"
proof -
  have ctor: "new_CacheService [''home'', ''dexter''] \<lparr>ttl_option = None, directory = None\<rparr>
      home_disk = Inr (example_cache, cache_disk)"
    by (simp add: new_CacheService_def path_join_def add_segment_def existsSync_def
        mkdirSync_recursive_def home_disk_def cache_disk_def example_cache_def Let_def
        refusal_def path_bytes_def PATH_MAX_def NAME_MAX_def)
  have ep: "''/prices/'' \<in> set FD_endpoints"
    by (simp add: FD_endpoints_def)
  have empty: "\<forall>rest. nodes cache_disk
      (cacheDir example_cache @ ''financialdatasets_'' # rest) = None"
    by (simp add: cache_disk_def home_disk_def example_cache_def)
  have args: "api_params [(''ticker'', Some (JString ''AAPL''))]"
    by (simp add: api_params_def api_value_def)
  from endpoint_prefix_not_cached [OF ep empty, of "[(''ticker'', Some (JString ''AAPL''))]"
      example_md5 1700000000000 "JObject [(''prices'', JArray [])]" 1700000000001] args
  have "set_cache example_md5 example_cache 1700000000000 cache_disk
          ''financialdatasets_/prices/'' [(''ticker'', Some (JString ''AAPL''))]
          (JObject [(''prices'', JArray [])]) = (Inr (), cache_disk) \<and>
        get example_md5 example_cache 1700000000001 cache_disk
          ''financialdatasets_/prices/'' [(''ticker'', Some (JString ''AAPL''))] = (Inr None, cache_disk)"
    by simp
  with ctor show ?thesis by simp
qed

subsection \<open>Expiry\<close>

lemma get_unreadable:
  assumes "generateKey md5 prefix ps = Inr k"
    and "\<forall>e. readFileSync fs (getFilePath this k) = Inr (Stringified e) \<longrightarrow>
           \<not> isValid this now (timestamp e)"
  shows "get md5 this now fs prefix ps =
     (Inr None,
      if existsSync fs (getFilePath this k)
      then (case unlinkSync fs (getFilePath this k) of Inl err \<Rightarrow> fs | Inr fs' \<Rightarrow> fs')
      else fs)"
  using assms(2)
  by (auto simp: get_with_key [OF assms(1)] split: sum.splits file_text.splits)

lemma get_returns_fresh:
  assumes "get md5 this now fs prefix ps = (Inr (Some d), fs')"
  shows "\<exists>k e. generateKey md5 prefix ps = Inr k \<and>
           nodes fs (getFilePath this k) = Some (File (Stringified e)) \<and>
           existsSync fs (getFilePath this k) \<and>
           readFileSync fs (getFilePath this k) = Inr (Stringified e) \<and>
           d = data e \<and> now - timestamp e < ttl this \<and> fs' = fs"
proof (cases "generateKey md5 prefix ps")
  case (Inl e)
  with assms show ?thesis by (simp add: get_def)
next
  case (Inr k)
  from assms show ?thesis
    unfolding get_with_key [OF Inr]
    by (auto simp: Inr readFileSync_def isValid_def
        split: if_splits sum.splits file_text.splits option.splits node.splits)
qed

text \<open>
  Claim C3, as the code has it: when the file of the key holds an entry whose timestamp
  is at least the time-to-live old, \<open>get\<close> returns \<open>null\<close>, and it has unlinked the
  file unless the operating system refused that (or refused to look at the file), in which
  case the file system is as it was; and whatever \<open>get\<close> returns as a payload is the
  payload of an entry in that file that is younger than the time-to-live.
\<close>

theorem expired_entry_is_absent:
  "(generateKey md5 prefix ps = Inr k \<and>
    nodes fs (getFilePath this k) = Some (File (Stringified e)) \<and>
    ttl this \<le> now - timestamp e \<longrightarrow>
      get md5 this now fs prefix ps =
        (Inr None,
         if refusal fs Stat (getFilePath this k) = None \<and>
            refusal fs Unlink (getFilePath this k) = None
         then fs\<lparr>nodes := (nodes fs)(getFilePath this k := None)\<rparr>
         else fs)) \<and>
   (get md5 this now fs prefix ps = (Inr (Some d), fs') \<longrightarrow>
      (\<exists>k e'. generateKey md5 prefix ps = Inr k \<and>
         nodes fs (getFilePath this k) = Some (File (Stringified e')) \<and>
         d = data e' \<and> now - timestamp e' < ttl this))"
proof -
  have expired: "get md5 this now fs prefix ps =
        (Inr None,
         if refusal fs Stat (getFilePath this k) = None \<and>
            refusal fs Unlink (getFilePath this k) = None
         then fs\<lparr>nodes := (nodes fs)(getFilePath this k := None)\<rparr>
         else fs)"
    if key: "generateKey md5 prefix ps = Inr k"
      and held: "nodes fs (getFilePath this k) = Some (File (Stringified e))"
      and old: "ttl this \<le> now - timestamp e"
  proof -
    have "\<forall>e'. readFileSync fs (getFilePath this k) = Inr (Stringified e') \<longrightarrow>
           \<not> isValid this now (timestamp e')"
      using held old by (auto simp: readFileSync_def isValid_def split: option.splits)
    from get_unreadable [OF key this] show ?thesis
      using held by (simp add: existsSync_def unlinkSync_file split: option.splits)
  qed
  have returned: "\<exists>k e'. generateKey md5 prefix ps = Inr k \<and>
         nodes fs (getFilePath this k) = Some (File (Stringified e')) \<and>
         d = data e' \<and> now - timestamp e' < ttl this"
    if "get md5 this now fs prefix ps = (Inr (Some d), fs')"
    using get_returns_fresh [OF that] by blast
  from expired returned show ?thesis by blast
qed

lemma stale_disk_file: "nodes stale_disk AAPL_file = Some (File (Stringified stale_entry))"
  by (simp add: stale_disk_def)

lemma stale_disk_allowed: "refusal stale_disk call AAPL_file = None"
  by (simp add: stale_disk_def AAPL_file_allowed)

theorem expired_entry_is_absent_witness:
  "get example_md5 example_cache 1700090000000 stale_disk ''prices'' AAPL_args =
     (Inr None, cache_disk)"
proof -
  have old: "ttl example_cache \<le> 1700090000000 - timestamp stale_entry"
    by (simp add: example_cache_def stale_entry_def)
  have gone: "stale_disk\<lparr>nodes := (nodes stale_disk)(AAPL_file := None)\<rparr> = cache_disk"
    by (simp add: stale_disk_def cache_disk_def home_disk_def AAPL_file_def)
  from expired_entry_is_absent [of example_md5 "''prices''" AAPL_args AAPL_key stale_disk
      example_cache stale_entry 1700090000000] AAPL_key_eq stale_disk_file old
  show ?thesis
    by (simp add: AAPL_file_eq stale_disk_allowed gone)
qed

text \<open>
  Where the operating system refuses the unlink, the entry that has expired is still in
  its file after the \<open>get\<close>, which has returned \<open>null\<close>.
\<close>

theorem expired_entry_counterexample:
  "nodes locked_stale_disk AAPL_file = Some (File (Stringified stale_entry)) \<and>
   ttl example_cache \<le> 1700090000000 - timestamp stale_entry \<and>
   getFilePath example_cache AAPL_key = AAPL_file \<and>
   generateKey example_md5 ''prices'' AAPL_args = Inr AAPL_key \<and>
   get example_md5 example_cache 1700090000000 locked_stale_disk ''prices'' AAPL_args =
     (Inr None, locked_stale_disk) \<and>
   nodes (snd (get example_md5 example_cache 1700090000000 locked_stale_disk ''prices''
                 AAPL_args)) AAPL_file = Some (File (Stringified stale_entry))"
proof -
  have held: "nodes locked_stale_disk AAPL_file = Some (File (Stringified stale_entry))"
    by (simp add: locked_stale_disk_def stale_disk_def)
  have old: "ttl example_cache \<le> 1700090000000 - timestamp stale_entry"
    by (simp add: example_cache_def stale_entry_def)
  have stat: "refusal locked_stale_disk Stat AAPL_file = None"
    and read: "refusal locked_stale_disk Read AAPL_file = None"
    and unlink: "refusal locked_stale_disk Unlink AAPL_file = Some EACCES"
    by (simp_all add: refusal_def locked_stale_disk_def no_unlink_def AAPL_file_def
        AAPL_key_def path_bytes_def PATH_MAX_def NAME_MAX_def)
  have "get example_md5 example_cache 1700090000000 locked_stale_disk ''prices'' AAPL_args =
      (Inr None, locked_stale_disk)"
    using held old stat read unlink
    by (simp add: get_with_key [OF AAPL_key_eq] AAPL_file_eq existsSync_def readFileSync_def
        unlinkSync_def isValid_def)
  with held old show ?thesis
    by (simp add: AAPL_file_eq AAPL_key_eq)
qed

subsection \<open>Errors\<close>

lemma get_returns_or_key_throws:
  "get md5 this now fs prefix ps =
     (case generateKey md5 prefix ps of
        Inl e \<Rightarrow> (Inl e, fs)
      | Inr k \<Rightarrow> (Inr (projr (fst (get md5 this now fs prefix ps))),
                  snd (get md5 this now fs prefix ps)))"
proof (cases "generateKey md5 prefix ps")
  case (Inl e)
  then show ?thesis by (simp add: get_def)
next
  case (Inr k)
  then show ?thesis
    by (auto simp: get_with_key [OF Inr] split: sum.splits file_text.splits)
qed

lemma set_cache_returns_or_key_throws:
  "set_cache md5 this now fs prefix ps payload =
     (case generateKey md5 prefix ps of
        Inl e \<Rightarrow> (Inl e, fs)
      | Inr k \<Rightarrow> (Inr (), snd (set_cache md5 this now fs prefix ps payload)))"
  by (simp add: set_cache_def Let_def split: sum.splits)

lemma writeFileSync_fails_for_all:
  assumes "isl (writeFileSync fs p u)"
  shows "isl (writeFileSync fs p v)"
  using assms
  by (auto simp: writeFileSync_def split: option.splits node.splits if_splits)

text \<open>
  Claim C4, as the code has it.  Once the key is computed, \<open>get\<close> and \<open>set\<close> return
  normally in every state of the file system and whatever the operating system refuses: no
  exception of a read, a parse, an unlink, a serialisation of the entry or a write leaves
  them.  When the read of the file fails, \<open>get\<close> returns \<open>null\<close>; when the file holds
  text that does not parse, \<open>get\<close> returns \<open>null\<close>, and it has unlinked the file unless
  the operating system refused that (or refused to look at the file); when the payload
  cannot be serialised or the write fails, \<open>set\<close> returns and leaves the file system as
  it was.  The key is computed before the \<open>try\<close> blocks: the \<open>TypeError\<close> that
  \<open>JSON.stringify\<close> throws for an argument leaves \<open>get\<close> and \<open>set\<close>, with nothing
  changed; this does not happen for the argument records \<open>callApi\<close> passes.
\<close>

theorem cache_errors_swallowed:
  "(generateKey md5 prefix ps = Inr k \<longrightarrow>
      (\<exists>r fs'. get md5 this now fs prefix ps = (Inr r, fs')) \<and>
      (\<exists>fs'. set_cache md5 this now fs prefix ps payload = (Inr (), fs')) \<and>
      (isl (readFileSync fs (getFilePath this k)) \<longrightarrow>
         fst (get md5 this now fs prefix ps) = Inr None) \<and>
      (nodes fs (getFilePath this k) = Some (File (Unparseable t)) \<longrightarrow>
         get md5 this now fs prefix ps =
           (Inr None,
            if refusal fs Stat (getFilePath this k) = None \<and>
               refusal fs Unlink (getFilePath this k) = None
            then fs\<lparr>nodes := (nodes fs)(getFilePath this k := None)\<rparr>
            else fs)) \<and>
      (isl (JSON_stringify payload) \<or> isl (writeFileSync fs (getFilePath this k) u) \<longrightarrow>
         set_cache md5 this now fs prefix ps payload = (Inr (), fs))) \<and>
   (generateKey md5 prefix ps = Inl err \<longrightarrow>
      err = TypeError \<and>
      get md5 this now fs prefix ps = (Inl TypeError, fs) \<and>
      set_cache md5 this now fs prefix ps payload = (Inl TypeError, fs)) \<and>
   (api_params ps \<longrightarrow> \<not> isl (generateKey md5 prefix ps))"
proof -
  have thrown: "err = TypeError \<and>
      get md5 this now fs prefix ps = (Inl TypeError, fs) \<and>
      set_cache md5 this now fs prefix ps payload = (Inl TypeError, fs)"
    if "generateKey md5 prefix ps = Inl err"
    using that generateKey_throws [OF that] by (simp add: get_def set_cache_def)
  have typed: "\<not> isl (generateKey md5 prefix ps)" if "api_params ps"
    using api_params_key [OF that, of md5 prefix] by auto
  have returned: "(\<exists>r fs'. get md5 this now fs prefix ps = (Inr r, fs')) \<and>
      (\<exists>fs'. set_cache md5 this now fs prefix ps payload = (Inr (), fs')) \<and>
      (isl (readFileSync fs (getFilePath this k)) \<longrightarrow>
         fst (get md5 this now fs prefix ps) = Inr None) \<and>
      (nodes fs (getFilePath this k) = Some (File (Unparseable t)) \<longrightarrow>
         get md5 this now fs prefix ps =
           (Inr None,
            if refusal fs Stat (getFilePath this k) = None \<and>
               refusal fs Unlink (getFilePath this k) = None
            then fs\<lparr>nodes := (nodes fs)(getFilePath this k := None)\<rparr>
            else fs)) \<and>
      (isl (JSON_stringify payload) \<or> isl (writeFileSync fs (getFilePath this k) u) \<longrightarrow>
         set_cache md5 this now fs prefix ps payload = (Inr (), fs))"
    if key: "generateKey md5 prefix ps = Inr k"
  proof -
    let ?p = "getFilePath this k"
    have get_returns: "\<exists>r fs'. get md5 this now fs prefix ps = (Inr r, fs')"
      using get_returns_or_key_throws [of md5 this now fs prefix ps] key by auto
    have set_returns: "\<exists>fs'. set_cache md5 this now fs prefix ps payload = (Inr (), fs')"
      using set_cache_returns_or_key_throws [of md5 this now fs prefix ps payload] key by auto
    have read_fails: "fst (get md5 this now fs prefix ps) = Inr None"
      if "isl (readFileSync fs ?p)"
      using that by (auto simp: get_with_key [OF key] split: sum.splits)
    have corrupt: "get md5 this now fs prefix ps =
           (Inr None,
            if refusal fs Stat ?p = None \<and> refusal fs Unlink ?p = None
            then fs\<lparr>nodes := (nodes fs)(?p := None)\<rparr> else fs)"
      if held: "nodes fs ?p = Some (File (Unparseable t))"
    proof -
      have "\<forall>e'. readFileSync fs ?p = Inr (Stringified e') \<longrightarrow>
             \<not> isValid this now (timestamp e')"
        using held by (auto simp: readFileSync_def split: option.splits)
      from get_unreadable [OF key this] show ?thesis
        using held by (simp add: existsSync_def unlinkSync_file split: option.splits)
    qed
    have write_fails: "set_cache md5 this now fs prefix ps payload = (Inr (), fs)"
      if "isl (JSON_stringify payload) \<or> isl (writeFileSync fs ?p u)"
      using that
    proof
      assume "isl (JSON_stringify payload)"
      then show ?thesis
        by (auto simp: set_cache_def key JSON_stringify_entry_def Let_def isl_def)
    next
      assume "isl (writeFileSync fs ?p u)"
      then have "isl (writeFileSync fs ?p v)" for v
        by (rule writeFileSync_fails_for_all)
      then have "writeFileSync fs ?p v \<noteq> Inr fs'" for v fs'
        by (metis sum.disc(2))
      then show ?thesis
        by (simp add: set_cache_def key Let_def split: sum.splits)
    qed
    from get_returns set_returns read_fails corrupt write_fails show ?thesis by blast
  qed
  from thrown typed returned show ?thesis by blast
qed

lemma corrupt_disk_file:
  "nodes corrupt_disk AAPL_file = Some (File (Unparseable ''{\"data\":''))"
  by (simp add: corrupt_disk_def)

lemma corrupt_disk_allowed: "refusal corrupt_disk call AAPL_file = None"
  by (simp add: corrupt_disk_def AAPL_file_allowed)

theorem cache_errors_swallowed_witness:
  "get example_md5 example_cache 1700000000000 corrupt_disk ''prices'' AAPL_args =
     (Inr None, cache_disk) \<and>
   fst (get example_md5 example_cache 1700000000000
          (cache_disk\<lparr>nodes := (nodes cache_disk)(AAPL_file \<mapsto> Dir)\<rparr>) ''prices'' AAPL_args) =
     Inr None \<and>
   set_cache example_md5 example_cache 1700000000000
     (cache_disk\<lparr>nodes := (nodes cache_disk)(AAPL_file \<mapsto> Dir)\<rparr>) ''prices'' AAPL_args JNull =
     (Inr (), cache_disk\<lparr>nodes := (nodes cache_disk)(AAPL_file \<mapsto> Dir)\<rparr>) \<and>
   set_cache example_md5 example_cache 1700000000000 cache_disk ''prices'' AAPL_args
     (JObject [(''shares'', JBigInt 1)]) = (Inr (), cache_disk)"
proof -
  let ?dir = "cache_disk\<lparr>nodes := (nodes cache_disk)(AAPL_file \<mapsto> Dir)\<rparr>"
  have gone: "corrupt_disk\<lparr>nodes := (nodes corrupt_disk)(AAPL_file := None)\<rparr> = cache_disk"
    by (simp add: corrupt_disk_def cache_disk_def home_disk_def AAPL_file_def)
  have r: "isl (readFileSync ?dir AAPL_file)"
    by (simp add: readFileSync_def AAPL_file_allowed)
  have w: "isl (writeFileSync ?dir AAPL_file (Unparseable []))"
    by (simp add: writeFileSync_def AAPL_file_allowed)
  have b: "isl (JSON_stringify (JObject [(''shares'', JBigInt 1)]))"
    by simp
  from cache_errors_swallowed
    [of example_md5 "''prices''" AAPL_args AAPL_key example_cache 1700000000000 corrupt_disk
        JNull "''{\"data\":''"] AAPL_key_eq corrupt_disk_file
  have 1: "get example_md5 example_cache 1700000000000 corrupt_disk ''prices'' AAPL_args =
      (Inr None, cache_disk)"
    by (simp add: AAPL_file_eq corrupt_disk_allowed gone)
  from cache_errors_swallowed
    [of example_md5 "''prices''" AAPL_args AAPL_key example_cache 1700000000000 ?dir
        JNull "[]" "Unparseable []"] AAPL_key_eq r w
  have 2: "fst (get example_md5 example_cache 1700000000000 ?dir ''prices'' AAPL_args) = Inr None"
    and 3: "set_cache example_md5 example_cache 1700000000000 ?dir ''prices'' AAPL_args JNull =
      (Inr (), ?dir)"
    by (simp_all add: AAPL_file_eq)
  from cache_errors_swallowed
    [of example_md5 "''prices''" AAPL_args AAPL_key example_cache 1700000000000 cache_disk
        "JObject [(''shares'', JBigInt 1)]" "[]" "Unparseable []"] AAPL_key_eq b
  have 4: "set_cache example_md5 example_cache 1700000000000 cache_disk ''prices'' AAPL_args
     (JObject [(''shares'', JBigInt 1)]) = (Inr (), cache_disk)"
    by simp
  from 1 2 3 4 show ?thesis by simp
qed

text \<open>
  An argument that is a BigInt: \<open>get\<close> and \<open>set\<close> throw.  A file that does not parse
  where the operating system refuses the unlink: \<open>get\<close> returns \<open>null\<close> and the file
  is still there.
\<close>

theorem cache_errors_counterexample:
  "get example_md5 example_cache 1700000000000 cache_disk ''prices''
     [(''shares'', Some (JBigInt 1))] = (Inl TypeError, cache_disk) \<and>
   set_cache example_md5 example_cache 1700000000000 cache_disk ''prices''
     [(''shares'', Some (JBigInt 1))] JNull = (Inl TypeError, cache_disk) \<and>
   nodes locked_corrupt_disk AAPL_file = Some (File (Unparseable ''{\"data\":'')) \<and>
   getFilePath example_cache AAPL_key = AAPL_file \<and>
   generateKey example_md5 ''prices'' AAPL_args = Inr AAPL_key \<and>
   get example_md5 example_cache 1700000000000 locked_corrupt_disk ''prices'' AAPL_args =
     (Inr None, locked_corrupt_disk)"
proof -
  have key: "generateKey example_md5 ''prices'' [(''shares'', Some (JBigInt 1))] = Inl TypeError"
    by (simp add: generateKey_def Object_keys_def property_def stringify_in_template_def)
  have held: "nodes locked_corrupt_disk AAPL_file = Some (File (Unparseable ''{\"data\":''))"
    by (simp add: locked_corrupt_disk_def corrupt_disk_def)
  have stat: "refusal locked_corrupt_disk Stat AAPL_file = None"
    and read: "refusal locked_corrupt_disk Read AAPL_file = None"
    and unlink: "refusal locked_corrupt_disk Unlink AAPL_file = Some EACCES"
    by (simp_all add: refusal_def locked_corrupt_disk_def no_unlink_def AAPL_file_def
        AAPL_key_def path_bytes_def PATH_MAX_def NAME_MAX_def)
  have "get example_md5 example_cache 1700000000000 locked_corrupt_disk ''prices'' AAPL_args =
      (Inr None, locked_corrupt_disk)"
    using held stat read unlink
    by (simp add: get_with_key [OF AAPL_key_eq] AAPL_file_eq existsSync_def readFileSync_def
        unlinkSync_def)
  with key held show ?thesis
    by (simp add: get_def set_cache_def AAPL_file_eq AAPL_key_eq)
qed


section \<open>Properties of the providers\<close>

subsection \<open>What the cache hands to \<open>callApi\<close>\<close>

lemma get_disk:
  "snd (get md5 this now fs prefix ps) = fs \<or>
   (\<exists>p. snd (get md5 this now fs prefix ps) = fs\<lparr>nodes := (nodes fs)(p := None)\<rparr>)"
proof (cases "generateKey md5 prefix ps")
  case (Inl e)
  then show ?thesis by (simp add: get_def)
next
  case (Inr k)
  have "unlinkSync fs p = Inr fs' \<Longrightarrow> fs' = fs\<lparr>nodes := (nodes fs)(p := None)\<rparr>" for p fs'
    by (auto simp: unlinkSync_def split: option.splits node.splits)
  then show ?thesis
    unfolding get_with_key [OF Inr]
    by (auto split: sum.splits file_text.splits)
qed

lemma set_cache_disk:
  "snd (set_cache md5 this now fs prefix ps d) = fs \<or>
   (\<exists>p k. snd (set_cache md5 this now fs prefix ps d) =
     fs\<lparr>nodes := (nodes fs)(p \<mapsto> File (Stringified \<lparr>data = d, timestamp = now, key = k\<rparr>))\<rparr>)"
  by (auto simp: set_cache_def writeFileSync_def JSON_stringify_entry_def Let_def
      split: option.splits node.splits sum.splits if_splits)

lemma is_url_url_toString: "is_url (url_toString endpoint ps)"
  by (simp add: is_url_def url_toString_def BASE_URL_def Let_def)

lemma cache_sound_get:
  "cache_sound fs \<Longrightarrow> cache_sound (snd (get md5 this now fs prefix ps))"
  using get_disk [of md5 this now fs prefix ps]
  by (auto simp: cache_sound_def split: if_splits)

lemma cache_sound_set:
  "cache_sound fs \<Longrightarrow> stored_response d \<Longrightarrow>
     cache_sound (snd (set_cache md5 this now fs prefix ps d))"
  using set_cache_disk [of md5 this now fs prefix ps d]
  by (auto simp: cache_sound_def split: if_splits)

text \<open>
  A response that \<open>callApi\<close> returns from a sound cache is the object \<open>{ data, url }\<close>:
  either it has fetched the URL of the request and the API answered with a body, or the
  cache is enabled and the file of the request's key holds an entry younger than the
  time-to-live, whose payload it returns.  The cache stays sound.
\<close>

lemma callApi_result:
  assumes sound: "cache_sound (disk w)"
    and endpoint: "endpoint \<in> set FD_endpoints"
    and call: "callApi this w endpoint ps = (Inr a, w')"
  shows "cache_sound (disk w') \<and>
         (\<exists>d u. a = JObject [(''data'', d), (''url'', JString u)] \<and> is_url u \<and>
            ((u = url_toString endpoint ps \<and>
              (\<exists>k response. apiKey this = Some k \<and>
                 fetch w (url_toString endpoint ps) k = Inr response \<and> ok response \<and>
                 json_r response = Inr d)) \<or>
             (enableCache this \<and> w' = w \<and>
              (\<exists>k e endpoint' ps'.
                 generateKey (md5_of w) (''financialdatasets_'' @ endpoint) ps = Inr k \<and>
                 nodes (disk w) (getFilePath (cache this) k) = Some (File (Stringified e)) \<and>
                 now_at_get w - timestamp e < ttl (cache this) \<and>
                 data e = a \<and> endpoint' \<in> set FD_endpoints \<and>
                 u = url_toString endpoint' ps'))))"
proof -
  obtain k where k: "apiKey this = Some k" "k \<noteq> []"
    using call by (auto simp: callApi_def split: option.splits if_splits)
  define ck where "ck = ''financialdatasets_'' @ endpoint"
  define looked where "looked = (if enableCache this
                 then get (md5_of w) (cache this) (now_at_get w) (disk w) ck ps
                 else (Inr None, disk w))"
  define w1 where "w1 = w\<lparr>disk := snd looked\<rparr>"
  define u where "u = url_toString endpoint ps"
  define stored where "stored = (\<lambda>d. set_cache (md5_of w1) (cache this) (now_at_set w1) (disk w1)
      ck ps (JObject [(''data'', d), (''url'', JString u)]))"
  have unf: "callApi this w endpoint ps =
      (case fst looked of
         Inl e \<Rightarrow> (Inl e, w1)
       | Inr cached \<Rightarrow>
           (case (if falsy cached then None else cached) of
              Some hit \<Rightarrow> (Inr hit, w1)
            | None \<Rightarrow>
                (case fetch w1 u k of
                   Inl e \<Rightarrow> (Inl e, w1)
                 | Inr response \<Rightarrow>
                     (if \<not> ok response
                      then (Inl (JsError (''API request failed: '' @
                              Number_toString (status_r response) @ '' '' @
                              statusText response)), w1)
                      else (case json_r response of
                              Inl e \<Rightarrow> (Inl e, w1)
                            | Inr d \<Rightarrow>
                                (if enableCache this
                                 then (case stored d of
                                         (Inl e, fs') \<Rightarrow> (Inl e, w1\<lparr>disk := fs'\<rparr>)
                                       | (Inr x, fs') \<Rightarrow>
                                           (Inr (JObject [(''data'', d), (''url'', JString u)]),
                                            w1\<lparr>disk := fs'\<rparr>))
                                 else (Inr (JObject [(''data'', d), (''url'', JString u)]),
                                       w1)))))))"
    unfolding callApi_def Let_def ck_def looked_def w1_def u_def stored_def using k by simp
  have sound1: "cache_sound (disk w1)"
    using sound by (simp add: w1_def looked_def cache_sound_get)
  have isurl: "is_url u"
    by (simp add: u_def is_url_url_toString)
  have fresh_response: "stored_response (JObject [(''data'', d), (''url'', JString u)])" for d
    unfolding stored_response_def u_def using endpoint by blast
  show ?thesis
  proof (cases "fst looked")
    case (Inl e)
    with call unf show ?thesis by simp
  next
    case (Inr cached)
    show ?thesis
    proof (cases "if falsy cached then None else cached")
      case (Some hit)
      then have cached: "cached = Some hit"
        by (auto split: if_splits)
      with Inr have en: "enableCache this"
        by (auto simp: looked_def split: if_splits)
      with Inr cached have g: "get (md5_of w) (cache this) (now_at_get w) (disk w) ck ps =
          (Inr (Some hit), snd looked)"
        by (simp add: looked_def prod_eq_iff)
      from get_returns_fresh [OF g]
      obtain key e where key: "generateKey (md5_of w) ck ps = Inr key"
        and held: "nodes (disk w) (getFilePath (cache this) key) = Some (File (Stringified e))"
        and hit: "hit = data e" and young: "now_at_get w - timestamp e < ttl (cache this)"
        and same: "snd looked = disk w"
        by blast
      from sound held have "stored_response (data e)"
        by (auto simp: cache_sound_def)
      then obtain d endpoint' ps' where shape:
          "data e = JObject [(''data'', d), (''url'', JString (url_toString endpoint' ps'))]"
        and endpoint': "endpoint' \<in> set FD_endpoints"
        by (auto simp: stored_response_def)
      from call unf Inr Some have a: "a = hit" and w': "w' = w1"
        by simp_all
      have "w1 = w"
        by (simp add: w1_def same)
      with a w' hit shape endpoint' key held young en sound show ?thesis
        unfolding ck_def by (auto simp: is_url_url_toString)
    next
      case None
      with call unf Inr have rest: "(case fetch w1 u k of
                   Inl e \<Rightarrow> (Inl e, w1)
                 | Inr response \<Rightarrow>
                     (if \<not> ok response
                      then (Inl (JsError (''API request failed: '' @
                              Number_toString (status_r response) @ '' '' @
                              statusText response)), w1)
                      else (case json_r response of
                              Inl e \<Rightarrow> (Inl e, w1)
                            | Inr d \<Rightarrow>
                                (if enableCache this
                                 then (case stored d of
                                         (Inl e, fs') \<Rightarrow> (Inl e, w1\<lparr>disk := fs'\<rparr>)
                                       | (Inr x, fs') \<Rightarrow>
                                           (Inr (JObject [(''data'', d), (''url'', JString u)]),
                                            w1\<lparr>disk := fs'\<rparr>))
                                 else (Inr (JObject [(''data'', d), (''url'', JString u)]),
                                       w1))))) = (Inr a, w')"
        by simp
      then obtain response d where fetched: "fetch w1 u k = Inr response" "ok response"
          "json_r response = Inr d"
        and a: "a = JObject [(''data'', d), (''url'', JString u)]"
        and w': "w' = w1 \<or> w' = w1\<lparr>disk := snd (stored d)\<rparr>"
        by (auto split: sum.splits if_splits prod.splits)
      have "cache_sound (disk w')"
        using w' sound1 fresh_response [of d]
        by (auto simp: stored_def cache_sound_set)
      moreover have "fetch w u k = Inr response"
        using fetched(1) by (simp add: w1_def)
      ultimately show ?thesis
        using a isurl fetched k unfolding u_def by auto
    qed
  qed
qed

lemma respond_result:
  assumes "respond field r = (Inr resp, w')"
    and "fst r = Inr (JObject [(''data'', d), (''url'', JString u)])"
  shows "snd r = w' \<and> source resp = Some (JString u) \<and>
         (\<exists>v. get_property d field = Inr v \<and> data_p resp = or_empty_object v)"
  using assms
  by (auto simp: respond_def get_property_def split: sum.splits)

lemma respond_succeeds:
  assumes "respond field r = (Inr resp, w')"
  shows "\<exists>a. r = (Inr a, w')"
  using assms
  by (auto simp: respond_def prod_eq_iff split: sum.splits option.splits)

subsection \<open>The envelope of a successful call\<close>

lemma FD_invoke:
  "invoke (FinancialDatasetsProvider_object this) r w =
     respond (FD_field r) (callApi this w (FD_endpoint r) (FD_params r))"
  by (cases r)
    (simp_all add: invoke_def FinancialDatasetsProvider_object_def FD_getIncomeStatements_def
      FD_getBalanceSheets_def FD_getCashFlowStatements_def FD_getAllFinancialStatements_def
      FD_getPriceSnapshot_def FD_getPriceHistory_def FD_getFinancialMetrics_def FD_getNews_def
      FD_getAnalystEstimates_def FD_getInsiderTrades_def FD_getFilings_def
      FD_getSegmentedRevenues_def)

lemma FD_endpoint_listed: "FD_endpoint r \<in> set FD_endpoints"
  by (cases r) (simp_all add: FD_endpoints_def)

lemma FD_params_typed: "api_params (FD_params r)"
  by (cases r)
    (auto simp: api_params_def api_value_def createFinancialStatementsParams_def list_all_iff
      split: option.splits)

lemma Yahoo_source:
  assumes "invoke YahooFinanceProvider_object r w = (Inr resp, w')"
  shows "source resp = Some (JString (provenance_id r)) \<and> w' = w"
proof (cases r)
  case (IncomeStatements ps)
  with assms show ?thesis
    by (auto simp: invoke_def YahooFinanceProvider_object_def Yahoo_getIncomeStatements_def
        provenance_id_def Let_def split: sum.splits)
next
  case (BalanceSheets ps)
  with assms show ?thesis
    by (auto simp: invoke_def YahooFinanceProvider_object_def Yahoo_getBalanceSheets_def
        provenance_id_def Let_def split: sum.splits)
next
  case (CashFlowStatements ps)
  with assms show ?thesis
    by (auto simp: invoke_def YahooFinanceProvider_object_def Yahoo_getCashFlowStatements_def
        provenance_id_def Let_def split: sum.splits)
next
  case (AllFinancialStatements ps)
  with assms show ?thesis
    by (auto simp: invoke_def YahooFinanceProvider_object_def
        Yahoo_getAllFinancialStatements_def provenance_id_def split: sum.splits)
next
  case (PriceSnapshot ps)
  with assms show ?thesis
    by (auto simp: invoke_def YahooFinanceProvider_object_def Yahoo_getPriceSnapshot_def
        provenance_id_def split: sum.splits)
next
  case (PriceHistory ps)
  with assms show ?thesis
    by (auto simp: invoke_def YahooFinanceProvider_object_def Yahoo_getPriceHistory_def
        provenance_id_def Let_def split: sum.splits)
next
  case (FinancialMetrics ps)
  with assms show ?thesis
    by (auto simp: invoke_def YahooFinanceProvider_object_def Yahoo_getFinancialMetrics_def
        provenance_id_def Let_def split: sum.splits)
next
  case (News ps)
  with assms show ?thesis
    by (auto simp: invoke_def YahooFinanceProvider_object_def Yahoo_getNews_def
        provenance_id_def split: sum.splits option.splits if_splits)
next
  case (AnalystEstimates ps)
  with assms show ?thesis
    by (simp add: invoke_def YahooFinanceProvider_object_def)
next
  case (InsiderTrades ps)
  with assms show ?thesis
    by (simp add: invoke_def YahooFinanceProvider_object_def)
next
  case (Filings ps)
  with assms show ?thesis
    by (simp add: invoke_def YahooFinanceProvider_object_def)
next
  case (SegmentedRevenues ps)
  with assms show ?thesis
    by (simp add: invoke_def YahooFinanceProvider_object_def)
qed

lemma is_url_nonempty: "is_url t \<Longrightarrow> t \<noteq> []"
  by (auto simp: is_url_def)

lemma provenance_id_shape: "is_provenance_id (provenance_id r) \<and> provenance_id r \<noteq> []"
  by (simp add: is_provenance_id_def provenance_id_def)

lemma FinancialDatasets_source:
  assumes sound: "cache_sound (disk w)"
    and call: "invoke (FinancialDatasetsProvider_object this) r w = (Inr resp, w')"
  shows "cache_sound (disk w') \<and>
         (\<exists>u d v. source resp = Some (JString u) \<and> is_url u \<and>
            get_property d (FD_field r) = Inr v \<and> data_p resp = or_empty_object v \<and>
            ((u = FD_url r \<and>
              (\<exists>k response. apiKey this = Some k \<and> fetch w (FD_url r) k = Inr response \<and>
                 ok response \<and> json_r response = Inr d)) \<or>
             (enableCache this \<and> w' = w \<and>
              (\<exists>k e endpoint ps.
                 generateKey (md5_of w) (''financialdatasets_'' @ FD_endpoint r) (FD_params r) =
                   Inr k \<and>
                 nodes (disk w) (getFilePath (cache this) k) = Some (File (Stringified e)) \<and>
                 now_at_get w - timestamp e < ttl (cache this) \<and>
                 data e = JObject [(''data'', d), (''url'', JString u)] \<and>
                 endpoint \<in> set FD_endpoints \<and> u = url_toString endpoint ps))))"
proof -
  from call have resp: "respond (FD_field r) (callApi this w (FD_endpoint r) (FD_params r)) =
      (Inr resp, w')"
    by (simp add: FD_invoke)
  from respond_succeeds [OF resp]
  obtain a where a: "callApi this w (FD_endpoint r) (FD_params r) = (Inr a, w')"
    by blast
  from callApi_result [OF sound FD_endpoint_listed a]
  obtain d u where sound': "cache_sound (disk w')"
    and shape: "a = JObject [(''data'', d), (''url'', JString u)]" and isurl: "is_url u"
    and origin: "(u = url_toString (FD_endpoint r) (FD_params r) \<and>
              (\<exists>k response. apiKey this = Some k \<and>
                 fetch w (url_toString (FD_endpoint r) (FD_params r)) k = Inr response \<and>
                 ok response \<and> json_r response = Inr d)) \<or>
             (enableCache this \<and> w' = w \<and>
              (\<exists>k e endpoint' ps'.
                 generateKey (md5_of w) (''financialdatasets_'' @ FD_endpoint r) (FD_params r) =
                   Inr k \<and>
                 nodes (disk w) (getFilePath (cache this) k) = Some (File (Stringified e)) \<and>
                 now_at_get w - timestamp e < ttl (cache this) \<and>
                 data e = a \<and> endpoint' \<in> set FD_endpoints \<and>
                 u = url_toString endpoint' ps'))"
    by blast
  from respond_result [OF resp, of d u] a shape
  obtain v where src: "source resp = Some (JString u)"
    and field: "get_property d (FD_field r) = Inr v" and dat: "data_p resp = or_empty_object v"
    by auto
  from origin shape have "(u = FD_url r \<and>
              (\<exists>k response. apiKey this = Some k \<and> fetch w (FD_url r) k = Inr response \<and>
                 ok response \<and> json_r response = Inr d)) \<or>
             (enableCache this \<and> w' = w \<and>
              (\<exists>k e endpoint ps.
                 generateKey (md5_of w) (''financialdatasets_'' @ FD_endpoint r) (FD_params r) =
                   Inr k \<and>
                 nodes (disk w) (getFilePath (cache this) k) = Some (File (Stringified e)) \<and>
                 now_at_get w - timestamp e < ttl (cache this) \<and>
                 data e = JObject [(''data'', d), (''url'', JString u)] \<and>
                 endpoint \<in> set FD_endpoints \<and> u = url_toString endpoint ps))"
    unfolding FD_url_def by blast
  with sound' src isurl field dat show ?thesis by blast
qed

text \<open>
  Claim C8: a call of a method of either provider that returns, returns an envelope
  whose source is a non-empty string.

  For \<open>YahooFinanceProvider\<close> it is the identifier \<open>yahoo-finance:\<close>, the ticker
  of the request and the kind of data asked for, and nothing else has changed.

  For \<open>FinancialDatasetsProvider\<close> it is a URL: the URL of the request, which has just
  been fetched and answered, the data of the envelope being the property of the body; or,
  when the cache is enabled and the file of the request's key holds an entry younger than
  the time-to-live, the URL stored in that entry, which is the URL of a request to an
  endpoint of the API, the data being the property of the stored body.

  The cache the provider reads is sound (it holds the responses \<open>callApi\<close> stored), and
  stays sound.
\<close>

theorem provider_envelope_source:
  assumes "cache_sound (disk w)"
    and "p = FinancialDatasetsProvider_object this \<or> p = YahooFinanceProvider_object"
    and "invoke p r w = (Inr resp, w')"
  shows "(\<exists>u. source resp = Some (JString u) \<and> u \<noteq> [] \<and>
            (is_url u \<or> is_provenance_id u) \<and>
            (p = YahooFinanceProvider_object \<longrightarrow>
               u = provenance_id r \<and> is_provenance_id u \<and> w' = w) \<and>
            (p = FinancialDatasetsProvider_object this \<longrightarrow>
               is_url u \<and>
               (\<exists>d v. get_property d (FD_field r) = Inr v \<and>
                  data_p resp = or_empty_object v \<and>
                  ((u = FD_url r \<and>
                    (\<exists>k response. apiKey this = Some k \<and>
                       fetch w (FD_url r) k = Inr response \<and> ok response \<and>
                       json_r response = Inr d)) \<or>
                   (enableCache this \<and> w' = w \<and>
                    (\<exists>k e endpoint ps.
                       generateKey (md5_of w) (''financialdatasets_'' @ FD_endpoint r)
                         (FD_params r) = Inr k \<and>
                       nodes (disk w) (getFilePath (cache this) k) =
                         Some (File (Stringified e)) \<and>
                       now_at_get w - timestamp e < ttl (cache this) \<and>
                       data e = JObject [(''data'', d), (''url'', JString u)] \<and>
                       endpoint \<in> set FD_endpoints \<and> u = url_toString endpoint ps)))))) \<and>
         cache_sound (disk w')"
proof -
  have differ: "FinancialDatasetsProvider_object this \<noteq> YahooFinanceProvider_object"
    by (simp add: FinancialDatasetsProvider_object_def YahooFinanceProvider_object_def)
  from assms(2) show ?thesis
  proof
    assume fd: "p = FinancialDatasetsProvider_object this"
    from FinancialDatasets_source [OF assms(1) assms(3) [unfolded fd]]
    obtain u d v where sound': "cache_sound (disk w')"
      and src: "source resp = Some (JString u)" and isurl: "is_url u"
      and field: "get_property d (FD_field r) = Inr v"
      and dat: "data_p resp = or_empty_object v"
      and origin: "(u = FD_url r \<and>
                    (\<exists>k response. apiKey this = Some k \<and>
                       fetch w (FD_url r) k = Inr response \<and> ok response \<and>
                       json_r response = Inr d)) \<or>
                   (enableCache this \<and> w' = w \<and>
                    (\<exists>k e endpoint ps.
                       generateKey (md5_of w) (''financialdatasets_'' @ FD_endpoint r)
                         (FD_params r) = Inr k \<and>
                       nodes (disk w) (getFilePath (cache this) k) =
                         Some (File (Stringified e)) \<and>
                       now_at_get w - timestamp e < ttl (cache this) \<and>
                       data e = JObject [(''data'', d), (''url'', JString u)] \<and>
                       endpoint \<in> set FD_endpoints \<and> u = url_toString endpoint ps))"
      by blast
    from isurl have nonempty: "u \<noteq> []"
      by (rule is_url_nonempty)
    from src nonempty isurl field dat origin sound' differ show ?thesis
      unfolding fd by blast
  next
    assume yahoo: "p = YahooFinanceProvider_object"
    from Yahoo_source [OF assms(3) [unfolded yahoo]]
    have src: "source resp = Some (JString (provenance_id r))" and same: "w' = w"
      by simp_all
    from src same assms(1) provenance_id_shape [of r] show ?thesis
      unfolding yahoo by (simp add: differ [symmetric])
  qed
qed

lemma warm_disk_sound: "cache_sound warm_disk"
proof -
  have "''https://api.financialdatasets.ai/prices/?ticker=AAPL'' =
      url_toString ''/prices/'' [(''ticker'', Some (JString ''AAPL''))]"
    by (simp add: url_toString_def BASE_URL_def urlencode_def urlencode_char_def)
  moreover have "''/prices/'' \<in> set FD_endpoints"
    by (simp add: FD_endpoints_def)
  ultimately have "stored_response (JObject
      [(''data'', JObject [(''prices'', JArray [JObject [(''close'', JNumber 189)]])]),
       (''url'', JString ''https://api.financialdatasets.ai/prices/?ticker=AAPL'')])"
    unfolding stored_response_def by blast
  then show ?thesis
    by (auto simp: cache_sound_def warm_disk_def cache_disk_def home_disk_def split: if_splits)
qed

theorem provider_envelope_source_witness:
  "invoke YahooFinanceProvider_object (PriceSnapshot \<lparr>pp_ticker = ''AAPL'', pp_date = None\<rparr>)
     example_world =
   (Inr \<lparr>data_p = JObject [(''prices'', JArray [JObject
            [(''ticker'', JString ''AAPL''), (''date'', JString ''2026-01-04''),
             (''price'', JNumber 189), (''close'', JNumber 189), (''volume'', JNumber 1000)]])],
          source = Some (JString ''yahoo-finance:AAPL:price-snapshot'')\<rparr>, example_world) \<and>
   provenance_id (PriceSnapshot \<lparr>pp_ticker = ''AAPL'', pp_date = None\<rparr>) =
     ''yahoo-finance:AAPL:price-snapshot'' \<and>
   invoke (FinancialDatasetsProvider_object
             \<lparr>apiKey = Some ''key'', cache = example_cache, enableCache = True\<rparr>)
     (PriceSnapshot \<lparr>pp_ticker = ''AAPL'', pp_date = None\<rparr>) example_world =
   (Inr \<lparr>data_p = JArray [JObject [(''ticker'', JString ''AAPL'')]],
          source = Some (JString ''https://api.financialdatasets.ai/prices/?ticker=AAPL'')\<rparr>,
    example_world) \<and>
   invoke (FinancialDatasetsProvider_object
             \<lparr>apiKey = Some ''key'', cache = example_cache, enableCache = True\<rparr>)
     (PriceSnapshot \<lparr>pp_ticker = ''AAPL'', pp_date = None\<rparr>) warm_world =
   (Inr \<lparr>data_p = JArray [JObject [(''close'', JNumber 189)]],
          source = Some (JString ''https://api.financialdatasets.ai/prices/?ticker=AAPL'')\<rparr>,
    warm_world) \<and>
   is_url ''https://api.financialdatasets.ai/prices/?ticker=AAPL''"
proof -
  let ?req = "PriceSnapshot \<lparr>pp_ticker = ''AAPL'', pp_date = None\<rparr>"
  let ?fd = "\<lparr>apiKey = Some ''key'', cache = example_cache, enableCache = True\<rparr>"
  let ?ps = "[(''ticker'', Some (JString ''AAPL'')), (''date'', None)]"
  let ?k = "''financialdatasets_/prices/_0000000000000000000000000000001c''"
  let ?yresp = "\<lparr>data_p = JObject [(''prices'', JArray [JObject
            [(''ticker'', JString ''AAPL''), (''date'', JString ''2026-01-04''),
             (''price'', JNumber 189), (''close'', JNumber 189), (''volume'', JNumber 1000)]])],
          source = Some (JString ''yahoo-finance:AAPL:price-snapshot'')\<rparr>"
  let ?fresp = "\<lparr>data_p = JArray [JObject [(''ticker'', JString ''AAPL'')]],
         source = Some (JString ''https://api.financialdatasets.ai/prices/?ticker=AAPL'')\<rparr>"
  let ?cresp = "\<lparr>data_p = JArray [JObject [(''close'', JNumber 189)]],
         source = Some (JString ''https://api.financialdatasets.ai/prices/?ticker=AAPL'')\<rparr>"
  have sound: "cache_sound (disk example_world)"
    by (simp add: cache_sound_def example_world_def cache_disk_def home_disk_def)
  have warm: "cache_sound (disk warm_world)"
    by (simp add: warm_world_def warm_disk_sound)
  have yahoo: "invoke YahooFinanceProvider_object ?req example_world = (Inr ?yresp, example_world)"
    by (simp add: invoke_def YahooFinanceProvider_object_def Yahoo_getPriceSnapshot_def
        example_world_def object_literal_def string_or_def)
  have key: "generateKey example_md5 ''financialdatasets_/prices/'' ?ps = Inr ?k"
    by (simp add: generateKey_def example_md5_def Object_keys_def
      property_def stringify_in_template_def json_quote_def escape_char_def hex_digest_def
      hex_nibble_def Let_def upt_rec)
  have path: "getFilePath example_cache ?k =
      [''home'', ''dexter'', ''.dexter'', ''cache'', ''financialdatasets_'', ''prices'',
       ''_0000000000000000000000000000001c.json'']"
    by (simp add: getFilePath_def path_join_def add_segment_def example_cache_def)
  have ep: "''/prices/'' \<in> set FD_endpoints"
    by (simp add: FD_endpoints_def)
  have empty: "\<forall>rest. nodes (disk example_world)
      (cacheDir example_cache @ ''financialdatasets_'' # rest) = None"
    by (simp add: example_world_def cache_disk_def home_disk_def example_cache_def)
  from endpoint_write_fails [OF ep empty, of example_md5 _ ?ps] key
  have miss: "set_cache example_md5 example_cache now (disk example_world)
        ''financialdatasets_/prices/'' ?ps payload = (Inr (), disk example_world)"
      "get example_md5 example_cache now' (disk example_world)
        ''financialdatasets_/prices/'' ?ps = (Inr None, disk example_world)"
    for now now' payload
    by simp_all
  have fd: "invoke (FinancialDatasetsProvider_object ?fd) ?req example_world =
      (Inr ?fresp, example_world)"
    unfolding invoke_def FinancialDatasetsProvider_object_def FD_getPriceSnapshot_def
      callApi_def respond_def Let_def
    using miss
    by (simp add: example_world_def url_toString_def BASE_URL_def urlencode_def
        urlencode_char_def get_property_def or_empty_object_def falsy_def)
  have ttl: "ttl example_cache = 86400000"
    by (simp add: example_cache_def)
  have allowed: "refusal warm_disk call (getFilePath example_cache ?k) = None" for call
    unfolding path
    by (simp add: refusal_def warm_disk_def cache_disk_def home_disk_def
        path_bytes_def PATH_MAX_def NAME_MAX_def)
  have hit: "get example_md5 example_cache 1700000000000 warm_disk
        ''financialdatasets_/prices/'' ?ps =
      (Inr (Some (JObject
         [(''data'', JObject [(''prices'', JArray [JObject [(''close'', JNumber 189)]])]),
          (''url'', JString ''https://api.financialdatasets.ai/prices/?ticker=AAPL'')])),
       warm_disk)"
    unfolding get_with_key [OF key]
    using allowed [unfolded path] ttl
    by (simp add: existsSync_def readFileSync_def isValid_def path warm_disk_def)
  have cached: "invoke (FinancialDatasetsProvider_object ?fd) ?req warm_world =
      (Inr ?cresp, warm_world)"
    unfolding invoke_def FinancialDatasetsProvider_object_def FD_getPriceSnapshot_def
      callApi_def respond_def Let_def
    using hit
    by (simp add: warm_world_def example_world_def get_property_def or_empty_object_def
        falsy_def)
  from provider_envelope_source [OF sound _ yahoo]
  have y: "provenance_id ?req = ''yahoo-finance:AAPL:price-snapshot''"
    by simp
  from provider_envelope_source [OF sound _ fd]
  have f: "is_url ''https://api.financialdatasets.ai/prices/?ticker=AAPL''"
    by auto
  from provider_envelope_source [OF warm _ cached]
  have "cache_sound (disk warm_world)"
    by blast
  with y f yahoo fd cached show ?thesis by simp
qed

subsection \<open>Capabilities a provider does not support\<close>

lemma Yahoo_unsupported:
  "method_of YahooFinanceProvider_object r = None \<longleftrightarrow>
     (\<exists>ps. r = AnalystEstimates ps) \<or> (\<exists>ps. r = InsiderTrades ps) \<or>
     (\<exists>ps. r = Filings ps) \<or> (\<exists>ps. r = SegmentedRevenues ps)"
  by (cases r) (simp_all add: YahooFinanceProvider_object_def)

lemma FinancialDatasets_supports_all:
  "method_of (FinancialDatasetsProvider_object this) r \<noteq> None"
  by (cases r) (simp_all add: FinancialDatasetsProvider_object_def)

text \<open>
  Claim C6: dispatching a capability the provider does not support fails with
  UnsupportedCapability and leaves the world as it is, whatever the provider; the
  optional operations a provider object lacks are such capabilities; for the Yahoo
  provider these are analyst estimates, insider trades, filings and segment revenue
  (it defines \<open>getNews\<close>), and the FinancialDatasets provider supports every capability.
\<close>

theorem unsupported_capability:
  "(\<not> supports p r \<longrightarrow> dispatch p r w = (Inl UnsupportedCapability, w)) \<and>
   (getNews p = None \<longrightarrow> dispatch p (News n) w = (Inl UnsupportedCapability, w)) \<and>
   (getAnalystEstimates p = None \<longrightarrow>
      dispatch p (AnalystEstimates e) w = (Inl UnsupportedCapability, w)) \<and>
   (getInsiderTrades p = None \<longrightarrow>
      dispatch p (InsiderTrades i) w = (Inl UnsupportedCapability, w)) \<and>
   (getFilings p = None \<longrightarrow> dispatch p (Filings f) w = (Inl UnsupportedCapability, w)) \<and>
   (getSegmentedRevenues p = None \<longrightarrow>
      dispatch p (SegmentedRevenues g) w = (Inl UnsupportedCapability, w)) \<and>
   dispatch YahooFinanceProvider_object (AnalystEstimates e) w = (Inl UnsupportedCapability, w) \<and>
   dispatch YahooFinanceProvider_object (InsiderTrades i) w = (Inl UnsupportedCapability, w) \<and>
   dispatch YahooFinanceProvider_object (Filings f) w = (Inl UnsupportedCapability, w) \<and>
   dispatch YahooFinanceProvider_object (SegmentedRevenues g) w = (Inl UnsupportedCapability, w) \<and>
   supports YahooFinanceProvider_object (News n) \<and>
   supports (FinancialDatasetsProvider_object this) r"
  by (simp add: dispatch_def supports_def YahooFinanceProvider_object_def
      FinancialDatasets_supports_all)

theorem unsupported_capability_witness:
  "\<not> supports YahooFinanceProvider_object
      (InsiderTrades \<lparr>it_ticker = ''AAPL'', it_start_date = None, it_end_date = None,
                       it_limit = Some 10\<rparr>) \<and>
   dispatch YahooFinanceProvider_object
      (InsiderTrades \<lparr>it_ticker = ''AAPL'', it_start_date = None, it_end_date = None,
                       it_limit = Some 10\<rparr>) example_world
     = (Inl UnsupportedCapability, example_world) \<and>
   invoke YahooFinanceProvider_object
      (InsiderTrades \<lparr>it_ticker = ''AAPL'', it_start_date = None, it_end_date = None,
                       it_limit = Some 10\<rparr>) example_world
     = (Inl TypeError, example_world)"
proof -
  let ?r = "InsiderTrades \<lparr>it_ticker = ''AAPL'', it_start_date = None, it_end_date = None,
                       it_limit = Some 10\<rparr>"
  have lacks: "\<not> supports YahooFinanceProvider_object ?r"
    by (simp add: supports_def YahooFinanceProvider_object_def)
  with unsupported_capability [of YahooFinanceProvider_object ?r example_world]
  have "dispatch YahooFinanceProvider_object ?r example_world =
      (Inl UnsupportedCapability, example_world)"
    by blast
  moreover have "invoke YahooFinanceProvider_object ?r example_world =
      (Inl TypeError, example_world)"
    by (simp add: invoke_def YahooFinanceProvider_object_def)
  ultimately show ?thesis using lacks by simp
qed

section \<open>Properties of the orchestration loop\<close>

lemma dispatch_task_calls:
  "executor_calls (fst (dispatch_task cfg s t)) = executor_calls s @ [t]"
  by (simp add: dispatch_task_def Let_def split: execution.splits verdict.splits)

lemma dispatch_task_inv:
  assumes "budget_inv cfg s" and "\<not> budgets_used_up cfg s"
  shows "budget_inv cfg (fst (dispatch_task cfg s t))"
  using assms
  by (simp add: budget_inv_def budgets_used_up_def dispatch_task_steps dispatch_task_calls)

lemma execute_wave_inv:
  "budget_inv cfg s \<Longrightarrow> budget_inv cfg (fst (execute_wave cfg s ts))"
proof (induction ts arbitrary: s)
  case Nil
  then show ?case by simp
next
  case (Cons t ts)
  show ?case
  proof (cases "budgets_used_up cfg s")
    case True
    with Cons.prems show ?thesis by simp
  next
    case False
    with Cons.prems have "budget_inv cfg (fst (dispatch_task cfg s t))"
      by (simp add: dispatch_task_inv)
    then have "budget_inv cfg (fst (execute_wave cfg (fst (dispatch_task cfg s t)) ts))"
      by (rule Cons.IH)
    with False show ?thesis by (simp add: Let_def)
  qed
qed

lemma enter_inv: "budget_inv cfg (enter ph s) = budget_inv cfg s"
  by (simp add: budget_inv_def enter_def)

lemma stalled_inv: "budget_inv cfg (s\<lparr>stalled := b\<rparr>) = budget_inv cfg s"
  by (simp add: budget_inv_def)

lemma round_inv: "budget_inv cfg s \<Longrightarrow> budget_inv cfg (fst (round cfg s vs))"
  by (simp add: round_def Let_def enter_inv stalled_inv execute_wave_inv)

lemma finish_inv: "budget_inv cfg (finish s) = budget_inv cfg s"
  by (simp add: finish_def enter_inv)

lemma run_loop_inv: "budget_inv cfg s \<Longrightarrow> budget_inv cfg (run_loop cfg s vs)"
proof (induction cfg s vs rule: run_loop.induct)
  case (1 cfg s vs)
  from "1.prems" have inv: "budget_inv cfg (fst (round cfg s vs))"
    by (rule round_inv)
  show ?case
  proof (cases "phase_of (fst (round cfg s vs)) = Planning")
    case True
    with inv "1.IH" show ?thesis by (subst run_loop.simps) simp
  next
    case False
    with inv show ?thesis by (subst run_loop.simps) (simp add: finish_inv)
  qed
qed

lemma round_budget_synthesizing:
  assumes "planner cfg s vs \<noteq> []"
    and "budgets_used_up cfg (fst (round cfg s vs))"
  shows "phase_of (fst (round cfg s vs)) = Synthesizing"
proof (cases "budgets_used_up cfg s")
  case True
  with assms(1) show ?thesis by (simp add: round_def Let_def enter_def)
next
  case False
  let ?w = "execute_wave cfg (enter Executing s) (planner cfg s vs)"
  let ?s2 = "enter Reflecting (enter Validating (fst ?w))"
  have "budgets_used_up cfg ?s2"
    using assms False by (simp add: round_def Let_def enter_def budgets_used_up_def)
  then have "fst (reflect cfg ?s2 (snd ?w)) = Synthesizing"
    by (simp add: reflect_def)
  with assms(1) False show ?thesis by (simp add: round_def Let_def enter_def)
qed

text \<open>
  Claim C1: whatever the Planner, the Executor and the Validator do, the loop started in
  the initial state returns, and the Executor has then been invoked at most \<open>maxSteps\<close>
  times; Reflecting with a budget used up decides for Synthesizing; and a round that
  ends with a budget used up ends in Synthesizing: the loop stops there, in Done, with
  the artifacts gathered so far and without another dispatch.
\<close>

theorem budget_cap:
  "length (executor_calls (run_loop cfg initial_state [])) \<le> maxSteps cfg \<and>
   (budgets_used_up cfg s \<longrightarrow> fst (reflect cfg s vs) = Synthesizing) \<and>
   (planner cfg s vs \<noteq> [] \<and> budgets_used_up cfg (fst (round cfg s vs)) \<longrightarrow>
      phase_of (fst (round cfg s vs)) = Synthesizing \<and>
      run_loop cfg s vs = enter Done (fst (round cfg s vs)) \<and>
      artifacts (run_loop cfg s vs) = artifacts (fst (round cfg s vs)) \<and>
      executor_calls (run_loop cfg s vs) = executor_calls (fst (round cfg s vs)))"
proof -
  have "budget_inv cfg initial_state"
    by (simp add: budget_inv_def initial_state_def)
  then have "budget_inv cfg (run_loop cfg initial_state [])"
    by (rule run_loop_inv)
  then have cap: "length (executor_calls (run_loop cfg initial_state [])) \<le> maxSteps cfg"
    by (simp add: budget_inv_def)
  have forced: "fst (reflect cfg s vs) = Synthesizing" if "budgets_used_up cfg s"
    using that by (simp add: reflect_def)
  have stop: "phase_of (fst (round cfg s vs)) = Synthesizing \<and>
      run_loop cfg s vs = enter Done (fst (round cfg s vs)) \<and>
      artifacts (run_loop cfg s vs) = artifacts (fst (round cfg s vs)) \<and>
      executor_calls (run_loop cfg s vs) = executor_calls (fst (round cfg s vs))"
    if "planner cfg s vs \<noteq> []" and "budgets_used_up cfg (fst (round cfg s vs))"
  proof -
    from that have ph: "phase_of (fst (round cfg s vs)) = Synthesizing"
      by (rule round_budget_synthesizing)
    then have "run_loop cfg s vs = enter Done (fst (round cfg s vs))"
      by (subst run_loop.simps) (simp add: finish_def)
    with ph show ?thesis by (simp add: enter_def)
  qed
  from cap forced stop show ?thesis by blast
qed

theorem budget_cap_witness:
  "length (executor_calls (run_loop scenario_C initial_state [])) = 3 \<and>
   maxSteps scenario_C = 3 \<and>
   visited (run_loop scenario_C initial_state []) =
     [Planning, Executing, Validating, Reflecting,
      Planning, Executing, Validating, Reflecting,
      Planning, Executing, Validating, Reflecting, Synthesizing, Done]"
proof -
  have run: "length (executor_calls (run_loop scenario_C initial_state [])) = 3 \<and>
   visited (run_loop scenario_C initial_state []) =
     [Planning, Executing, Validating, Reflecting,
      Planning, Executing, Validating, Reflecting,
      Planning, Executing, Validating, Reflecting, Synthesizing, Done]"
    by (simp add: scenario_C_def initial_state_def round_def enter_def Let_def finish_def
        dispatch_task_def reflect_def budgets_used_up_def loop_detected_def)
  from budget_cap [of scenario_C]
  have "length (executor_calls (run_loop scenario_C initial_state [])) \<le> maxSteps scenario_C"
    by blast
  moreover have "maxSteps scenario_C = 3"
    by (simp add: scenario_C_def)
  ultimately show ?thesis using run by simp
qed

end
